theory Spec2Isabelle
  imports Main "HOL-Library.Sublist" "HOL-Library.AList"
begin

section \<open>Python values used by the hunters\<close>

subsection \<open>Strings\<close>

text \<open>
  A Python string is modelled by the bytes of its UTF-8 encoding. Python's \<open>s in t\<close> on
  two strings, \<open>s\<close> occurs in \<open>t\<close> as a contiguous run, is the same test on the two
  encodings.
\<close>

fun py_in :: "string \<Rightarrow> string \<Rightarrow> bool" where
  "py_in s [] = (s = [])"
| "py_in s (c # cs) = (prefix s (c # cs) \<or> py_in s cs)"

text \<open>
  \<open>str.lower\<close> itself is a parameter of the model (see \<open>env\<close> below): it follows the
  Unicode case tables and is not a map over the characters. On ASCII text it is known: the
  letters \<open>A\<close> to \<open>Z\<close> go to \<open>a\<close> to \<open>z\<close> and every other character stays.
\<close>

definition is_ascii :: "string \<Rightarrow> bool" where
  "is_ascii s = list_all (\<lambda>c. (of_char c :: nat) < 128) s"

definition capitals :: string where
  "capitals = ''ABCDEFGHIJKLMNOPQRSTUVWXYZ''"

definition smalls :: string where
  "smalls = ''abcdefghijklmnopqrstuvwxyz''"

definition ascii_lower_char :: "char \<Rightarrow> char" where
  "ascii_lower_char c = (case map_of (zip capitals smalls) c of Some d \<Rightarrow> d | None \<Rightarrow> c)"

definition ascii_lower :: "string \<Rightarrow> string" where
  "ascii_lower s = map ascii_lower_char s"

text \<open>
  The specification's notion, written from its words and without reference to any
  lowering: two characters are the same letter up to case when they are equal or one is
  the capital of the other, and an indicator is a case-insensitive substring of a body
  when the body contains a run of the indicator's length that agrees with the indicator
  letter by letter up to case.
\<close>

definition same_letter :: "char \<Rightarrow> char \<Rightarrow> bool" where
  "same_letter a b =
     (a = b \<or> (a, b) \<in> set (zip capitals smalls) \<or> (b, a) \<in> set (zip capitals smalls))"

definition ci_substring :: "string \<Rightarrow> string \<Rightarrow> bool" where
  "ci_substring indicator body =
     (\<exists>before run after. body = before @ run @ after \<and> list_all2 same_letter indicator run)"

subsection \<open>Exceptions\<close>

text \<open>
  Only two classes of exception are told apart by the handlers of the source:
  \<open>asyncio.TimeoutError\<close> (and its subclasses) and every other \<open>Exception\<close>. The
  string carried is what \<open>str(e)\<close> returns.
\<close>

datatype exception = TimeoutError string | Exception string

fun str :: "exception \<Rightarrow> string" where
  "str (TimeoutError m) = m"
| "str (Exception m) = m"

subsection \<open>Configuration (core/config.py)\<close>

record config =
  user_agents :: "string list"
  timeout :: nat
  max_workers :: nat
  verify_ssl :: bool

definition default_config :: config where
  "default_config = \<lparr>
     user_agents =
       [''Mozilla/5.0 (Windows NT 10.0; Win64; x64) AppleWebKit/537.36 (KHTML, like Gecko) Chrome/91.0.4472.124 Safari/537.36'',
        ''Mozilla/5.0 (Macintosh; Intel Mac OS X 10_15_7) AppleWebKit/537.36 (KHTML, like Gecko) Chrome/91.0.4472.124 Safari/537.36'',
        ''Mozilla/5.0 (X11; Linux x86_64) AppleWebKit/537.36 (KHTML, like Gecko) Chrome/91.0.4472.124 Safari/537.36'',
        ''Mozilla/5.0 (Windows NT 10.0; Win64; x64; rv:89.0) Gecko/20100101 Firefox/89.0'',
        ''Mozilla/5.0 (Macintosh; Intel Mac OS X 10.15; rv:89.0) Gecko/20100101 Firefox/89.0''],
     timeout = 10,
     max_workers = 50,
     verify_ssl = True \<rparr>"

section \<open>The world outside the program\<close>

text \<open>
  A session is what \<open>create_session\<close> builds: an \<open>aiohttp.ClientSession\<close> over a
  connector with a connection limit. \<open>sid\<close> numbers the session instances in the order in
  which they are created.
\<close>

record session =
  sid :: nat
  total_timeout :: nat
  limit :: nat
  verify :: bool
  default_agent :: string

text \<open>
  An HTTP response: its status and what \<open>await response.text()\<close> does (it returns the
  body or raises).
\<close>

record response =
  status :: int
  text_result :: "exception + string"

text \<open>
  The behaviour of the library and of the network is a parameter of the model:
  \<^item> \<open>format t u\<close> is Python's \<open>t.format(u)\<close>, which returns a string or raises;
  \<^item> \<open>lower s\<close> is Python's \<open>s.lower()\<close>;
  \<^item> \<open>pick xs\<close> is the element \<open>random.choice\<close> takes from a non-empty list;
  \<^item> \<open>get s url agent\<close> is entering \<open>s.get(url, headers=...)\<close>: a response or an
    exception (a timeout, a DNS, connection or TLS failure);
  \<^item> \<open>close s\<close> is \<open>await s.close()\<close>: \<open>Some e\<close> when it raises \<open>e\<close>.
\<close>

record env =
  format :: "string \<Rightarrow> string \<Rightarrow> exception + string"
  lower :: "string \<Rightarrow> string"
  pick :: "string list \<Rightarrow> string"
  get :: "session \<Rightarrow> string \<Rightarrow> string \<Rightarrow> exception + response"
  close :: "session \<Rightarrow> exception option"

text \<open>
  The effects of a run: the sessions created and closed, and the requests sent, each with
  the session that carried it, the platform whose probe sent it and the URL.
\<close>

record world =
  created :: "session list"
  closed :: "nat list"
  requests :: "(nat \<times> string \<times> string) list"

definition random_choice :: "env \<Rightarrow> string list \<Rightarrow> exception + string" where
  "random_choice e xs =
     (if xs = [] then Inl (Exception ''Cannot choose from an empty sequence'')
      else Inr (pick e xs))"

section \<open>Platform definitions and probe results\<close>

record platform_data =
  url :: string
  check_url :: string
  indicators :: "string list"
  not_found_indicators :: "string list"

text \<open>A catalog is a Python dict from platform name to definition, in insertion order.\<close>

type_synonym catalog = "(string \<times> platform_data) list"

text \<open>
  A probe result is a dict; a key the source leaves out is \<open>None\<close> here. \<open>profile_url\<close>
  is the key \<open>'url'\<close>.
\<close>

record result =
  platform :: string
  username :: string
  profile_url :: string
  exists :: bool
  status_code :: "int option"
  response_time :: "nat option"
  additional_info :: "(string \<times> string) list option"
  error :: "string option"

text \<open>
  The two tests of the probe,
  \<open>any(indicator.lower() in content.lower() for indicator in ...)\<close>.
\<close>

definition positive_indicators :: "env \<Rightarrow> platform_data \<Rightarrow> string \<Rightarrow> bool" where
  "positive_indicators e pd content =
     list_ex (\<lambda>indicator. py_in (lower e indicator) (lower e content)) (indicators pd)"

definition negative_indicators :: "env \<Rightarrow> platform_data \<Rightarrow> string \<Rightarrow> bool" where
  "negative_indicators e pd content =
     list_ex (\<lambda>indicator. py_in (lower e indicator) (lower e content))
       (not_found_indicators pd)"

text \<open>
  \<open>self.session.get(url, headers=headers)\<close>: with no session the attribute lookup on
  \<open>None\<close> raises; otherwise the request is sent.
\<close>

definition session_get ::
  "env \<Rightarrow> session option \<Rightarrow> world \<Rightarrow> string \<Rightarrow> string \<Rightarrow> string \<Rightarrow> (exception + response) \<times> world" where
  "session_get e sess w p u agent =
     (case sess of
        None \<Rightarrow> (Inl (Exception ('''NoneType' object has no attribute 'get'' @ [CHR 0x27])), w)
      | Some s \<Rightarrow> (get e s u agent, w\<lparr>requests := requests w @ [(sid s, p, u)]\<rparr>))"

section \<open>The probe: \<open>check_username_on_platform\<close>\<close>

subsection \<open>SocialMediaHunter (engines/social_media.py)\<close>

text \<open>\<open>extract_additional_info\<close>: every branch is \<open>pass\<close>, the dict stays empty.\<close>

definition extract_additional_info :: "string \<Rightarrow> string \<Rightarrow> (string \<times> string) list" where
  "extract_additional_info content p =
     (if p = ''twitter'' then []
      else if p = ''github'' then []
      else if p = ''linkedin'' then []
      else [])"

text \<open>The body of the \<open>try\<close>, from the first statement to \<open>return result\<close>.\<close>

definition sm_try ::
  "env \<Rightarrow> config \<Rightarrow> session option \<Rightarrow> world \<Rightarrow> string \<Rightarrow> string \<Rightarrow> platform_data
     \<Rightarrow> (exception + result) \<times> world" where
  "sm_try e cfg sess w u p pd =
     (case format e (check_url pd) u of
        Inl x \<Rightarrow> (Inl x, w)
      | Inr target \<Rightarrow>
     (case random_choice e (user_agents cfg) of
        Inl x \<Rightarrow> (Inl x, w)
      | Inr agent \<Rightarrow>
     (let (got, w1) = session_get e sess w p target agent in
      case got of
        Inl x \<Rightarrow> (Inl x, w1)
      | Inr resp \<Rightarrow>
     (case text_result resp of
        Inl x \<Rightarrow> (Inl x, w1)
      | Inr content \<Rightarrow>
     (case format e (url pd) u of
        Inl x \<Rightarrow> (Inl x, w1)
      | Inr shown \<Rightarrow>
     (let r = \<lparr> platform = p, username = u, profile_url = shown, exists = False,
                status_code = Some (status resp), response_time = Some 0,
                additional_info = Some [], error = None \<rparr>
      in if status resp = 200 then
           (if positive_indicators e pd content \<and> \<not> negative_indicators e pd content
            then (Inr (r\<lparr>exists := True,
                          additional_info := Some (extract_additional_info content p)\<rparr>), w1)
            else (Inr r, w1))
         else if status resp = 404 then (Inr (r\<lparr>exists := False\<rparr>), w1)
         else (Inr r, w1)))))))"

text \<open>
  The two handlers. Each builds its dict with \<open>platform_data['url'].format(username)\<close>
  again, which raises out of the handler when it raised before.
\<close>

definition sm_on_timeout :: "env \<Rightarrow> string \<Rightarrow> string \<Rightarrow> platform_data \<Rightarrow> exception + result" where
  "sm_on_timeout e u p pd =
     (case format e (url pd) u of
        Inl x \<Rightarrow> Inl x
      | Inr shown \<Rightarrow>
          Inr \<lparr> platform = p, username = u, profile_url = shown, exists = False,
                status_code = Some 0, response_time = None, additional_info = None,
                error = Some ''Timeout'' \<rparr>)"

definition sm_on_exception ::
  "env \<Rightarrow> string \<Rightarrow> string \<Rightarrow> platform_data \<Rightarrow> exception \<Rightarrow> exception + result" where
  "sm_on_exception e u p pd x =
     (case format e (url pd) u of
        Inl y \<Rightarrow> Inl y
      | Inr shown \<Rightarrow>
          Inr \<lparr> platform = p, username = u, profile_url = shown, exists = False,
                status_code = Some 0, response_time = None, additional_info = None,
                error = Some (str x) \<rparr>)"

definition sm_check_username_on_platform ::
  "env \<Rightarrow> config \<Rightarrow> session option \<Rightarrow> world \<Rightarrow> string \<Rightarrow> string \<Rightarrow> platform_data
     \<Rightarrow> (exception + result) \<times> world" where
  "sm_check_username_on_platform e cfg sess w u p pd =
     (let (out, w1) = sm_try e cfg sess w u p pd in
      case out of
        Inr r \<Rightarrow> (Inr r, w1)
      | Inl (TimeoutError m) \<Rightarrow> (sm_on_timeout e u p pd, w1)
      | Inl (Exception m) \<Rightarrow> (sm_on_exception e u p pd (Exception m), w1))"

subsection \<open>UsernameHunter (engines/username_hunter.py)\<close>

definition uh_try ::
  "env \<Rightarrow> config \<Rightarrow> session option \<Rightarrow> world \<Rightarrow> string \<Rightarrow> string \<Rightarrow> platform_data
     \<Rightarrow> (exception + result) \<times> world" where
  "uh_try e cfg sess w u p pd =
     (case format e (check_url pd) u of
        Inl x \<Rightarrow> (Inl x, w)
      | Inr target \<Rightarrow>
     (case random_choice e (user_agents cfg) of
        Inl x \<Rightarrow> (Inl x, w)
      | Inr agent \<Rightarrow>
     (let (got, w1) = session_get e sess w p target agent in
      case got of
        Inl x \<Rightarrow> (Inl x, w1)
      | Inr resp \<Rightarrow>
     (case text_result resp of
        Inl x \<Rightarrow> (Inl x, w1)
      | Inr content \<Rightarrow>
     (case format e (url pd) u of
        Inl x \<Rightarrow> (Inl x, w1)
      | Inr shown \<Rightarrow>
     (let r = \<lparr> platform = p, username = u, profile_url = shown, exists = False,
                status_code = Some (status resp), response_time = None,
                additional_info = Some [], error = None \<rparr>
      in if status resp = 200 then
           (if positive_indicators e pd content \<and> \<not> negative_indicators e pd content
            then (Inr (r\<lparr>exists := True\<rparr>), w1)
            else (Inr r, w1))
         else (Inr r, w1)))))))"

text \<open>The single handler, \<open>except Exception as e\<close>, which a timeout reaches too.\<close>

definition uh_on_exception ::
  "env \<Rightarrow> string \<Rightarrow> string \<Rightarrow> platform_data \<Rightarrow> exception \<Rightarrow> exception + result" where
  "uh_on_exception e u p pd x =
     (case format e (url pd) u of
        Inl y \<Rightarrow> Inl y
      | Inr shown \<Rightarrow>
          Inr \<lparr> platform = p, username = u, profile_url = shown, exists = False,
                status_code = None, response_time = None, additional_info = None,
                error = Some (str x) \<rparr>)"

definition uh_check_username_on_platform ::
  "env \<Rightarrow> config \<Rightarrow> session option \<Rightarrow> world \<Rightarrow> string \<Rightarrow> string \<Rightarrow> platform_data
     \<Rightarrow> (exception + result) \<times> world" where
  "uh_check_username_on_platform e cfg sess w u p pd =
     (let (out, w1) = uh_try e cfg sess w u p pd in
      case out of
        Inr r \<Rightarrow> (Inr r, w1)
      | Inl x \<Rightarrow> (uh_on_exception e u p pd x, w1))"

section \<open>Sessions\<close>

text \<open>What the two hunter classes share: the configuration and \<open>self.session\<close>.\<close>

record hunter =
  config :: config
  session :: "session option"

definition create_session ::
  "env \<Rightarrow> 'a hunter_scheme \<Rightarrow> world \<Rightarrow> exception + ('a hunter_scheme \<times> world)" where
  "create_session e h w =
     (case random_choice e (user_agents (config h)) of
        Inl x \<Rightarrow> Inl x
      | Inr agent \<Rightarrow>
          (let s = \<lparr> sid = length (created w), total_timeout = timeout (config h),
                      limit = max_workers (config h), verify = verify_ssl (config h),
                      default_agent = agent \<rparr>
           in Inr (h\<lparr>session := Some s\<rparr>, w\<lparr>created := created w @ [s]\<rparr>)))"

text \<open>
  \<open>close_session\<close>: when \<open>await self.session.close()\<close> raises, the assignment
  \<open>self.session = None\<close> after it does not run.
\<close>

definition close_session ::
  "env \<Rightarrow> 'a hunter_scheme \<Rightarrow> world \<Rightarrow> exception option \<times> 'a hunter_scheme \<times> world" where
  "close_session e h w =
     (case session h of
        None \<Rightarrow> (None, h, w)
      | Some s \<Rightarrow>
          (case close e s of
             Some x \<Rightarrow> (Some x, h, w)
           | None \<Rightarrow> (None, h\<lparr>session := None\<rparr>, w\<lparr>closed := closed w @ [sid s]\<rparr>)))"

text \<open>The \<open>finally\<close> block of every hunt: close, and log instead of raising.\<close>

definition finally_close :: "env \<Rightarrow> 'a hunter_scheme \<Rightarrow> world \<Rightarrow> 'a hunter_scheme \<times> world" where
  "finally_close e h w = (let (x, h1, w1) = close_session e h w in (h1, w1))"

text \<open>\<open>if not self.session: await self.create_session()\<close>\<close>

definition ensure_session ::
  "env \<Rightarrow> 'a hunter_scheme \<Rightarrow> world \<Rightarrow> exception + ('a hunter_scheme \<times> world)" where
  "ensure_session e h w = (if session h = None then create_session e h w else Inr (h, w))"

section \<open>Dispatch\<close>

text \<open>
  One task per entry of the dict, in its order, then
  \<open>asyncio.gather(*tasks, return_exceptions=True)\<close>: the list holds, for each task in
  order, its result or the exception it raised. The probes share no state but the log, so
  running them one after the other gives the results of any interleaving.
\<close>

fun gather ::
  "(world \<Rightarrow> string \<Rightarrow> platform_data \<Rightarrow> (exception + result) \<times> world) \<Rightarrow> catalog \<Rightarrow> world
     \<Rightarrow> (exception + result) list \<times> world" where
  "gather probe [] w = ([], w)"
| "gather probe ((p, pd) # items) w =
     (let (r, w1) = probe w p pd;
          (rs, w2) = gather probe items w1
      in (r # rs, w2))"

text \<open>
  The loop \<open>if isinstance(result, dict) and result.get('exists', False):
  valid_results.append(result)\<close>.
\<close>

fun valid_results :: "(exception + result) list \<Rightarrow> result list" where
  "valid_results [] = []"
| "valid_results (Inr r # rest) =
     (if exists r then r # valid_results rest else valid_results rest)"
| "valid_results (Inl x # rest) = valid_results rest"

text \<open>
  The loop that fills \<open>platforms_to_check\<close>: an entry whose name is in the list of adult
  platforms is skipped unless \<open>include_adult\<close> is set.
\<close>

fun platforms_to_check :: "string list \<Rightarrow> bool \<Rightarrow> catalog \<Rightarrow> catalog \<Rightarrow> catalog" where
  "platforms_to_check adult include_adult [] acc = acc"
| "platforms_to_check adult include_adult ((p, pd) # items) acc =
     (if p \<in> set adult \<and> \<not> include_adult
      then platforms_to_check adult include_adult items acc
      else platforms_to_check adult include_adult items (AList.update p pd acc))"

subsection \<open>SocialMediaHunter.hunt_username\<close>

record social_media_hunter = hunter +
  platforms :: catalog

definition sm_adult_platforms :: "string list" where
  "sm_adult_platforms =
     [''pornhub'', ''xvideos'', ''redtube'', ''onlyfans'', ''chaturbate'',
      ''cam4'', ''myfreecams'', ''stripchat'', ''livejasmin'', ''bongacams'',
      ''camsoda'', ''fetlife'']"

definition hunt_username ::
  "env \<Rightarrow> social_media_hunter \<Rightarrow> world \<Rightarrow> string \<Rightarrow> bool
     \<Rightarrow> (exception + result list) \<times> social_media_hunter \<times> world" where
  "hunt_username e h w u include_adult =
     (case ensure_session e h w of
        Inl x \<Rightarrow> (Inl x, h, w)
      | Inr (h1, w1) \<Rightarrow>
          (let todo = platforms_to_check sm_adult_platforms include_adult (platforms h1) [];
               (results, w2) =
                 gather (\<lambda>w p pd. sm_check_username_on_platform e (config h1) (session h1) w u p pd)
                   todo w1
           in (let (h3, w3) = finally_close e h1 w2
               in (Inr (valid_results results), h3, w3))))"

subsection \<open>UsernameHunter\<close>

record username_hunter = hunter +
  general_sites :: catalog
  developer_platforms :: catalog
  forums :: catalog
  gaming_platforms :: catalog

definition hunt_platforms ::
  "env \<Rightarrow> username_hunter \<Rightarrow> world \<Rightarrow> string \<Rightarrow> catalog
     \<Rightarrow> (exception + result list) \<times> username_hunter \<times> world" where
  "hunt_platforms e h w u todo =
     (case ensure_session e h w of
        Inl x \<Rightarrow> (Inl x, h, w)
      | Inr (h1, w1) \<Rightarrow>
          (let (results, w2) =
                 gather (\<lambda>w p pd. uh_check_username_on_platform e (config h1) (session h1) w u p pd)
                   todo w1
           in (let (h3, w3) = finally_close e h1 w2
               in (Inr (valid_results results), h3, w3))))"

definition uh_adult_platforms :: "string list" where
  "uh_adult_platforms =
     [''adultfriendfinder'', ''ashley_madison'', ''seeking'', ''alt_com'',
      ''swappernet'', ''faphouse'', ''manyvids'', ''clips4sale'', ''iwantclips'',
      ''justforfans'']"

definition hunt_general_sites ::
  "env \<Rightarrow> username_hunter \<Rightarrow> world \<Rightarrow> string \<Rightarrow> bool
     \<Rightarrow> (exception + result list) \<times> username_hunter \<times> world" where
  "hunt_general_sites e h w u include_adult =
     hunt_platforms e h w u
       (platforms_to_check uh_adult_platforms include_adult (general_sites h) [])"

definition hunt_developer_platforms ::
  "env \<Rightarrow> username_hunter \<Rightarrow> world \<Rightarrow> string
     \<Rightarrow> (exception + result list) \<times> username_hunter \<times> world" where
  "hunt_developer_platforms e h w u = hunt_platforms e h w u (developer_platforms h)"

definition hunt_forums ::
  "env \<Rightarrow> username_hunter \<Rightarrow> world \<Rightarrow> string
     \<Rightarrow> (exception + result list) \<times> username_hunter \<times> world" where
  "hunt_forums e h w u = hunt_platforms e h w u (forums h)"

definition hunt_gaming_platforms ::
  "env \<Rightarrow> username_hunter \<Rightarrow> world \<Rightarrow> string
     \<Rightarrow> (exception + result list) \<times> username_hunter \<times> world" where
  "hunt_gaming_platforms e h w u = hunt_platforms e h w u (gaming_platforms h)"

text \<open>
  \<open>hunt_adult_platforms\<close> builds its dict by subscripting \<open>self.general_sites\<close> with ten
  fixed names, in order; a missing name raises \<open>KeyError\<close>, whose \<open>str\<close> is the quoted
  name.
\<close>

fun subscript_all :: "catalog \<Rightarrow> string list \<Rightarrow> catalog \<Rightarrow> exception + catalog" where
  "subscript_all sites [] acc = Inr acc"
| "subscript_all sites (k # ks) acc =
     (case map_of sites k of
        None \<Rightarrow> Inl (Exception ([CHR 0x27] @ k @ [CHR 0x27]))
      | Some pd \<Rightarrow> subscript_all sites ks (AList.update k pd acc))"

definition hunt_adult_platforms ::
  "env \<Rightarrow> username_hunter \<Rightarrow> world \<Rightarrow> string
     \<Rightarrow> (exception + result list) \<times> username_hunter \<times> world" where
  "hunt_adult_platforms e h w u =
     (case subscript_all (general_sites h) uh_adult_platforms [] of
        Inl x \<Rightarrow> (Inl x, h, w)
      | Inr adult \<Rightarrow> hunt_platforms e h w u adult)"

text \<open>
  \<open>hunt_all_platforms\<close>: the dict literal awaits the four hunts in order, the fifth key is
  set when \<open>include_adult\<close> holds; an exception of any hunt ends the call.
\<close>

definition hunt_all_platforms ::
  "env \<Rightarrow> username_hunter \<Rightarrow> world \<Rightarrow> string \<Rightarrow> bool
     \<Rightarrow> (exception + (string \<times> result list) list) \<times> username_hunter \<times> world" where
  "hunt_all_platforms e h w u include_adult =
     (let (r1, h1, w1) = hunt_general_sites e h w u include_adult in
      case r1 of Inl x \<Rightarrow> (Inl x, h1, w1) | Inr general \<Rightarrow>
     (let (r2, h2, w2) = hunt_developer_platforms e h1 w1 u in
      case r2 of Inl x \<Rightarrow> (Inl x, h2, w2) | Inr developer \<Rightarrow>
     (let (r3, h3, w3) = hunt_forums e h2 w2 u in
      case r3 of Inl x \<Rightarrow> (Inl x, h3, w3) | Inr forum \<Rightarrow>
     (let (r4, h4, w4) = hunt_gaming_platforms e h3 w3 u in
      case r4 of Inl x \<Rightarrow> (Inl x, h4, w4) | Inr gaming \<Rightarrow>
     (let results = [(''general_sites'', general), (''developer_platforms'', developer),
                     (''forums'', forum), (''gaming_platforms'', gaming)]
      in if include_adult then
           (let (r5, h5, w5) = hunt_adult_platforms e h4 w4 u in
            case r5 of
              Inl x \<Rightarrow> (Inl x, h5, w5)
            | Inr adult \<Rightarrow> (Inr (AList.update ''adult_platforms'' adult results), h5, w5))
         else (Inr results, h4, w4))))))"

text \<open>\<open>SocialMediaHunter.add_custom_platform\<close>\<close>

definition add_custom_platform ::
  "social_media_hunter \<Rightarrow> string \<Rightarrow> string \<Rightarrow> string list \<Rightarrow> string list \<Rightarrow> social_media_hunter" where
  "add_custom_platform h name url_pattern inds not_found_inds =
     h\<lparr>platforms :=
         AList.update name
           \<lparr> url = url_pattern, check_url = url_pattern, indicators = inds,
             not_found_indicators = not_found_inds \<rparr>
           (platforms h)\<rparr>"

section \<open>BreachChecker (engines/breach_checker.py)\<close>

text \<open>
  A breach record is a dict; \<open>web_url\<close> is its key \<open>'url'\<close> and \<open>note_text\<close> its key
  \<open>'note'\<close>.
\<close>

record breach_result =
  source :: string
  email :: string
  found :: bool
  breaches :: "string list option"
  web_url :: "string option"
  note_text :: string

text \<open>The report; \<open>checked_email\<close> is its key \<open>'email'\<close>.\<close>

record breach_report =
  checked_email :: string
  total_breaches_found :: nat
  breach_sources :: "string list"
  risk_level :: string
  recommendations :: "string list"
  last_checked :: "string option"

definition check_haveibeenpwned ::
  "env \<Rightarrow> config \<Rightarrow> session option \<Rightarrow> world \<Rightarrow> string \<Rightarrow> breach_result option \<times> world" where
  "check_haveibeenpwned e cfg sess w addr =
     (case random_choice e (user_agents cfg) of
        Inl x \<Rightarrow> (None, w)
      | Inr agent \<Rightarrow>
     (let target = ''https://haveibeenpwned.com/account/'' @ addr;
          (got, w1) =
            session_get e sess w ''Have I Been Pwned'' target
              (case sess of None \<Rightarrow> [] | Some s \<Rightarrow> default_agent s)
      in case got of
           Inl x \<Rightarrow> (None, w1)
         | Inr resp \<Rightarrow>
             (if status resp = 200 then
                (case text_result resp of
                   Inl x \<Rightarrow> (None, w1)
                 | Inr content \<Rightarrow>
                     (if list_ex (\<lambda>indicator. py_in indicator (lower e content))
                           [''pwned'', ''breach'', ''found'']
                      then (Some \<lparr> source = ''Have I Been Pwned'', email = addr, found = True,
                                   breaches = Some [], web_url = Some target,
                                   note_text = ''Manual verification required - automated checking requires API key'' \<rparr>,
                            w1)
                      else (None, w1)))
              else (None, w1))))"

text \<open>
  \<open>check_breachdirectory\<close> sends nothing: it draws a user agent for headers it never
  uses and returns the placeholder; an exception of the draw is logged and \<open>None\<close>
  returned.
\<close>

definition check_breachdirectory :: "env \<Rightarrow> config \<Rightarrow> string \<Rightarrow> breach_result option" where
  "check_breachdirectory e cfg addr =
     (case random_choice e (user_agents cfg) of
        Inl x \<Rightarrow> None
      | Inr agent \<Rightarrow>
          Some \<lparr> source = ''Breach Directory'', email = addr, found = False,
                 breaches = None, web_url = None,
                 note_text = ''Manual check required at https://breachdirectory.org/'' \<rparr>)"

definition check_local_breach_files :: "string \<Rightarrow> breach_result list" where
  "check_local_breach_files addr = []"

definition check_pastebins :: "string \<Rightarrow> breach_result list" where
  "check_pastebins addr = []"

definition check_social_media_breaches :: "string \<Rightarrow> breach_result list" where
  "check_social_media_breaches addr = []"

definition generate_breach_report :: "string \<Rightarrow> breach_result list \<Rightarrow> breach_report" where
  "generate_breach_report addr results =
     (let breach_report =
            \<lparr> checked_email = addr, total_breaches_found = length results,
              breach_sources = [], risk_level = ''Unknown'', recommendations = [],
              last_checked = None \<rparr>
      in if results \<noteq> [] then
           breach_report
             \<lparr> breach_sources := map source results,
               risk_level :=
                 (if length results \<ge> 5 then ''High''
                  else if length results \<ge> 2 then ''Medium''
                  else if length results \<ge> 1 then ''Low''
                  else ''Clean''),
               recommendations :=
                 (if results \<noteq> [] then
                    [''Change passwords for all accounts associated with this email'',
                     ''Enable two-factor authentication where possible'',
                     ''Monitor accounts for suspicious activity'',
                     ''Consider using a password manager'',
                     ''Check credit reports for unauthorized accounts'']
                  else []) \<rparr>
         else breach_report)"

text \<open>\<open>if result: results.append(result)\<close>\<close>

definition append_if :: "breach_result option \<Rightarrow> breach_result list \<Rightarrow> breach_result list" where
  "append_if result results = (case result of None \<Rightarrow> results | Some r \<Rightarrow> results @ [r])"

definition check_breaches ::
  "env \<Rightarrow> hunter \<Rightarrow> world \<Rightarrow> string \<Rightarrow> (exception + breach_report) \<times> hunter \<times> world" where
  "check_breaches e h w addr =
     (case ensure_session e h w of
        Inl x \<Rightarrow> (Inl x, h, w)
      | Inr (h1, w1) \<Rightarrow>
          (let (pwned, w2) = check_haveibeenpwned e (config h1) (session h1) w1 addr;
               results = append_if pwned [];
               results = append_if (check_breachdirectory e (config h1) addr) results;
               results = results @ check_local_breach_files addr;
               results = results @ check_pastebins addr;
               results = results @ check_social_media_breaches addr;
               report = generate_breach_report addr results
           in (let (h3, w3) = finally_close e h1 w2
               in (Inr report, h3, w3))))"

section \<open>The catalogs of the source\<close>

text \<open>
  The dicts that the two constructors assign, entry by entry. A template with an at sign
  before its braces is written as two pieces appended.
\<close>

definition sm_platforms_init :: catalog where
  "sm_platforms_init =
     [
      (''twitter'',
       \<lparr> url = ''https://twitter.com/{}'',
         check_url = ''https://twitter.com/{}'',
         indicators = [''Profile'', ''Joined'', ''Following'', ''Followers''],
         not_found_indicators = [''This account doesn't exist'', ''Account suspended''] \<rparr>),
      (''instagram'',
       \<lparr> url = ''https://instagram.com/{}'',
         check_url = ''https://instagram.com/{}'',
         indicators = [''followers'', ''following'', ''posts''],
         not_found_indicators = [''Sorry, this page isn't available''] \<rparr>),
      (''facebook'',
       \<lparr> url = ''https://facebook.com/{}'',
         check_url = ''https://facebook.com/{}'',
         indicators = [''Facebook''],
         not_found_indicators = [''This content isn't available''] \<rparr>),
      (''linkedin'',
       \<lparr> url = ''https://linkedin.com/in/{}'',
         check_url = ''https://linkedin.com/in/{}'',
         indicators = [''LinkedIn'', ''connections'', ''Experience''],
         not_found_indicators = [''This profile doesn't exist''] \<rparr>),
      (''github'',
       \<lparr> url = ''https://github.com/{}'',
         check_url = ''https://github.com/{}'',
         indicators = [''repositories'', ''followers'', ''following''],
         not_found_indicators = [''Not Found''] \<rparr>),
      (''youtube'',
       \<lparr> url = ''https://youtube.com/@'' @ ''{}'',
         check_url = ''https://youtube.com/@'' @ ''{}'',
         indicators = [''subscribers'', ''videos'', ''YouTube''],
         not_found_indicators = [''This channel doesn't exist''] \<rparr>),
      (''tiktok'',
       \<lparr> url = ''https://tiktok.com/@'' @ ''{}'',
         check_url = ''https://tiktok.com/@'' @ ''{}'',
         indicators = [''Following'', ''Followers'', ''Likes''],
         not_found_indicators = [''Couldn't find this account''] \<rparr>),
      (''reddit'',
       \<lparr> url = ''https://reddit.com/user/{}'',
         check_url = ''https://reddit.com/user/{}'',
         indicators = [''Post Karma'', ''Comment Karma''],
         not_found_indicators = [''page not found''] \<rparr>),
      (''pinterest'',
       \<lparr> url = ''https://pinterest.com/{}'',
         check_url = ''https://pinterest.com/{}'',
         indicators = [''Pinterest'', ''pins'', ''boards''],
         not_found_indicators = [''Sorry, we couldn't find that page''] \<rparr>),
      (''snapchat'',
       \<lparr> url = ''https://snapchat.com/add/{}'',
         check_url = ''https://snapchat.com/add/{}'',
         indicators = [''Snapchat''],
         not_found_indicators = [''Oh snap! Something went wrong''] \<rparr>),
      (''discord'',
       \<lparr> url = ''https://discord.com/users/{}'',
         check_url = ''https://discord.com/users/{}'',
         indicators = [''Discord''],
         not_found_indicators = [''User not found''] \<rparr>),
      (''twitch'',
       \<lparr> url = ''https://twitch.tv/{}'',
         check_url = ''https://twitch.tv/{}'',
         indicators = [''Twitch'', ''followers'', ''following''],
         not_found_indicators = [''Sorry. Unless you've got a time machine''] \<rparr>),
      (''spotify'',
       \<lparr> url = ''https://open.spotify.com/user/{}'',
         check_url = ''https://open.spotify.com/user/{}'',
         indicators = [''Spotify'', ''playlists''],
         not_found_indicators = [''Page not found''] \<rparr>),
      (''medium'',
       \<lparr> url = ''https://medium.com/@'' @ ''{}'',
         check_url = ''https://medium.com/@'' @ ''{}'',
         indicators = [''Medium'', ''followers'', ''following''],
         not_found_indicators = [''Page not found''] \<rparr>),
      (''devto'',
       \<lparr> url = ''https://dev.to/{}'',
         check_url = ''https://dev.to/{}'',
         indicators = [''DEV Community'', ''posts'', ''followers''],
         not_found_indicators = [''404''] \<rparr>),
      (''behance'',
       \<lparr> url = ''https://behance.net/{}'',
         check_url = ''https://behance.net/{}'',
         indicators = [''Behance'', ''projects'', ''followers''],
         not_found_indicators = [''Page Not Found''] \<rparr>),
      (''dribbble'',
       \<lparr> url = ''https://dribbble.com/{}'',
         check_url = ''https://dribbble.com/{}'',
         indicators = [''Dribbble'', ''shots'', ''followers''],
         not_found_indicators = [''Page not found''] \<rparr>),
      (''vimeo'',
       \<lparr> url = ''https://vimeo.com/{}'',
         check_url = ''https://vimeo.com/{}'',
         indicators = [''Vimeo'', ''videos'', ''followers''],
         not_found_indicators = [''Page not found''] \<rparr>),
      (''soundcloud'',
       \<lparr> url = ''https://soundcloud.com/{}'',
         check_url = ''https://soundcloud.com/{}'',
         indicators = [''SoundCloud'', ''followers'', ''following''],
         not_found_indicators = [''We can't find that user''] \<rparr>),
      (''tumblr'',
       \<lparr> url = ''https://{}.tumblr.com'',
         check_url = ''https://{}.tumblr.com'',
         indicators = [''Tumblr''],
         not_found_indicators = [''There's nothing here''] \<rparr>),
      (''flickr'',
       \<lparr> url = ''https://flickr.com/people/{}'',
         check_url = ''https://flickr.com/people/{}'',
         indicators = [''Flickr'', ''photos''],
         not_found_indicators = [''Page not found''] \<rparr>),
      (''pornhub'',
       \<lparr> url = ''https://pornhub.com/users/{}'',
         check_url = ''https://pornhub.com/users/{}'',
         indicators = [''profile'', ''videos'', ''subscribers''],
         not_found_indicators = [''User not found'', ''Page not found''] \<rparr>),
      (''xvideos'',
       \<lparr> url = ''https://xvideos.com/profiles/{}'',
         check_url = ''https://xvideos.com/profiles/{}'',
         indicators = [''profile'', ''videos''],
         not_found_indicators = [''User not found'', ''Profile not found''] \<rparr>),
      (''redtube'',
       \<lparr> url = ''https://redtube.com/users/{}'',
         check_url = ''https://redtube.com/users/{}'',
         indicators = [''profile'', ''videos''],
         not_found_indicators = [''User not found''] \<rparr>),
      (''onlyfans'',
       \<lparr> url = ''https://onlyfans.com/{}'',
         check_url = ''https://onlyfans.com/{}'',
         indicators = [''OnlyFans'', ''profile''],
         not_found_indicators = [''User not found'', ''Page not found''] \<rparr>),
      (''chaturbate'',
       \<lparr> url = ''https://chaturbate.com/{}'',
         check_url = ''https://chaturbate.com/{}'',
         indicators = [''chaturbate'', ''profile''],
         not_found_indicators = [''User not found''] \<rparr>),
      (''cam4'',
       \<lparr> url = ''https://cam4.com/{}'',
         check_url = ''https://cam4.com/{}'',
         indicators = [''cam4'', ''profile''],
         not_found_indicators = [''User not found''] \<rparr>),
      (''myfreecams'',
       \<lparr> url = ''https://profiles.myfreecams.com/{}'',
         check_url = ''https://profiles.myfreecams.com/{}'',
         indicators = [''MyFreeCams'', ''profile''],
         not_found_indicators = [''Profile not found''] \<rparr>),
      (''stripchat'',
       \<lparr> url = ''https://stripchat.com/{}'',
         check_url = ''https://stripchat.com/{}'',
         indicators = [''stripchat'', ''profile''],
         not_found_indicators = [''User not found''] \<rparr>),
      (''livejasmin'',
       \<lparr> url = ''https://livejasmin.com/en/girl/{}'',
         check_url = ''https://livejasmin.com/en/girl/{}'',
         indicators = [''LiveJasmin'', ''profile''],
         not_found_indicators = [''Profile not found''] \<rparr>),
      (''bongacams'',
       \<lparr> url = ''https://bongacams.com/{}'',
         check_url = ''https://bongacams.com/{}'',
         indicators = [''BongaCams'', ''profile''],
         not_found_indicators = [''User not found''] \<rparr>),
      (''camsoda'',
       \<lparr> url = ''https://camsoda.com/{}'',
         check_url = ''https://camsoda.com/{}'',
         indicators = [''CamSoda'', ''profile''],
         not_found_indicators = [''User not found''] \<rparr>),
      (''fetlife'',
       \<lparr> url = ''https://fetlife.com/users/{}'',
         check_url = ''https://fetlife.com/users/{}'',
         indicators = [''FetLife'', ''profile'', ''kinks''],
         not_found_indicators = [''User not found''] \<rparr>)]"

definition uh_general_sites_init :: catalog where
  "uh_general_sites_init =
     [
      (''pastebin'',
       \<lparr> url = ''https://pastebin.com/u/{}'',
         check_url = ''https://pastebin.com/u/{}'',
         indicators = [''pastebin'', ''Public Pastes'', ''Profile''],
         not_found_indicators = [''Unknown User'', ''Not Found''] \<rparr>),
      (''about_me'',
       \<lparr> url = ''https://about.me/{}'',
         check_url = ''https://about.me/{}'',
         indicators = [''about.me'', ''profile''],
         not_found_indicators = [''Page not found''] \<rparr>),
      (''gravatar'',
       \<lparr> url = ''https://gravatar.com/{}'',
         check_url = ''https://gravatar.com/{}'',
         indicators = [''Gravatar'', ''avatar''],
         not_found_indicators = [''Page not found''] \<rparr>),
      (''keybase'',
       \<lparr> url = ''https://keybase.io/{}'',
         check_url = ''https://keybase.io/{}'',
         indicators = [''Keybase'', ''proofs'', ''keys''],
         not_found_indicators = [''User not found''] \<rparr>),
      (''hackernews'',
       \<lparr> url = ''https://news.ycombinator.com/user?id={}'',
         check_url = ''https://news.ycombinator.com/user?id={}'',
         indicators = [''Hacker News'', ''karma'', ''submissions''],
         not_found_indicators = [''No such user''] \<rparr>),
      (''product_hunt'',
       \<lparr> url = ''https://producthunt.com/@'' @ ''{}'',
         check_url = ''https://producthunt.com/@'' @ ''{}'',
         indicators = [''Product Hunt'', ''followers'', ''following''],
         not_found_indicators = [''Page not found''] \<rparr>),
      (''angel_list'',
       \<lparr> url = ''https://angel.co/{}'',
         check_url = ''https://angel.co/{}'',
         indicators = [''AngelList'', ''angel.co''],
         not_found_indicators = [''Page not found''] \<rparr>),
      (''foursquare'',
       \<lparr> url = ''https://foursquare.com/{}'',
         check_url = ''https://foursquare.com/{}'',
         indicators = [''Foursquare'', ''check-ins''],
         not_found_indicators = [''Page not found''] \<rparr>),
      (''last_fm'',
       \<lparr> url = ''https://last.fm/user/{}'',
         check_url = ''https://last.fm/user/{}'',
         indicators = [''Last.fm'', ''scrobbles'', ''artists''],
         not_found_indicators = [''User not found''] \<rparr>),
      (''mix_cloud'',
       \<lparr> url = ''https://mixcloud.com/{}'',
         check_url = ''https://mixcloud.com/{}'',
         indicators = [''Mixcloud'', ''cloudcasts'', ''followers''],
         not_found_indicators = [''Page not found''] \<rparr>),
      (''adultfriendfinder'',
       \<lparr> url = ''https://adultfriendfinder.com/profile/{}'',
         check_url = ''https://adultfriendfinder.com/profile/{}'',
         indicators = [''AdultFriendFinder'', ''profile''],
         not_found_indicators = [''Profile not found'', ''User not found''] \<rparr>),
      (''ashley_madison'',
       \<lparr> url = ''https://ashleymadison.com/profile/{}'',
         check_url = ''https://ashleymadison.com/profile/{}'',
         indicators = [''Ashley Madison'', ''profile''],
         not_found_indicators = [''Profile not found''] \<rparr>),
      (''seeking'',
       \<lparr> url = ''https://seeking.com/member/{}'',
         check_url = ''https://seeking.com/member/{}'',
         indicators = [''Seeking'', ''profile''],
         not_found_indicators = [''Profile not found''] \<rparr>),
      (''alt_com'',
       \<lparr> url = ''https://alt.com/profile/{}'',
         check_url = ''https://alt.com/profile/{}'',
         indicators = [''Alt.com'', ''profile''],
         not_found_indicators = [''Profile not found''] \<rparr>),
      (''swappernet'',
       \<lparr> url = ''https://swappernet.com/{}'',
         check_url = ''https://swappernet.com/{}'',
         indicators = [''SwapperNet'', ''profile''],
         not_found_indicators = [''Profile not found''] \<rparr>),
      (''faphouse'',
       \<lparr> url = ''https://faphouse.com/models/{}'',
         check_url = ''https://faphouse.com/models/{}'',
         indicators = [''FapHouse'', ''model'', ''videos''],
         not_found_indicators = [''Model not found''] \<rparr>),
      (''manyvids'',
       \<lparr> url = ''https://manyvids.com/Profile/{}/Store/Videos/'',
         check_url = ''https://manyvids.com/Profile/{}/Store/Videos/'',
         indicators = [''ManyVids'', ''profile'', ''videos''],
         not_found_indicators = [''Profile not found''] \<rparr>),
      (''clips4sale'',
       \<lparr> url = ''https://clips4sale.com/studio/{}'',
         check_url = ''https://clips4sale.com/studio/{}'',
         indicators = [''Clips4Sale'', ''studio''],
         not_found_indicators = [''Studio not found''] \<rparr>),
      (''iwantclips'',
       \<lparr> url = ''https://iwantclips.com/store/{}'',
         check_url = ''https://iwantclips.com/store/{}'',
         indicators = [''iWantClips'', ''store''],
         not_found_indicators = [''Store not found''] \<rparr>),
      (''justforfans'',
       \<lparr> url = ''https://justfor.fans/{}'',
         check_url = ''https://justfor.fans/{}'',
         indicators = [''JustForFans'', ''profile''],
         not_found_indicators = [''Profile not found''] \<rparr>)]"

definition uh_developer_platforms_init :: catalog where
  "uh_developer_platforms_init =
     [
      (''github'',
       \<lparr> url = ''https://github.com/{}'',
         check_url = ''https://github.com/{}'',
         indicators = [''GitHub'', ''repositories'', ''followers''],
         not_found_indicators = [''Not Found''] \<rparr>),
      (''gitlab'',
       \<lparr> url = ''https://gitlab.com/{}'',
         check_url = ''https://gitlab.com/{}'',
         indicators = [''GitLab'', ''projects'', ''contributions''],
         not_found_indicators = [''Page not found''] \<rparr>),
      (''bitbucket'',
       \<lparr> url = ''https://bitbucket.org/{}'',
         check_url = ''https://bitbucket.org/{}'',
         indicators = [''Bitbucket'', ''repositories''],
         not_found_indicators = [''Page not found''] \<rparr>),
      (''stackoverflow'',
       \<lparr> url = ''https://stackoverflow.com/users/{}'',
         check_url = ''https://stackoverflow.com/users/{}'',
         indicators = [''Stack Overflow'', ''reputation'', ''answers''],
         not_found_indicators = [''User not found''] \<rparr>),
      (''codepen'',
       \<lparr> url = ''https://codepen.io/{}'',
         check_url = ''https://codepen.io/{}'',
         indicators = [''CodePen'', ''pens'', ''followers''],
         not_found_indicators = [''Page not found''] \<rparr>),
      (''replit'',
       \<lparr> url = ''https://replit.com/@'' @ ''{}'',
         check_url = ''https://replit.com/@'' @ ''{}'',
         indicators = [''Replit'', ''repls''],
         not_found_indicators = [''Page not found''] \<rparr>),
      (''hackerone'',
       \<lparr> url = ''https://hackerone.com/{}'',
         check_url = ''https://hackerone.com/{}'',
         indicators = [''HackerOne'', ''reputation'', ''reports''],
         not_found_indicators = [''Page not found''] \<rparr>),
      (''bugcrowd'',
       \<lparr> url = ''https://bugcrowd.com/{}'',
         check_url = ''https://bugcrowd.com/{}'',
         indicators = [''Bugcrowd'', ''researcher''],
         not_found_indicators = [''Page not found''] \<rparr>),
      (''kaggle'',
       \<lparr> url = ''https://kaggle.com/{}'',
         check_url = ''https://kaggle.com/{}'',
         indicators = [''Kaggle'', ''competitions'', ''datasets''],
         not_found_indicators = [''Page not found''] \<rparr>),
      (''dockerhub'',
       \<lparr> url = ''https://hub.docker.com/u/{}'',
         check_url = ''https://hub.docker.com/u/{}'',
         indicators = [''Docker Hub'', ''repositories''],
         not_found_indicators = [''Page not found''] \<rparr>),
      (''npm'',
       \<lparr> url = ''https://npmjs.com/~{}'',
         check_url = ''https://npmjs.com/~{}'',
         indicators = [''npm'', ''packages''],
         not_found_indicators = [''Page not found''] \<rparr>),
      (''pypi'',
       \<lparr> url = ''https://pypi.org/user/{}'',
         check_url = ''https://pypi.org/user/{}'',
         indicators = [''PyPI'', ''packages''],
         not_found_indicators = [''Page not found''] \<rparr>)]"

definition uh_forums_init :: catalog where
  "uh_forums_init =
     [
      (''reddit'',
       \<lparr> url = ''https://reddit.com/user/{}'',
         check_url = ''https://reddit.com/user/{}'',
         indicators = [''Reddit'', ''karma'', ''posts''],
         not_found_indicators = [''page not found''] \<rparr>),
      (''xda'',
       \<lparr> url = ''https://forum.xda-developers.com/member.php?username={}'',
         check_url = ''https://forum.xda-developers.com/member.php?username={}'',
         indicators = [''XDA'', ''posts'', ''thanks''],
         not_found_indicators = [''User not found''] \<rparr>),
      (''disqus'',
       \<lparr> url = ''https://disqus.com/by/{}'',
         check_url = ''https://disqus.com/by/{}'',
         indicators = [''Disqus'', ''comments''],
         not_found_indicators = [''Page not found''] \<rparr>),
      (''discourse'',
       \<lparr> url = ''https://meta.discourse.org/u/{}'',
         check_url = ''https://meta.discourse.org/u/{}'',
         indicators = [''Discourse'', ''posts'', ''topics''],
         not_found_indicators = [''Page not found''] \<rparr>)]"

definition uh_gaming_platforms_init :: catalog where
  "uh_gaming_platforms_init =
     [
      (''steam'',
       \<lparr> url = ''https://steamcommunity.com/id/{}'',
         check_url = ''https://steamcommunity.com/id/{}'',
         indicators = [''Steam'', ''games'', ''profile''],
         not_found_indicators = [''The specified profile could not be found''] \<rparr>),
      (''xbox'',
       \<lparr> url = ''https://xboxgamertag.com/search/{}'',
         check_url = ''https://xboxgamertag.com/search/{}'',
         indicators = [''Xbox'', ''gamertag''],
         not_found_indicators = [''Gamertag not found''] \<rparr>),
      (''playstation'',
       \<lparr> url = ''https://psnprofiles.com/{}'',
         check_url = ''https://psnprofiles.com/{}'',
         indicators = [''PSN'', ''trophies'', ''games''],
         not_found_indicators = [''User not found''] \<rparr>),
      (''epic'',
       \<lparr> url = ''https://fortnitetracker.com/profile/all/{}'',
         check_url = ''https://fortnitetracker.com/profile/all/{}'',
         indicators = [''Epic'', ''stats''],
         not_found_indicators = [''Player not found''] \<rparr>),
      (''battlenet'',
       \<lparr> url = ''https://playoverwatch.com/en-us/career/pc/{}'',
         check_url = ''https://playoverwatch.com/en-us/career/pc/{}'',
         indicators = [''Overwatch'', ''career''],
         not_found_indicators = [''Profile not found''] \<rparr>),
      (''minecraft'',
       \<lparr> url = ''https://namemc.com/profile/{}'',
         check_url = ''https://namemc.com/profile/{}'',
         indicators = [''Minecraft'', ''UUID''],
         not_found_indicators = [''Profile not found''] \<rparr>),
      (''roblox'',
       \<lparr> url = ''https://roblox.com/users/profile?username={}'',
         check_url = ''https://roblox.com/users/profile?username={}'',
         indicators = [''Roblox'', ''profile''],
         not_found_indicators = [''User not found''] \<rparr>)]"

text \<open>The constructors; the configuration is what \<open>Config()\<close> loaded.\<close>

definition SocialMediaHunter :: "config \<Rightarrow> social_media_hunter" where
  "SocialMediaHunter cfg = \<lparr> config = cfg, session = None, platforms = sm_platforms_init \<rparr>"

definition UsernameHunter :: "config \<Rightarrow> username_hunter" where
  "UsernameHunter cfg =
     \<lparr> config = cfg, session = None,
       general_sites = uh_general_sites_init,
       developer_platforms = uh_developer_platforms_init,
       forums = uh_forums_init,
       gaming_platforms = uh_gaming_platforms_init \<rparr>"

definition BreachChecker :: "config \<Rightarrow> hunter" where
  "BreachChecker cfg = \<lparr> config = cfg, session = None \<rparr>"

definition new_world :: world where
  "new_world = \<lparr> created = [], closed = [], requests = [] \<rparr>"

section \<open>Example worlds\<close>

text \<open>
  A stand-in for \<open>str.format\<close> on the templates of the catalogs, which hold one \<open>{}\<close>
  and no other brace: the first \<open>{}\<close> is replaced by the argument.
\<close>

fun fill :: "string \<Rightarrow> string \<Rightarrow> string" where
  "fill [] u = []"
| "fill (c # cs) u =
     (if c = CHR ''{'' \<and> take 1 cs = ''}'' then u @ drop 1 cs else c # fill cs u)"

text \<open>
  A world for ASCII text, whose network answers by URL alone and whose sessions close
  cleanly.
\<close>

definition example_env :: "(string \<Rightarrow> exception + response) \<Rightarrow> env" where
  "example_env transport =
     \<lparr> format = (\<lambda>t u. Inr (fill t u)), lower = ascii_lower, pick = hd,
       get = (\<lambda>s target agent. transport target), close = (\<lambda>s. None) \<rparr>"

text \<open>
  Greek text, in UTF-8: capital alpha is the bytes CE 91, capital sigma CE A3, small alpha
  CE B1, small sigma CF 83 and final small sigma CF 82. \<open>str.lower\<close> writes a capital
  sigma that ends a word as the final small sigma: the lower of capital alpha, capital
  sigma is small alpha, final small sigma, and the lower of capital alpha, capital sigma,
  capital alpha is small alpha, small sigma, small alpha.
\<close>

definition alpha_sigma :: string where
  "alpha_sigma = [CHR 0xCE, CHR 0x91, CHR 0xCE, CHR 0xA3]"

definition alpha_sigma_alpha :: string where
  "alpha_sigma_alpha = [CHR 0xCE, CHR 0x91, CHR 0xCE, CHR 0xA3, CHR 0xCE, CHR 0x91]"

definition greek_lower :: "string \<Rightarrow> string" where
  "greek_lower s =
     (if s = alpha_sigma then [CHR 0xCE, CHR 0xB1, CHR 0xCF, CHR 0x82]
      else if s = alpha_sigma_alpha then [CHR 0xCE, CHR 0xB1, CHR 0xCF, CHR 0x83, CHR 0xCE, CHR 0xB1]
      else ascii_lower s)"

definition greek_env :: "(string \<Rightarrow> exception + response) \<Rightarrow> env" where
  "greek_env transport = (example_env transport)\<lparr>lower := greek_lower\<rparr>"

definition greek_site :: platform_data where
  "greek_site =
     \<lparr> url = ''https://x.test/{}'', check_url = ''https://x.test/{}'',
       indicators = [alpha_sigma], not_found_indicators = [] \<rparr>"

definition answers :: "int \<Rightarrow> string \<Rightarrow> string \<Rightarrow> exception + response" where
  "answers code body target = Inr \<lparr> status = code, text_result = Inr body \<rparr>"

definition raises :: "exception \<Rightarrow> string \<Rightarrow> exception + response" where
  "raises x target = Inl x"

definition body_raises :: "int \<Rightarrow> exception \<Rightarrow> string \<Rightarrow> exception + response" where
  "body_raises code x target = Inr \<lparr> status = code, text_result = Inl x \<rparr>"

text \<open>The platform of the specification's scenarios.\<close>

definition example_site :: platform_data where
  "example_site =
     \<lparr> url = ''https://x.test/{}'', check_url = ''https://x.test/{}'',
       indicators = [''profile''], not_found_indicators = [''not found''] \<rparr>"

definition example_session :: session where
  "example_session =
     \<lparr> sid = 0, total_timeout = 10, limit = 50, verify = True, default_agent = ''agent'' \<rparr>"

definition example_config :: config where
  "example_config = \<lparr> user_agents = [''agent''], timeout = 10, max_workers = 50, verify_ssl = True \<rparr>"

text \<open>A second platform, and a network that answers for the first and refuses the second.\<close>

definition other_site :: platform_data where
  "other_site =
     \<lparr> url = ''https://y.test/{}'', check_url = ''https://y.test/{}'',
       indicators = [''profile''], not_found_indicators = [''not found''] \<rparr>"

definition example_catalog :: catalog where
  "example_catalog = [(''x'', example_site), (''y'', other_site)]"

definition example_transport :: "string \<Rightarrow> exception + response" where
  "example_transport target =
     (if target = ''https://x.test/testuser123''
      then answers 200 ''testuser123's profile page'' target
      else raises (Exception ''Cannot connect to host'') target)"

text \<open>A hunter with two empty categories.\<close>

definition small_hunter :: username_hunter where
  "small_hunter =
     \<lparr> config = example_config, session = None,
       general_sites = example_catalog, developer_platforms = [], forums = [],
       gaming_platforms = [(''y'', other_site)] \<rparr>"

text \<open>The hunter as constructed, but for a \<open>forums\<close> dict emptied.\<close>

definition hunter_without_forums :: username_hunter where
  "hunter_without_forums = (UsernameHunter example_config)\<lparr>forums := []\<rparr>"

section \<open>Strings: the test of the source against the specification's words\<close>

lemma py_in_iff: "py_in s t \<longleftrightarrow> (\<exists>ps ss. t = ps @ s @ ss)"
proof (induction t)
  case Nil
  then show ?case by auto
next
  case (Cons c cs)
  show ?case
  proof
    assume "py_in s (c # cs)"
    then consider "prefix s (c # cs)" | "py_in s cs" by auto
    then show "\<exists>ps ss. c # cs = ps @ s @ ss"
    proof cases
      case 1
      then obtain ss where "c # cs = s @ ss" by (auto simp: prefix_def)
      then have "c # cs = [] @ s @ ss" by simp
      then show ?thesis by blast
    next
      case 2
      with Cons obtain ps ss where "cs = ps @ s @ ss" by blast
      then have "c # cs = (c # ps) @ s @ ss" by simp
      then show ?thesis by blast
    qed
  next
    assume "\<exists>ps ss. c # cs = ps @ s @ ss"
    then obtain ps ss where eq: "c # cs = ps @ s @ ss" by blast
    show "py_in s (c # cs)"
    proof (cases ps)
      case Nil
      with eq have "prefix s (c # cs)" by (simp add: prefix_def)
      then show ?thesis by simp
    next
      case (Cons a as)
      with eq have "cs = as @ s @ ss" by simp
      with Cons.IH have "py_in s cs" by blast
      then show ?thesis by simp
    qed
  qed
qed

text \<open>The case table: twenty-six capitals, their small letters, no letter twice.\<close>

lemma case_table:
  "distinct (map fst (zip capitals smalls))"
  "distinct (map snd (zip capitals smalls))"
  "list_all (\<lambda>d. d \<notin> set (map fst (zip capitals smalls))) (map snd (zip capitals smalls))"
  by code_simp+

lemma ascii_lower_char_capital:
  assumes "(a, d) \<in> set (zip capitals smalls)"
  shows "ascii_lower_char a = d" and "ascii_lower_char d = d"
proof -
  from assms case_table(1) have "map_of (zip capitals smalls) a = Some d"
    by simp
  then show "ascii_lower_char a = d" by (simp add: ascii_lower_char_def)
  from assms have "d \<in> set (map snd (zip capitals smalls))" by force
  with case_table(3) have "d \<notin> set (map fst (zip capitals smalls))"
    unfolding list_all_iff by blast
  then have "map_of (zip capitals smalls) d = None"
    by (simp add: map_of_eq_None_iff)
  then show "ascii_lower_char d = d" by (simp add: ascii_lower_char_def)
qed

lemma ascii_lower_char_other:
  assumes "a \<notin> set (map fst (zip capitals smalls))"
  shows "ascii_lower_char a = a"
proof -
  from assms have "map_of (zip capitals smalls) a = None"
    by (simp add: map_of_eq_None_iff)
  then show ?thesis by (simp add: ascii_lower_char_def)
qed

lemma capital_cases:
  obtains (capital) d where "(a, d) \<in> set (zip capitals smalls)"
  | (other) "a \<notin> set (map fst (zip capitals smalls))"
  by force

lemma same_small:
  assumes "(a, d) \<in> set (zip capitals smalls)" and "(b, d) \<in> set (zip capitals smalls)"
  shows "a = b"
proof -
  from case_table(2) have "inj_on snd (set (zip capitals smalls))"
    by (simp add: distinct_map)
  from inj_onD [OF this, of "(a, d)" "(b, d)"] assms show ?thesis by simp
qed

text \<open>
  On ASCII text the lowering of the source and the specification's letters agree: two
  characters have the same lowering exactly when they are the same letter up to case.
\<close>

lemma same_letter_lower:
  "same_letter a b \<longleftrightarrow> ascii_lower_char a = ascii_lower_char b"
proof
  assume "same_letter a b"
  then consider "a = b" | "(a, b) \<in> set (zip capitals smalls)"
    | "(b, a) \<in> set (zip capitals smalls)"
    unfolding same_letter_def by blast
  then show "ascii_lower_char a = ascii_lower_char b"
  proof cases
    case 1
    then show ?thesis by simp
  next
    case 2
    from ascii_lower_char_capital [OF this] show ?thesis by simp
  next
    case 3
    from ascii_lower_char_capital [OF this] show ?thesis by simp
  qed
next
  assume eq: "ascii_lower_char a = ascii_lower_char b"
  show "same_letter a b"
  proof (cases a rule: capital_cases)
    case (capital d)
    note a = ascii_lower_char_capital(1) [OF capital]
    show ?thesis
    proof (cases b rule: capital_cases)
      case (capital d')
      from ascii_lower_char_capital(1) [OF this] a eq have "d' = d" by simp
      with capital \<open>(a, d) \<in> set (zip capitals smalls)\<close> have "a = b"
        by (auto intro: same_small)
      then show ?thesis by (simp add: same_letter_def)
    next
      case other
      from ascii_lower_char_other [OF this] a eq have "b = d" by simp
      with \<open>(a, d) \<in> set (zip capitals smalls)\<close> show ?thesis
        by (simp add: same_letter_def)
    qed
  next
    case other
    note a = ascii_lower_char_other [OF other]
    show ?thesis
    proof (cases b rule: capital_cases)
      case (capital d')
      from ascii_lower_char_capital(1) [OF this] a eq have "a = d'" by simp
      with capital show ?thesis by (simp add: same_letter_def)
    next
      case other
      from ascii_lower_char_other [OF this] a eq have "a = b" by simp
      then show ?thesis by (simp add: same_letter_def)
    qed
  qed
qed

lemma same_letter_map:
  "list_all2 same_letter xs ys \<longleftrightarrow> map ascii_lower_char xs = map ascii_lower_char ys"
proof (induction xs arbitrary: ys)
  case Nil
  then show ?case by simp
next
  case (Cons x xs)
  then show ?case by (cases ys) (simp_all add: same_letter_lower)
qed

lemma map_split3:
  assumes "map f b = ps @ map f i @ ss"
  shows "\<exists>before run after. b = before @ run @ after \<and> map f run = map f i"
proof -
  from assms obtain before rest where b: "b = before @ rest"
    and rest: "map f rest = map f i @ ss"
    by (metis map_eq_append_conv)
  from rest obtain run after where r: "rest = run @ after" and "map f run = map f i"
    by (metis map_eq_append_conv)
  with b show ?thesis by blast
qed

lemma ci_substring_lower: "py_in (ascii_lower i) (ascii_lower b) \<longleftrightarrow> ci_substring i b"
proof
  assume "py_in (ascii_lower i) (ascii_lower b)"
  then have "\<exists>ps ss. ascii_lower b = ps @ ascii_lower i @ ss"
    by (simp only: py_in_iff)
  then obtain ps ss where "map ascii_lower_char b = ps @ map ascii_lower_char i @ ss"
    unfolding ascii_lower_def by blast
  from map_split3 [OF this]
  obtain before run after where b: "b = before @ run @ after"
    and m: "map ascii_lower_char run = map ascii_lower_char i"
    by blast
  from m have "list_all2 same_letter i run"
    by (simp only: same_letter_map)
  with b show "ci_substring i b"
    unfolding ci_substring_def by blast
next
  assume "ci_substring i b"
  then obtain before run after where b: "b = before @ run @ after"
    and l: "list_all2 same_letter i run"
    unfolding ci_substring_def by blast
  from l have "map ascii_lower_char i = map ascii_lower_char run"
    by (simp only: same_letter_map)
  with b have "ascii_lower b = ascii_lower before @ ascii_lower i @ ascii_lower after"
    by (simp add: ascii_lower_def)
  then have "\<exists>ps ss. ascii_lower b = ps @ ascii_lower i @ ss" by blast
  then show "py_in (ascii_lower i) (ascii_lower b)"
    by (simp only: py_in_iff)
qed

text \<open>A run that occurs as it is written is a case-insensitive substring.\<close>

lemma ci_substring_verbatim: "ci_substring i (before @ i @ after)"
proof -
  have "list_all2 same_letter i i"
    by (simp add: list_all2_same same_letter_def)
  then show ?thesis unfolding ci_substring_def by blast
qed

text \<open>
  Where \<open>str.lower\<close> is the ASCII lowering on the body and on the indicators, the tests of
  the probe are the specification's.
\<close>

lemma positive_indicators_iff:
  assumes "lower e body = ascii_lower body"
    and "\<And>i. i \<in> set (indicators pd) \<Longrightarrow> lower e i = ascii_lower i"
  shows "positive_indicators e pd body \<longleftrightarrow> (\<exists>i\<in>set (indicators pd). ci_substring i body)"
  using assms by (simp add: positive_indicators_def list_ex_iff ci_substring_lower)

lemma negative_indicators_iff:
  assumes "lower e body = ascii_lower body"
    and "\<And>i. i \<in> set (not_found_indicators pd) \<Longrightarrow> lower e i = ascii_lower i"
  shows "negative_indicators e pd body
           \<longleftrightarrow> (\<exists>i\<in>set (not_found_indicators pd). ci_substring i body)"
  using assms by (simp add: negative_indicators_def list_ex_iff ci_substring_lower)

section \<open>The probe on a response\<close>

text \<open>
  When the request is answered and the body is read, the probe returns the dict built in
  the \<open>async with\<close> block; \<open>exists\<close> is decided there.
\<close>

lemma sm_probe_answered:
  assumes "format e (check_url pd) u = Inr target"
    and "user_agents cfg \<noteq> []"
    and "get e s target (pick e (user_agents cfg)) = Inr resp"
    and "text_result resp = Inr body"
    and "format e (url pd) u = Inr shown"
  shows "sm_check_username_on_platform e cfg (Some s) w u p pd =
           (Inr \<lparr> platform = p, username = u, profile_url = shown,
                   exists = (status resp = 200 \<and> positive_indicators e pd body
                               \<and> \<not> negative_indicators e pd body),
                   status_code = Some (status resp), response_time = Some 0,
                   additional_info = Some [], error = None \<rparr>,
            w\<lparr>requests := requests w @ [(sid s, p, target)]\<rparr>)"
  using assms
  by (simp add: Let_def sm_check_username_on_platform_def sm_try_def session_get_def
      random_choice_def extract_additional_info_def)

lemma uh_probe_answered:
  assumes "format e (check_url pd) u = Inr target"
    and "user_agents cfg \<noteq> []"
    and "get e s target (pick e (user_agents cfg)) = Inr resp"
    and "text_result resp = Inr body"
    and "format e (url pd) u = Inr shown"
  shows "uh_check_username_on_platform e cfg (Some s) w u p pd =
           (Inr \<lparr> platform = p, username = u, profile_url = shown,
                   exists = (status resp = 200 \<and> positive_indicators e pd body
                               \<and> \<not> negative_indicators e pd body),
                   status_code = Some (status resp), response_time = None,
                   additional_info = Some [], error = None \<rparr>,
            w\<lparr>requests := requests w @ [(sid s, p, target)]\<rparr>)"
  using assms
  by (simp add: Let_def uh_check_username_on_platform_def uh_try_def session_get_def
      random_choice_def)

text \<open>Conversely, a result with \<open>exists\<close> set comes from an answered request only.\<close>

lemma sm_try_exists:
  assumes "sm_try e cfg sess w u p pd = (Inr r, w1)" and "exists r"
  shows "\<exists>s target resp body.
           sess = Some s \<and> format e (check_url pd) u = Inr target
           \<and> get e s target (pick e (user_agents cfg)) = Inr resp
           \<and> status resp = 200 \<and> text_result resp = Inr body
           \<and> positive_indicators e pd body \<and> \<not> negative_indicators e pd body
           \<and> status_code r = Some 200"
  using assms
  by (auto simp: Let_def sm_try_def session_get_def random_choice_def
      split: sum.splits option.splits if_splits)

lemma uh_try_exists:
  assumes "uh_try e cfg sess w u p pd = (Inr r, w1)" and "exists r"
  shows "\<exists>s target resp body.
           sess = Some s \<and> format e (check_url pd) u = Inr target
           \<and> get e s target (pick e (user_agents cfg)) = Inr resp
           \<and> status resp = 200 \<and> text_result resp = Inr body
           \<and> positive_indicators e pd body \<and> \<not> negative_indicators e pd body
           \<and> status_code r = Some 200"
  using assms
  by (auto simp: Let_def uh_try_def session_get_def random_choice_def
      split: sum.splits option.splits if_splits)

lemma sm_handlers_not_exists:
  "sm_on_timeout e u p pd = Inr r \<Longrightarrow> \<not> exists r"
  "sm_on_exception e u p pd x = Inr r \<Longrightarrow> \<not> exists r"
  by (auto simp: sm_on_timeout_def sm_on_exception_def split: sum.splits)

lemma uh_handler_not_exists: "uh_on_exception e u p pd x = Inr r \<Longrightarrow> \<not> exists r"
  by (auto simp: uh_on_exception_def split: sum.splits)

lemma sm_probe_exists:
  assumes "sm_check_username_on_platform e cfg sess w u p pd = (Inr r, w1)" and "exists r"
  shows "\<exists>s target resp body.
           sess = Some s \<and> format e (check_url pd) u = Inr target
           \<and> get e s target (pick e (user_agents cfg)) = Inr resp
           \<and> status resp = 200 \<and> text_result resp = Inr body
           \<and> positive_indicators e pd body \<and> \<not> negative_indicators e pd body
           \<and> status_code r = Some 200"
proof -
  obtain out w2 where t: "sm_try e cfg sess w u p pd = (out, w2)"
    by (cases "sm_try e cfg sess w u p pd")
  show ?thesis
  proof (cases out)
    case (Inl x)
    with t assms show ?thesis
      by (cases x) (auto simp: sm_check_username_on_platform_def dest: sm_handlers_not_exists)
  next
    case (Inr r')
    with t assms have "sm_try e cfg sess w u p pd = (Inr r, w1)"
      by (simp add: sm_check_username_on_platform_def)
    from sm_try_exists [OF this assms(2)] show ?thesis .
  qed
qed

lemma uh_probe_exists:
  assumes "uh_check_username_on_platform e cfg sess w u p pd = (Inr r, w1)" and "exists r"
  shows "\<exists>s target resp body.
           sess = Some s \<and> format e (check_url pd) u = Inr target
           \<and> get e s target (pick e (user_agents cfg)) = Inr resp
           \<and> status resp = 200 \<and> text_result resp = Inr body
           \<and> positive_indicators e pd body \<and> \<not> negative_indicators e pd body
           \<and> status_code r = Some 200"
proof -
  obtain out w2 where t: "uh_try e cfg sess w u p pd = (out, w2)"
    by (cases "uh_try e cfg sess w u p pd")
  show ?thesis
  proof (cases out)
    case (Inl x)
    with t assms show ?thesis
      by (auto simp: uh_check_username_on_platform_def dest: uh_handler_not_exists)
  next
    case (Inr r')
    with t assms have "uh_try e cfg sess w u p pd = (Inr r, w1)"
      by (simp add: uh_check_username_on_platform_def)
    from uh_try_exists [OF this assms(2)] show ?thesis .
  qed
qed

section \<open>Classification\<close>

text \<open>
  C2, as amended. On a response with status 200 whose body was read, for any body and any
  indicators, the probe of either hunter marks the result as existing if and only if the
  lower of some positive indicator occurs in the lower of the body and the lower of no
  negative indicator does. When the body and the indicators are ASCII text, where
  \<open>str.lower\<close> is the ASCII lowering, this says: if and only if some positive indicator is
  a case-insensitive substring of the body and no negative indicator is; when both kinds
  match, the result is not existing. The premises say that there is such a response: the
  URL templates format, a user agent can be drawn, and the request is answered with status
  200 and a body.
\<close>

theorem classification_on_200:
  assumes "format e (check_url pd) u = Inr target"
    and "user_agents cfg \<noteq> []"
    and "get e s target (pick e (user_agents cfg)) = Inr resp"
    and "status resp = 200"
    and "text_result resp = Inr body"
    and "format e (url pd) u = Inr shown"
  shows "(\<exists>r w1. sm_check_username_on_platform e cfg (Some s) w u p pd = (Inr r, w1)
            \<and> (exists r \<longleftrightarrow>
                 (\<exists>i\<in>set (indicators pd). py_in (lower e i) (lower e body))
                 \<and> \<not> (\<exists>i\<in>set (not_found_indicators pd). py_in (lower e i) (lower e body)))
            \<and> ((\<forall>x. is_ascii x \<longrightarrow> lower e x = ascii_lower x) \<and> is_ascii body
                \<and> (\<forall>i\<in>set (indicators pd) \<union> set (not_found_indicators pd). is_ascii i)
               \<longrightarrow> (exists r \<longleftrightarrow>
                     (\<exists>i\<in>set (indicators pd). ci_substring i body)
                     \<and> \<not> (\<exists>i\<in>set (not_found_indicators pd). ci_substring i body))))
       \<and> (\<exists>r w1. uh_check_username_on_platform e cfg (Some s) w u p pd = (Inr r, w1)
            \<and> (exists r \<longleftrightarrow>
                 (\<exists>i\<in>set (indicators pd). py_in (lower e i) (lower e body))
                 \<and> \<not> (\<exists>i\<in>set (not_found_indicators pd). py_in (lower e i) (lower e body)))
            \<and> ((\<forall>x. is_ascii x \<longrightarrow> lower e x = ascii_lower x) \<and> is_ascii body
                \<and> (\<forall>i\<in>set (indicators pd) \<union> set (not_found_indicators pd). is_ascii i)
               \<longrightarrow> (exists r \<longleftrightarrow>
                     (\<exists>i\<in>set (indicators pd). ci_substring i body)
                     \<and> \<not> (\<exists>i\<in>set (not_found_indicators pd). ci_substring i body))))"
proof -
  note sm = sm_probe_answered [OF assms(1,2,3,5,6), of w p]
  note uh = uh_probe_answered [OF assms(1,2,3,5,6), of w p]
  have code: "positive_indicators e pd body
                \<longleftrightarrow> (\<exists>i\<in>set (indicators pd). py_in (lower e i) (lower e body))"
    "negative_indicators e pd body
                \<longleftrightarrow> (\<exists>i\<in>set (not_found_indicators pd). py_in (lower e i) (lower e body))"
    by (simp_all add: positive_indicators_def negative_indicators_def list_ex_iff)
  have spec: "positive_indicators e pd body \<and> \<not> negative_indicators e pd body
                \<longleftrightarrow> (\<exists>i\<in>set (indicators pd). ci_substring i body)
                    \<and> \<not> (\<exists>i\<in>set (not_found_indicators pd). ci_substring i body)"
    if ascii: "(\<forall>x. is_ascii x \<longrightarrow> lower e x = ascii_lower x) \<and> is_ascii body
                \<and> (\<forall>i\<in>set (indicators pd) \<union> set (not_found_indicators pd). is_ascii i)"
  proof -
    from ascii have body: "lower e body = ascii_lower body" by blast
    from ascii have pos: "\<And>i. i \<in> set (indicators pd) \<Longrightarrow> lower e i = ascii_lower i"
      by blast
    from ascii have neg: "\<And>i. i \<in> set (not_found_indicators pd) \<Longrightarrow> lower e i = ascii_lower i"
      by blast
    show ?thesis
      by (simp only: positive_indicators_iff [OF body pos]
          negative_indicators_iff [OF body neg])
  qed
  have "\<exists>r w1. sm_check_username_on_platform e cfg (Some s) w u p pd = (Inr r, w1)
            \<and> (exists r \<longleftrightarrow>
                 positive_indicators e pd body \<and> \<not> negative_indicators e pd body)"
    by (simp only: sm) (simp add: assms(4))
  then obtain r w1 where
    run: "sm_check_username_on_platform e cfg (Some s) w u p pd = (Inr r, w1)"
    and ex: "exists r \<longleftrightarrow> positive_indicators e pd body \<and> \<not> negative_indicators e pd body"
    by blast
  from ex have "exists r \<longleftrightarrow>
                 (\<exists>i\<in>set (indicators pd). py_in (lower e i) (lower e body))
                 \<and> \<not> (\<exists>i\<in>set (not_found_indicators pd). py_in (lower e i) (lower e body))"
    by (simp only: code)
  moreover from ex spec have
    "(\<forall>x. is_ascii x \<longrightarrow> lower e x = ascii_lower x) \<and> is_ascii body
       \<and> (\<forall>i\<in>set (indicators pd) \<union> set (not_found_indicators pd). is_ascii i)
     \<longrightarrow> (exists r \<longleftrightarrow>
            (\<exists>i\<in>set (indicators pd). ci_substring i body)
            \<and> \<not> (\<exists>i\<in>set (not_found_indicators pd). ci_substring i body))"
    by simp
  ultimately have sm': "\<exists>r w1.
            sm_check_username_on_platform e cfg (Some s) w u p pd = (Inr r, w1)
            \<and> (exists r \<longleftrightarrow>
                 (\<exists>i\<in>set (indicators pd). py_in (lower e i) (lower e body))
                 \<and> \<not> (\<exists>i\<in>set (not_found_indicators pd). py_in (lower e i) (lower e body)))
            \<and> ((\<forall>x. is_ascii x \<longrightarrow> lower e x = ascii_lower x) \<and> is_ascii body
                \<and> (\<forall>i\<in>set (indicators pd) \<union> set (not_found_indicators pd). is_ascii i)
               \<longrightarrow> (exists r \<longleftrightarrow>
                     (\<exists>i\<in>set (indicators pd). ci_substring i body)
                     \<and> \<not> (\<exists>i\<in>set (not_found_indicators pd). ci_substring i body)))"
    using run by blast
  have "\<exists>r w1. uh_check_username_on_platform e cfg (Some s) w u p pd = (Inr r, w1)
            \<and> (exists r \<longleftrightarrow>
                 positive_indicators e pd body \<and> \<not> negative_indicators e pd body)"
    by (simp only: uh) (simp add: assms(4))
  then obtain r' w1' where
    run': "uh_check_username_on_platform e cfg (Some s) w u p pd = (Inr r', w1')"
    and ex': "exists r' \<longleftrightarrow> positive_indicators e pd body \<and> \<not> negative_indicators e pd body"
    by blast
  from ex' have "exists r' \<longleftrightarrow>
                 (\<exists>i\<in>set (indicators pd). py_in (lower e i) (lower e body))
                 \<and> \<not> (\<exists>i\<in>set (not_found_indicators pd). py_in (lower e i) (lower e body))"
    by (simp only: code)
  moreover from ex' spec have
    "(\<forall>x. is_ascii x \<longrightarrow> lower e x = ascii_lower x) \<and> is_ascii body
       \<and> (\<forall>i\<in>set (indicators pd) \<union> set (not_found_indicators pd). is_ascii i)
     \<longrightarrow> (exists r' \<longleftrightarrow>
            (\<exists>i\<in>set (indicators pd). ci_substring i body)
            \<and> \<not> (\<exists>i\<in>set (not_found_indicators pd). ci_substring i body))"
    by simp
  ultimately have uh': "\<exists>r w1.
            uh_check_username_on_platform e cfg (Some s) w u p pd = (Inr r, w1)
            \<and> (exists r \<longleftrightarrow>
                 (\<exists>i\<in>set (indicators pd). py_in (lower e i) (lower e body))
                 \<and> \<not> (\<exists>i\<in>set (not_found_indicators pd). py_in (lower e i) (lower e body)))
            \<and> ((\<forall>x. is_ascii x \<longrightarrow> lower e x = ascii_lower x) \<and> is_ascii body
                \<and> (\<forall>i\<in>set (indicators pd) \<union> set (not_found_indicators pd). is_ascii i)
               \<longrightarrow> (exists r \<longleftrightarrow>
                     (\<exists>i\<in>set (indicators pd). ci_substring i body)
                     \<and> \<not> (\<exists>i\<in>set (not_found_indicators pd). ci_substring i body)))"
    using run' by blast
  from sm' uh' show ?thesis by (rule conjI)
qed

text \<open>
  An ASCII body in which a positive and a negative indicator both occur, in other case
  than they are written: the theorem applies, its ASCII condition holds, and the result is
  not existing.
\<close>

theorem classification_on_200_witness:
  "is_ascii ''Profile page, user NOT FOUND''
   \<and> is_ascii ''profile'' \<and> is_ascii ''not found''
   \<and> sm_check_username_on_platform
        (example_env (answers 200 ''Profile page, user NOT FOUND'')) example_config
        (Some example_session) new_world ''testuser123'' ''x'' example_site
      = (Inr \<lparr> platform = ''x'', username = ''testuser123'',
               profile_url = ''https://x.test/testuser123'', exists = False,
               status_code = Some 200, response_time = Some 0,
               additional_info = Some [], error = None \<rparr>,
         new_world\<lparr>requests := [(0, ''x'', ''https://x.test/testuser123'')]\<rparr>)
   \<and> \<not> ((\<exists>i\<in>set (indicators example_site).
              ci_substring i ''Profile page, user NOT FOUND'')
          \<and> \<not> (\<exists>i\<in>set (not_found_indicators example_site).
              ci_substring i ''Profile page, user NOT FOUND''))"
proof -
  let ?e = "example_env (answers 200 ''Profile page, user NOT FOUND'')"
  have body: "is_ascii ''Profile page, user NOT FOUND''"
    by code_simp
  have i1: "is_ascii ''profile''" and i2: "is_ascii ''not found''"
    by code_simp+
  then have inds: "\<forall>i\<in>set (indicators example_site)
                         \<union> set (not_found_indicators example_site). is_ascii i"
    by (simp add: example_site_def)
  have low: "\<forall>x. is_ascii x \<longrightarrow> lower ?e x = ascii_lower x"
    by (simp add: example_env_def)
  have run: "sm_check_username_on_platform ?e example_config
        (Some example_session) new_world ''testuser123'' ''x'' example_site
      = (Inr \<lparr> platform = ''x'', username = ''testuser123'',
               profile_url = ''https://x.test/testuser123'', exists = False,
               status_code = Some 200, response_time = Some 0,
               additional_info = Some [], error = None \<rparr>,
         new_world\<lparr>requests := [(0, ''x'', ''https://x.test/testuser123'')]\<rparr>)"
    by code_simp
  have "(\<exists>r w1. sm_check_username_on_platform ?e example_config (Some example_session)
              new_world ''testuser123'' ''x'' example_site = (Inr r, w1)
            \<and> (exists r \<longleftrightarrow>
                 (\<exists>i\<in>set (indicators example_site).
                     py_in (lower ?e i) (lower ?e ''Profile page, user NOT FOUND''))
                 \<and> \<not> (\<exists>i\<in>set (not_found_indicators example_site).
                     py_in (lower ?e i) (lower ?e ''Profile page, user NOT FOUND'')))
            \<and> ((\<forall>x. is_ascii x \<longrightarrow> lower ?e x = ascii_lower x)
                \<and> is_ascii ''Profile page, user NOT FOUND''
                \<and> (\<forall>i\<in>set (indicators example_site)
                        \<union> set (not_found_indicators example_site). is_ascii i)
               \<longrightarrow> (exists r \<longleftrightarrow>
                     (\<exists>i\<in>set (indicators example_site).
                         ci_substring i ''Profile page, user NOT FOUND'')
                     \<and> \<not> (\<exists>i\<in>set (not_found_indicators example_site).
                         ci_substring i ''Profile page, user NOT FOUND''))))
       \<and> (\<exists>r w1. uh_check_username_on_platform ?e example_config (Some example_session)
              new_world ''testuser123'' ''x'' example_site = (Inr r, w1)
            \<and> (exists r \<longleftrightarrow>
                 (\<exists>i\<in>set (indicators example_site).
                     py_in (lower ?e i) (lower ?e ''Profile page, user NOT FOUND''))
                 \<and> \<not> (\<exists>i\<in>set (not_found_indicators example_site).
                     py_in (lower ?e i) (lower ?e ''Profile page, user NOT FOUND'')))
            \<and> ((\<forall>x. is_ascii x \<longrightarrow> lower ?e x = ascii_lower x)
                \<and> is_ascii ''Profile page, user NOT FOUND''
                \<and> (\<forall>i\<in>set (indicators example_site)
                        \<union> set (not_found_indicators example_site). is_ascii i)
               \<longrightarrow> (exists r \<longleftrightarrow>
                     (\<exists>i\<in>set (indicators example_site).
                         ci_substring i ''Profile page, user NOT FOUND'')
                     \<and> \<not> (\<exists>i\<in>set (not_found_indicators example_site).
                         ci_substring i ''Profile page, user NOT FOUND''))))"
    by (rule classification_on_200
          [where target = "''https://x.test/testuser123''"
             and shown = "''https://x.test/testuser123''"
             and resp = "\<lparr> status = 200, text_result = Inr ''Profile page, user NOT FOUND'' \<rparr>"])
       (simp_all add: example_env_def example_config_def example_site_def answers_def)
  with run low body inds
  have "\<not> ((\<exists>i\<in>set (indicators example_site).
              ci_substring i ''Profile page, user NOT FOUND'')
          \<and> \<not> (\<exists>i\<in>set (not_found_indicators example_site).
              ci_substring i ''Profile page, user NOT FOUND''))"
    by auto
  with body i1 i2 run show ?thesis by blast
qed

text \<open>
  The claim as stated fails beyond ASCII. The only positive indicator is capital alpha,
  capital sigma; the body is capital alpha, capital sigma, capital alpha, which contains
  the indicator as it is written; there is no negative indicator. \<open>str.lower\<close> turns the
  sigma that ends the indicator into the final small sigma and the sigma inside the body
  into the small sigma, so the probe of either hunter finds no match.
\<close>

theorem indicator_in_body_not_found:
  "indicators greek_site = [alpha_sigma]
   \<and> not_found_indicators greek_site = []
   \<and> alpha_sigma_alpha = alpha_sigma @ [CHR 0xCE, CHR 0x91]
   \<and> ci_substring alpha_sigma alpha_sigma_alpha
   \<and> sm_check_username_on_platform (greek_env (answers 200 alpha_sigma_alpha)) example_config
        (Some example_session) new_world ''testuser123'' ''x'' greek_site
      = (Inr \<lparr> platform = ''x'', username = ''testuser123'',
               profile_url = ''https://x.test/testuser123'', exists = False,
               status_code = Some 200, response_time = Some 0,
               additional_info = Some [], error = None \<rparr>,
         new_world\<lparr>requests := [(0, ''x'', ''https://x.test/testuser123'')]\<rparr>)
   \<and> uh_check_username_on_platform (greek_env (answers 200 alpha_sigma_alpha)) example_config
        (Some example_session) new_world ''testuser123'' ''x'' greek_site
      = (Inr \<lparr> platform = ''x'', username = ''testuser123'',
               profile_url = ''https://x.test/testuser123'', exists = False,
               status_code = Some 200, response_time = None,
               additional_info = Some [], error = None \<rparr>,
         new_world\<lparr>requests := [(0, ''x'', ''https://x.test/testuser123'')]\<rparr>)"
proof -
  have split: "alpha_sigma_alpha = alpha_sigma @ [CHR 0xCE, CHR 0x91]"
    by (simp add: alpha_sigma_alpha_def alpha_sigma_def)
  have "ci_substring alpha_sigma ([] @ alpha_sigma @ [CHR 0xCE, CHR 0x91])"
    by (rule ci_substring_verbatim)
  then have inside: "ci_substring alpha_sigma alpha_sigma_alpha"
    by (simp add: split)
  have sm: "sm_check_username_on_platform (greek_env (answers 200 alpha_sigma_alpha))
        example_config (Some example_session) new_world ''testuser123'' ''x'' greek_site
      = (Inr \<lparr> platform = ''x'', username = ''testuser123'',
               profile_url = ''https://x.test/testuser123'', exists = False,
               status_code = Some 200, response_time = Some 0,
               additional_info = Some [], error = None \<rparr>,
         new_world\<lparr>requests := [(0, ''x'', ''https://x.test/testuser123'')]\<rparr>)"
    by code_simp
  have uh: "uh_check_username_on_platform (greek_env (answers 200 alpha_sigma_alpha))
        example_config (Some example_session) new_world ''testuser123'' ''x'' greek_site
      = (Inr \<lparr> platform = ''x'', username = ''testuser123'',
               profile_url = ''https://x.test/testuser123'', exists = False,
               status_code = Some 200, response_time = None,
               additional_info = Some [], error = None \<rparr>,
         new_world\<lparr>requests := [(0, ''x'', ''https://x.test/testuser123'')]\<rparr>)"
    by code_simp
  from split inside sm uh show ?thesis
    by (simp add: greek_site_def)
qed

text \<open>
  C3. A result of \<open>check_username_on_platform\<close>, of either hunter, in any world and for
  any identifier and platform definition, is marked existing only when the request was
  answered with status 200, that status is the one recorded, and on the body that was read
  the test of the positive indicators matched and the test of the negative indicators did
  not. Nothing is assumed of \<open>str.lower\<close>.
\<close>

theorem found_only_on_200:
  assumes "sm_check_username_on_platform e cfg sess w u p pd = (Inr r, w1)
           \<or> uh_check_username_on_platform e cfg sess w u p pd = (Inr r, w1)"
    and "exists r"
  shows "status_code r = Some 200
       \<and> (\<exists>s target resp body.
             sess = Some s \<and> format e (check_url pd) u = Inr target
             \<and> get e s target (pick e (user_agents cfg)) = Inr resp
             \<and> status resp = 200 \<and> text_result resp = Inr body
             \<and> positive_indicators e pd body
             \<and> \<not> negative_indicators e pd body)"
proof -
  have "\<exists>s target resp body.
           sess = Some s \<and> format e (check_url pd) u = Inr target
           \<and> get e s target (pick e (user_agents cfg)) = Inr resp
           \<and> status resp = 200 \<and> text_result resp = Inr body
           \<and> positive_indicators e pd body \<and> \<not> negative_indicators e pd body
           \<and> status_code r = Some 200"
    using assms(1)
  proof
    assume "sm_check_username_on_platform e cfg sess w u p pd = (Inr r, w1)"
    from sm_probe_exists [OF this assms(2)] show ?thesis .
  next
    assume "uh_check_username_on_platform e cfg sess w u p pd = (Inr r, w1)"
    from uh_probe_exists [OF this assms(2)] show ?thesis .
  qed
  then obtain s target resp body where
    "sess = Some s" "format e (check_url pd) u = Inr target"
    "get e s target (pick e (user_agents cfg)) = Inr resp"
    "status resp = 200" "text_result resp = Inr body"
    "positive_indicators e pd body" "\<not> negative_indicators e pd body"
    "status_code r = Some 200"
    by blast
  then show ?thesis by blast
qed

theorem found_only_on_200_witness:
  "(sm_check_username_on_platform
      (example_env (answers 200 ''testuser123's profile page'')) example_config
      (Some example_session) new_world ''testuser123'' ''x'' example_site
    = (Inr \<lparr> platform = ''x'', username = ''testuser123'',
              profile_url = ''https://x.test/testuser123'', exists = True,
              status_code = Some 200, response_time = Some 0,
              additional_info = Some [], error = None \<rparr>,
       new_world\<lparr>requests := [(0, ''x'', ''https://x.test/testuser123'')]\<rparr>))
   \<and> (\<exists>s target resp body.
         Some example_session = Some s
         \<and> format (example_env (answers 200 ''testuser123's profile page''))
               (check_url example_site) ''testuser123'' = Inr target
         \<and> get (example_env (answers 200 ''testuser123's profile page'')) s target
               (pick (example_env (answers 200 ''testuser123's profile page''))
                  (user_agents example_config)) = Inr resp
         \<and> status resp = 200 \<and> text_result resp = Inr body
         \<and> positive_indicators (example_env (answers 200 ''testuser123's profile page''))
               example_site body
         \<and> \<not> negative_indicators (example_env (answers 200 ''testuser123's profile page''))
               example_site body)"
proof -
  have run: "sm_check_username_on_platform
      (example_env (answers 200 ''testuser123's profile page'')) example_config
      (Some example_session) new_world ''testuser123'' ''x'' example_site
    = (Inr \<lparr> platform = ''x'', username = ''testuser123'',
              profile_url = ''https://x.test/testuser123'', exists = True,
              status_code = Some 200, response_time = Some 0,
              additional_info = Some [], error = None \<rparr>,
       new_world\<lparr>requests := [(0, ''x'', ''https://x.test/testuser123'')]\<rparr>)"
    by code_simp
  from found_only_on_200 [OF disjI1, OF run] run show ?thesis by simp
qed

section \<open>Responses with status 404\<close>

text \<open>
  C5, as amended. On a response with status 404 whose body was read, the result of either
  hunter is not existing, records the status 404 and no error, and is the same whatever the
  body and the indicators are: neither is examined. The body itself is fetched before the
  status is looked at (\<open>content = await response.text()\<close> is the first statement of the
  block).
\<close>

theorem not_found_on_404:
  assumes "format e (check_url pd) u = Inr target"
    and "user_agents cfg \<noteq> []"
    and "get e s target (pick e (user_agents cfg)) = Inr resp"
    and "status resp = 404"
    and "text_result resp = Inr body"
    and "format e (url pd) u = Inr shown"
  shows "sm_check_username_on_platform e cfg (Some s) w u p pd =
           (Inr \<lparr> platform = p, username = u, profile_url = shown, exists = False,
                   status_code = Some 404, response_time = Some 0,
                   additional_info = Some [], error = None \<rparr>,
            w\<lparr>requests := requests w @ [(sid s, p, target)]\<rparr>)
       \<and> uh_check_username_on_platform e cfg (Some s) w u p pd =
           (Inr \<lparr> platform = p, username = u, profile_url = shown, exists = False,
                   status_code = Some 404, response_time = None,
                   additional_info = Some [], error = None \<rparr>,
            w\<lparr>requests := requests w @ [(sid s, p, target)]\<rparr>)"
proof -
  note sm = sm_probe_answered [OF assms(1,2,3,5,6), of w p]
  note uh = uh_probe_answered [OF assms(1,2,3,5,6), of w p]
  show ?thesis
    by (simp only: sm uh) (simp add: assms(4))
qed

theorem not_found_on_404_witness:
  "sm_check_username_on_platform
       (example_env (answers 404 ''testuser123's profile page'')) example_config
       (Some example_session) new_world ''testuser123'' ''x'' example_site =
     (Inr \<lparr> platform = ''x'', username = ''testuser123'',
             profile_url = ''https://x.test/testuser123'', exists = False,
             status_code = Some 404, response_time = Some 0,
             additional_info = Some [], error = None \<rparr>,
      new_world\<lparr>requests := requests new_world
                    @ [(sid example_session, ''x'', ''https://x.test/testuser123'')]\<rparr>)
   \<and> uh_check_username_on_platform
       (example_env (answers 404 ''testuser123's profile page'')) example_config
       (Some example_session) new_world ''testuser123'' ''x'' example_site =
     (Inr \<lparr> platform = ''x'', username = ''testuser123'',
             profile_url = ''https://x.test/testuser123'', exists = False,
             status_code = Some 404, response_time = None,
             additional_info = Some [], error = None \<rparr>,
      new_world\<lparr>requests := requests new_world
                    @ [(sid example_session, ''x'', ''https://x.test/testuser123'')]\<rparr>)"
  by (rule not_found_on_404
        [where resp = "\<lparr> status = 404, text_result = Inr ''testuser123's profile page'' \<rparr>"])
     (simp_all add: example_env_def example_config_def example_site_def answers_def)

text \<open>
  The claim as stated fails: the body is fetched on a 404 too. Here the response has status
  404 and reading its body times out; the result is the timeout dict with status code 0,
  not the not-found result with status code 404.
\<close>

theorem body_fetched_on_404:
  "get (example_env (body_raises 404 (TimeoutError ''''))) example_session
       ''https://x.test/testuser123'' ''agent''
     = Inr \<lparr> status = 404, text_result = Inl (TimeoutError '''') \<rparr>
   \<and> sm_check_username_on_platform
       (example_env (body_raises 404 (TimeoutError ''''))) example_config
       (Some example_session) new_world ''testuser123'' ''x'' example_site =
     (Inr \<lparr> platform = ''x'', username = ''testuser123'',
             profile_url = ''https://x.test/testuser123'', exists = False,
             status_code = Some 0, response_time = None,
             additional_info = None, error = Some ''Timeout'' \<rparr>,
      new_world\<lparr>requests := [(0, ''x'', ''https://x.test/testuser123'')]\<rparr>)"
  by code_simp

section \<open>Timeouts\<close>

text \<open>
  C6. When the request, or the reading of the body, raises a timeout whose \<open>str\<close> is
  \<open>m\<close>, SocialMediaHunter's probe returns a dict with the error \<open>'Timeout'\<close> and status
  code 0, and UsernameHunter's probe, which has the general handler only, returns a dict
  with the error \<open>m\<close> and no status code. Neither raises, given that the profile URL
  formats.
\<close>

theorem timeout_becomes_result:
  assumes "format e (check_url pd) u = Inr target"
    and "user_agents cfg \<noteq> []"
    and "get e s target (pick e (user_agents cfg)) = Inl (TimeoutError m)
         \<or> (\<exists>code. get e s target (pick e (user_agents cfg))
                      = Inr \<lparr> status = code, text_result = Inl (TimeoutError m) \<rparr>)"
    and "format e (url pd) u = Inr shown"
  shows "sm_check_username_on_platform e cfg (Some s) w u p pd =
           (Inr \<lparr> platform = p, username = u, profile_url = shown, exists = False,
                   status_code = Some 0, response_time = None,
                   additional_info = None, error = Some ''Timeout'' \<rparr>,
            w\<lparr>requests := requests w @ [(sid s, p, target)]\<rparr>)
       \<and> uh_check_username_on_platform e cfg (Some s) w u p pd =
           (Inr \<lparr> platform = p, username = u, profile_url = shown, exists = False,
                   status_code = None, response_time = None,
                   additional_info = None, error = Some m \<rparr>,
            w\<lparr>requests := requests w @ [(sid s, p, target)]\<rparr>)"
  using assms
  by (auto simp: Let_def sm_check_username_on_platform_def sm_try_def sm_on_timeout_def
      uh_check_username_on_platform_def uh_try_def uh_on_exception_def
      session_get_def random_choice_def)

text \<open>
  At a timeout raised with no message, as \<open>asyncio.TimeoutError()\<close> is, UsernameHunter's
  error is the empty string.
\<close>

theorem timeout_becomes_result_witness:
  "sm_check_username_on_platform
       (example_env (raises (TimeoutError ''''))) example_config
       (Some example_session) new_world ''testuser123'' ''x'' example_site =
     (Inr \<lparr> platform = ''x'', username = ''testuser123'',
             profile_url = ''https://x.test/testuser123'', exists = False,
             status_code = Some 0, response_time = None,
             additional_info = None, error = Some ''Timeout'' \<rparr>,
      new_world\<lparr>requests := requests new_world
                    @ [(sid example_session, ''x'', ''https://x.test/testuser123'')]\<rparr>)
   \<and> uh_check_username_on_platform
       (example_env (raises (TimeoutError ''''))) example_config
       (Some example_session) new_world ''testuser123'' ''x'' example_site =
     (Inr \<lparr> platform = ''x'', username = ''testuser123'',
             profile_url = ''https://x.test/testuser123'', exists = False,
             status_code = None, response_time = None,
             additional_info = None, error = Some '''' \<rparr>,
      new_world\<lparr>requests := requests new_world
                    @ [(sid example_session, ''x'', ''https://x.test/testuser123'')]\<rparr>)"
  by (rule timeout_becomes_result)
     (simp_all add: example_env_def example_config_def example_site_def raises_def)

section \<open>Dispatch: what a batch of probes does\<close>

text \<open>A probe changes nothing of the world but the log of requests.\<close>

lemma session_get_frame:
  assumes "session_get e sess w p target agent = (got, w1)"
  shows "\<exists>new. w1 = w\<lparr>requests := requests w @ new\<rparr>
           \<and> (\<forall>x\<in>set new. (\<exists>s. sess = Some s \<and> fst x = sid s) \<and> fst (snd x) = p)"
proof (cases sess)
  case None
  with assms have "w1 = w\<lparr>requests := requests w @ []\<rparr>"
    by (simp add: session_get_def)
  then show ?thesis by fastforce
next
  case (Some s)
  with assms have "w1 = w\<lparr>requests := requests w @ [(sid s, p, target)]\<rparr>"
    by (auto simp: session_get_def)
  with Some show ?thesis by fastforce
qed

lemma sm_try_frame:
  assumes "sm_try e cfg sess w u p pd = (out, w1)"
  shows "\<exists>new. w1 = w\<lparr>requests := requests w @ new\<rparr>
           \<and> (\<forall>x\<in>set new. (\<exists>s. sess = Some s \<and> fst x = sid s) \<and> fst (snd x) = p)"
proof -
  have none: "\<exists>new. w = w\<lparr>requests := requests w @ new\<rparr>
           \<and> (\<forall>x\<in>set new. (\<exists>s. sess = Some s \<and> fst x = sid s) \<and> fst (snd x) = p)"
    by (rule exI [of _ "[]"]) simp
  show ?thesis
  proof (cases "format e (check_url pd) u")
    case (Inl x)
    with assms have "w1 = w" by (simp add: sm_try_def)
    with none show ?thesis by simp
  next
    case target: (Inr target)
    show ?thesis
    proof (cases "random_choice e (user_agents cfg)")
      case (Inl x)
      with assms target have "w1 = w" by (simp add: sm_try_def)
      with none show ?thesis by simp
    next
      case (Inr agent)
      obtain got w2 where g: "session_get e sess w p target agent = (got, w2)"
        by (cases "session_get e sess w p target agent")
      with assms target Inr have "w1 = w2"
        by (auto simp: sm_try_def Let_def split: sum.splits if_splits)
      with session_get_frame [OF g] show ?thesis by simp
    qed
  qed
qed

lemma uh_try_frame:
  assumes "uh_try e cfg sess w u p pd = (out, w1)"
  shows "\<exists>new. w1 = w\<lparr>requests := requests w @ new\<rparr>
           \<and> (\<forall>x\<in>set new. (\<exists>s. sess = Some s \<and> fst x = sid s) \<and> fst (snd x) = p)"
proof -
  have none: "\<exists>new. w = w\<lparr>requests := requests w @ new\<rparr>
           \<and> (\<forall>x\<in>set new. (\<exists>s. sess = Some s \<and> fst x = sid s) \<and> fst (snd x) = p)"
    by (rule exI [of _ "[]"]) simp
  show ?thesis
  proof (cases "format e (check_url pd) u")
    case (Inl x)
    with assms have "w1 = w" by (simp add: uh_try_def)
    with none show ?thesis by simp
  next
    case target: (Inr target)
    show ?thesis
    proof (cases "random_choice e (user_agents cfg)")
      case (Inl x)
      with assms target have "w1 = w" by (simp add: uh_try_def)
      with none show ?thesis by simp
    next
      case (Inr agent)
      obtain got w2 where g: "session_get e sess w p target agent = (got, w2)"
        by (cases "session_get e sess w p target agent")
      with assms target Inr have "w1 = w2"
        by (auto simp: uh_try_def Let_def split: sum.splits if_splits)
      with session_get_frame [OF g] show ?thesis by simp
    qed
  qed
qed

lemma sm_probe_frame:
  assumes "sm_check_username_on_platform e cfg sess w u p pd = (out, w1)"
  shows "\<exists>new. w1 = w\<lparr>requests := requests w @ new\<rparr>
           \<and> (\<forall>x\<in>set new. (\<exists>s. sess = Some s \<and> fst x = sid s) \<and> fst (snd x) = p)"
proof -
  obtain o2 w2 where t: "sm_try e cfg sess w u p pd = (o2, w2)"
    by (cases "sm_try e cfg sess w u p pd")
  with assms have "w1 = w2"
    by (auto simp: sm_check_username_on_platform_def split: sum.splits exception.splits)
  with sm_try_frame [OF t] show ?thesis by simp
qed

lemma uh_probe_frame:
  assumes "uh_check_username_on_platform e cfg sess w u p pd = (out, w1)"
  shows "\<exists>new. w1 = w\<lparr>requests := requests w @ new\<rparr>
           \<and> (\<forall>x\<in>set new. (\<exists>s. sess = Some s \<and> fst x = sid s) \<and> fst (snd x) = p)"
proof -
  obtain o2 w2 where t: "uh_try e cfg sess w u p pd = (o2, w2)"
    by (cases "uh_try e cfg sess w u p pd")
  with assms have "w1 = w2"
    by (auto simp: uh_check_username_on_platform_def split: sum.splits)
  with uh_try_frame [OF t] show ?thesis by simp
qed

text \<open>The dict a probe returns carries the platform's name.\<close>

lemma sm_probe_platform:
  assumes "sm_check_username_on_platform e cfg sess w u p pd = (Inr r, w1)"
  shows "platform r = p"
  using assms
  by (auto simp: sm_check_username_on_platform_def sm_try_def sm_on_timeout_def
      sm_on_exception_def Let_def
      split: sum.splits exception.splits prod.splits if_splits)

lemma uh_probe_platform:
  assumes "uh_check_username_on_platform e cfg sess w u p pd = (Inr r, w1)"
  shows "platform r = p"
  using assms
  by (auto simp: uh_check_username_on_platform_def uh_try_def uh_on_exception_def Let_def
      split: sum.splits prod.splits if_splits)

lemma sm_probe_found_clean:
  assumes "sm_check_username_on_platform e cfg sess w u p pd = (Inr r, w1)" and "exists r"
  shows "error r = None"
  using assms
  by (auto simp: sm_check_username_on_platform_def sm_try_def sm_on_timeout_def
      sm_on_exception_def Let_def
      split: sum.splits exception.splits prod.splits if_splits)

lemma uh_probe_found_clean:
  assumes "uh_check_username_on_platform e cfg sess w u p pd = (Inr r, w1)" and "exists r"
  shows "error r = None"
  using assms
  by (auto simp: uh_check_username_on_platform_def uh_try_def uh_on_exception_def Let_def
      split: sum.splits prod.splits if_splits)

text \<open>\<open>gather\<close> returns one outcome per task, in the order of the tasks.\<close>

lemma gather_length:
  "gather probe todo w = (rs, w1) \<Longrightarrow> length rs = length todo"
proof (induction todo arbitrary: w rs w1)
  case Nil
  then show ?case by simp
next
  case (Cons item items)
  obtain p pd where item: "item = (p, pd)" by (cases item)
  obtain r w2 where first: "probe w p pd = (r, w2)" by (cases "probe w p pd")
  obtain rest w3 where others: "gather probe items w2 = (rest, w3)"
    by (cases "gather probe items w2")
  from Cons.prems item first others have "rs = r # rest" by simp
  with Cons.IH [OF others] show ?case by simp
qed

lemma gather_results:
  assumes each: "\<And>w p pd r w1. probe w p pd = (Inr r, w1) \<Longrightarrow> Q p r"
    and run: "gather probe todo w = (rs, w1)"
  shows "list_all2 (\<lambda>item out. \<forall>r. out = Inr r \<longrightarrow> Q (fst item) r) todo rs"
  using run
proof (induction todo arbitrary: w rs w1)
  case Nil
  then show ?case by simp
next
  case (Cons item items)
  obtain p pd where item: "item = (p, pd)" by (cases item)
  obtain r w2 where first: "probe w p pd = (r, w2)" by (cases "probe w p pd")
  obtain rest w3 where others: "gather probe items w2 = (rest, w3)"
    by (cases "gather probe items w2")
  from Cons.prems item first others have rs: "rs = r # rest" by simp
  have "\<forall>r'. r = Inr r' \<longrightarrow> Q p r'" using each first by blast
  with Cons.IH [OF others] rs item show ?case by simp
qed

lemma gather_frame:
  assumes each: "\<And>w p pd out w1. probe w p pd = (out, w1) \<Longrightarrow>
              \<exists>new. w1 = w\<lparr>requests := requests w @ new\<rparr>
                 \<and> (\<forall>x\<in>set new. F x \<and> fst (snd x) = p)"
    and run: "gather probe todo w = (rs, w1)"
  shows "\<exists>new. w1 = w\<lparr>requests := requests w @ new\<rparr>
           \<and> (\<forall>x\<in>set new. F x \<and> fst (snd x) \<in> fst ` set todo)"
  using run
proof (induction todo arbitrary: w rs w1)
  case Nil
  then have "w1 = w\<lparr>requests := requests w @ []\<rparr>" by simp
  then show ?case by fastforce
next
  case (Cons item items)
  obtain p pd where item: "item = (p, pd)" by (cases item)
  obtain r w2 where first: "probe w p pd = (r, w2)" by (cases "probe w p pd")
  obtain rest w3 where others: "gather probe items w2 = (rest, w3)"
    by (cases "gather probe items w2")
  from Cons.prems item first others have w1: "w1 = w3" by simp
  from each [OF first] obtain new1 where
    n1: "w2 = w\<lparr>requests := requests w @ new1\<rparr>"
    and f1: "\<forall>x\<in>set new1. F x \<and> fst (snd x) = p"
    by blast
  from Cons.IH [OF others] obtain new2 where
    n2: "w3 = w2\<lparr>requests := requests w2 @ new2\<rparr>"
    and f2: "\<forall>x\<in>set new2. F x \<and> fst (snd x) \<in> fst ` set items"
    by blast
  from n1 n2 w1 have "w1 = w\<lparr>requests := requests w @ (new1 @ new2)\<rparr>" by simp
  moreover from f1 f2 item
  have "\<forall>x\<in>set (new1 @ new2). F x \<and> fst (snd x) \<in> fst ` set (item # items)"
    by auto
  ultimately show ?case by blast
qed

text \<open>The filter keeps exactly the dicts with \<open>exists\<close> set, in order.\<close>

lemma set_valid_results: "set (valid_results rs) = {r. Inr r \<in> set rs \<and> exists r}"
  by (induction rs rule: valid_results.induct) auto

lemma length_valid_results: "length (valid_results rs) \<le> length rs"
  by (induction rs rule: valid_results.induct) auto

lemma valid_results_failed_only:
  "(\<forall>out\<in>set rs. case out of Inl x \<Rightarrow> True | Inr r \<Rightarrow> \<not> exists r) \<Longrightarrow> valid_results rs = []"
  by (induction rs rule: valid_results.induct) auto

section \<open>Sessions of a hunt\<close>

lemma ensure_session_cases:
  "ensure_session e h w =
     (case session h of
        Some s \<Rightarrow> Inr (h, w)
      | None \<Rightarrow>
          (if user_agents (config h) = []
           then Inl (Exception ''Cannot choose from an empty sequence'')
           else Inr (h\<lparr>session :=
                        Some \<lparr> sid = length (created w), total_timeout = timeout (config h),
                               limit = max_workers (config h), verify = verify_ssl (config h),
                               default_agent = pick e (user_agents (config h)) \<rparr>\<rparr>,
                     w\<lparr>created := created w
                          @ [\<lparr> sid = length (created w), total_timeout = timeout (config h),
                               limit = max_workers (config h), verify = verify_ssl (config h),
                               default_agent = pick e (user_agents (config h)) \<rparr>]\<rparr>)))"
  by (simp add: ensure_session_def create_session_def random_choice_def Let_def
      split: option.splits)

lemma ensure_session_total:
  assumes "user_agents (config h) \<noteq> []"
  shows "\<exists>s w1. ensure_session e h w = Inr (h\<lparr>session := Some s\<rparr>, w1)
           \<and> requests w1 = requests w"
proof (cases "session h")
  case None
  with assms show ?thesis by (auto simp: ensure_session_cases)
next
  case (Some s)
  then have "h\<lparr>session := Some s\<rparr> = h" by (cases h) simp
  with Some have "ensure_session e h w = Inr (h\<lparr>session := Some s\<rparr>, w)"
    by (simp add: ensure_session_cases)
  then show ?thesis by blast
qed

lemma finally_close_cases:
  "finally_close e h w =
     (case session h of
        None \<Rightarrow> (h, w)
      | Some s \<Rightarrow>
          (case close e s of
             Some x \<Rightarrow> (h, w)
           | None \<Rightarrow> (h\<lparr>session := None\<rparr>, w\<lparr>closed := closed w @ [sid s]\<rparr>)))"
  by (simp add: finally_close_def close_session_def split: option.splits)

lemma finally_close_total:
  "\<exists>sess' w3. finally_close e (h\<lparr>session := x\<rparr>) w = (h\<lparr>session := sess'\<rparr>, w3)
      \<and> requests w3 = requests w"
  by (cases x; cases "close e (the x)") (auto simp: finally_close_cases)

text \<open>
  What a probe returns does not depend on the log, so the gathered list is the list of the
  outcomes of the probes, platform by platform.
\<close>

lemma session_get_outcome:
  "fst (session_get e sess w p target agent) = fst (session_get e sess w' p target agent)"
  by (simp add: session_get_def split: option.splits)

lemma sm_try_outcome:
  "fst (sm_try e cfg sess w u p pd) = fst (sm_try e cfg sess w' u p pd)"
proof (cases "format e (check_url pd) u")
  case (Inl x)
  then show ?thesis by (simp add: sm_try_def)
next
  case target: (Inr target)
  show ?thesis
  proof (cases "random_choice e (user_agents cfg)")
    case (Inl x)
    with target show ?thesis by (simp add: sm_try_def)
  next
    case (Inr agent)
    obtain got w2 where g: "session_get e sess w p target agent = (got, w2)"
      by (cases "session_get e sess w p target agent")
    obtain got' w2' where g': "session_get e sess w' p target agent = (got', w2')"
      by (cases "session_get e sess w' p target agent")
    from g g' session_get_outcome [of e sess w p target agent w'] have "got' = got"
      by simp
    with target Inr g g' show ?thesis
      by (auto simp: sm_try_def Let_def split: sum.splits)
  qed
qed

lemma uh_try_outcome:
  "fst (uh_try e cfg sess w u p pd) = fst (uh_try e cfg sess w' u p pd)"
proof (cases "format e (check_url pd) u")
  case (Inl x)
  then show ?thesis by (simp add: uh_try_def)
next
  case target: (Inr target)
  show ?thesis
  proof (cases "random_choice e (user_agents cfg)")
    case (Inl x)
    with target show ?thesis by (simp add: uh_try_def)
  next
    case (Inr agent)
    obtain got w2 where g: "session_get e sess w p target agent = (got, w2)"
      by (cases "session_get e sess w p target agent")
    obtain got' w2' where g': "session_get e sess w' p target agent = (got', w2')"
      by (cases "session_get e sess w' p target agent")
    from g g' session_get_outcome [of e sess w p target agent w'] have "got' = got"
      by simp
    with target Inr g g' show ?thesis
      by (auto simp: uh_try_def Let_def split: sum.splits)
  qed
qed

lemma sm_probe_outcome:
  "fst (sm_check_username_on_platform e cfg sess w u p pd)
     = fst (sm_check_username_on_platform e cfg sess w' u p pd)"
proof -
  obtain out w2 where t: "sm_try e cfg sess w u p pd = (out, w2)"
    by (cases "sm_try e cfg sess w u p pd")
  obtain out' w2' where t': "sm_try e cfg sess w' u p pd = (out', w2')"
    by (cases "sm_try e cfg sess w' u p pd")
  from t t' sm_try_outcome [of e cfg sess w u p pd w'] have "out' = out" by simp
  with t t' show ?thesis
    by (simp add: sm_check_username_on_platform_def split: sum.splits exception.splits)
qed

lemma uh_probe_outcome:
  "fst (uh_check_username_on_platform e cfg sess w u p pd)
     = fst (uh_check_username_on_platform e cfg sess w' u p pd)"
proof -
  obtain out w2 where t: "uh_try e cfg sess w u p pd = (out, w2)"
    by (cases "uh_try e cfg sess w u p pd")
  obtain out' w2' where t': "uh_try e cfg sess w' u p pd = (out', w2')"
    by (cases "uh_try e cfg sess w' u p pd")
  from t t' uh_try_outcome [of e cfg sess w u p pd w'] have "out' = out" by simp
  with t t' show ?thesis
    by (simp add: uh_check_username_on_platform_def split: sum.splits)
qed

lemma gather_map:
  assumes "\<And>w w' p pd. fst (probe w p pd) = fst (probe w' p pd)"
  shows "fst (gather probe todo w) = map (\<lambda>item. fst (probe w0 (fst item) (snd item))) todo"
proof (induction todo arbitrary: w)
  case Nil
  then show ?case by simp
next
  case (Cons item items)
  obtain p pd where item: "item = (p, pd)" by (cases item)
  obtain r w2 where first: "probe w p pd = (r, w2)" by (cases "probe w p pd")
  obtain rest w3 where others: "gather probe items w2 = (rest, w3)"
    by (cases "gather probe items w2")
  from first assms [of w p pd w0] have "r = fst (probe w0 p pd)" by simp
  moreover from others Cons.IH [of w2]
  have "rest = map (\<lambda>item. fst (probe w0 (fst item) (snd item))) items" by simp
  ultimately show ?case using item first others by simp
qed

section \<open>A hunt over a batch of platforms\<close>

lemma list_all2_right:
  "list_all2 P xs ys \<Longrightarrow> y \<in> set ys \<Longrightarrow> \<exists>x\<in>set xs. P x y"
  by (induction rule: list_all2_induct) auto

lemma uh_probe_result:
  assumes "uh_check_username_on_platform e cfg sess w u p pd = (Inr r, w1)"
  shows "platform r = p \<and> (exists r \<longrightarrow> error r = None \<and> status_code r = Some 200)"
  using uh_probe_platform [OF assms] uh_probe_found_clean [OF assms]
    uh_probe_exists [OF assms]
  by blast

lemma sm_probe_result:
  assumes "sm_check_username_on_platform e cfg sess w u p pd = (Inr r, w1)"
  shows "platform r = p \<and> (exists r \<longrightarrow> error r = None \<and> status_code r = Some 200)"
  using sm_probe_platform [OF assms] sm_probe_found_clean [OF assms]
    sm_probe_exists [OF assms]
  by blast

lemma hunt_platforms_run:
  assumes es: "ensure_session e h w = Inr (h\<lparr>session := Some s\<rparr>, w1)"
    and rq1: "requests w1 = requests w"
  shows "\<exists>rs sess' w' new.
           hunt_platforms e h w u todo = (Inr (valid_results rs), h\<lparr>session := sess'\<rparr>, w')
           \<and> length rs = length todo
           \<and> list_all2 (\<lambda>item out. \<forall>r. out = Inr r \<longrightarrow>
                 platform r = fst item
                 \<and> (exists r \<longrightarrow> error r = None \<and> status_code r = Some 200)) todo rs
           \<and> requests w' = requests w @ new
           \<and> (\<forall>x\<in>set new. fst (snd x) \<in> fst ` set todo)"
proof -
  define probe where
    "probe = (\<lambda>w p pd. uh_check_username_on_platform e (config h) (Some s) w u p pd)"
  obtain rs w2 where g: "gather probe todo w1 = (rs, w2)"
    by (cases "gather probe todo w1")
  from finally_close_total [where e = e and h = h and x = "Some s" and w = w2] obtain sess' w3 where
    fc: "finally_close e (h\<lparr>session := Some s\<rparr>) w2 = (h\<lparr>session := sess'\<rparr>, w3)"
    and rq3: "requests w3 = requests w2"
    by blast
  have run: "hunt_platforms e h w u todo = (Inr (valid_results rs), h\<lparr>session := sess'\<rparr>, w3)"
    using es g fc by (simp add: hunt_platforms_def probe_def)
  have len: "length rs = length todo" by (rule gather_length [OF g])
  have res: "list_all2 (\<lambda>item out. \<forall>r. out = Inr r \<longrightarrow>
                 platform r = fst item
                 \<and> (exists r \<longrightarrow> error r = None \<and> status_code r = Some 200)) todo rs"
    by (rule gather_results [OF _ g]) (simp add: probe_def uh_probe_result)
  have "\<exists>new. w2 = w1\<lparr>requests := requests w1 @ new\<rparr>
           \<and> (\<forall>x\<in>set new. True \<and> fst (snd x) \<in> fst ` set todo)"
  proof (rule gather_frame [OF _ g])
    fix w p pd out w'
    assume "probe w p pd = (out, w')"
    then have "uh_check_username_on_platform e (config h) (Some s) w u p pd = (out, w')"
      by (simp add: probe_def)
    from uh_probe_frame [OF this]
    show "\<exists>new. w' = w\<lparr>requests := requests w @ new\<rparr>
            \<and> (\<forall>x\<in>set new. True \<and> fst (snd x) = p)"
      by blast
  qed
  then obtain new where "w2 = w1\<lparr>requests := requests w1 @ new\<rparr>"
    and names: "\<forall>x\<in>set new. fst (snd x) \<in> fst ` set todo"
    by blast
  with rq1 rq3 have "requests w3 = requests w @ new" by simp
  with run len res names show ?thesis by blast
qed

lemma hunt_username_run:
  assumes es: "ensure_session e h w = Inr (h\<lparr>session := Some s\<rparr>, w1)"
    and rq1: "requests w1 = requests w"
  shows "\<exists>rs sess' w' new.
           hunt_username e h w u include_adult
             = (Inr (valid_results rs), h\<lparr>session := sess'\<rparr>, w')
           \<and> length rs
               = length (platforms_to_check sm_adult_platforms include_adult (platforms h) [])
           \<and> list_all2 (\<lambda>item out. \<forall>r. out = Inr r \<longrightarrow>
                 platform r = fst item
                 \<and> (exists r \<longrightarrow> error r = None \<and> status_code r = Some 200))
               (platforms_to_check sm_adult_platforms include_adult (platforms h) []) rs
           \<and> requests w' = requests w @ new
           \<and> (\<forall>x\<in>set new. fst (snd x)
                 \<in> fst ` set (platforms_to_check sm_adult_platforms include_adult
                                (platforms h) []))"
proof -
  define todo where
    "todo = platforms_to_check sm_adult_platforms include_adult (platforms h) []"
  define probe where
    "probe = (\<lambda>w p pd. sm_check_username_on_platform e (config h) (Some s) w u p pd)"
  obtain rs w2 where g: "gather probe todo w1 = (rs, w2)"
    by (cases "gather probe todo w1")
  from finally_close_total [where e = e and h = h and x = "Some s" and w = w2] obtain sess' w3 where
    fc: "finally_close e (h\<lparr>session := Some s\<rparr>) w2 = (h\<lparr>session := sess'\<rparr>, w3)"
    and rq3: "requests w3 = requests w2"
    by blast
  have run: "hunt_username e h w u include_adult
               = (Inr (valid_results rs), h\<lparr>session := sess'\<rparr>, w3)"
    using es g fc by (simp add: hunt_username_def probe_def todo_def)
  have len: "length rs = length todo" by (rule gather_length [OF g])
  have res: "list_all2 (\<lambda>item out. \<forall>r. out = Inr r \<longrightarrow>
                 platform r = fst item
                 \<and> (exists r \<longrightarrow> error r = None \<and> status_code r = Some 200)) todo rs"
    by (rule gather_results [OF _ g]) (simp add: probe_def sm_probe_result)
  have "\<exists>new. w2 = w1\<lparr>requests := requests w1 @ new\<rparr>
           \<and> (\<forall>x\<in>set new. True \<and> fst (snd x) \<in> fst ` set todo)"
  proof (rule gather_frame [OF _ g])
    fix w p pd out w'
    assume "probe w p pd = (out, w')"
    then have "sm_check_username_on_platform e (config h) (Some s) w u p pd = (out, w')"
      by (simp add: probe_def)
    from sm_probe_frame [OF this]
    show "\<exists>new. w' = w\<lparr>requests := requests w @ new\<rparr>
            \<and> (\<forall>x\<in>set new. True \<and> fst (snd x) = p)"
      by blast
  qed
  then obtain new where "w2 = w1\<lparr>requests := requests w1 @ new\<rparr>"
    and names: "\<forall>x\<in>set new. fst (snd x) \<in> fst ` set todo"
    by blast
  with rq1 rq3 have "requests w3 = requests w @ new" by simp
  with run len res names show ?thesis unfolding todo_def by blast
qed

lemma hunt_platforms_total:
  assumes "user_agents (config h) \<noteq> []"
  shows "\<exists>rs sess' w' new.
           hunt_platforms e h w u todo = (Inr (valid_results rs), h\<lparr>session := sess'\<rparr>, w')
           \<and> length rs = length todo
           \<and> list_all2 (\<lambda>item out. \<forall>r. out = Inr r \<longrightarrow>
                 platform r = fst item
                 \<and> (exists r \<longrightarrow> error r = None \<and> status_code r = Some 200)) todo rs
           \<and> requests w' = requests w @ new
           \<and> (\<forall>x\<in>set new. fst (snd x) \<in> fst ` set todo)"
proof -
  from ensure_session_total [OF assms] obtain s w1 where
    "ensure_session e h w = Inr (h\<lparr>session := Some s\<rparr>, w1)"
    and "requests w1 = requests w"
    by blast
  then show ?thesis by (rule hunt_platforms_run)
qed

lemma hunt_username_total:
  assumes "user_agents (config h) \<noteq> []"
  shows "\<exists>rs sess' w' new.
           hunt_username e h w u include_adult
             = (Inr (valid_results rs), h\<lparr>session := sess'\<rparr>, w')
           \<and> length rs
               = length (platforms_to_check sm_adult_platforms include_adult (platforms h) [])
           \<and> list_all2 (\<lambda>item out. \<forall>r. out = Inr r \<longrightarrow>
                 platform r = fst item
                 \<and> (exists r \<longrightarrow> error r = None \<and> status_code r = Some 200))
               (platforms_to_check sm_adult_platforms include_adult (platforms h) []) rs
           \<and> requests w' = requests w @ new
           \<and> (\<forall>x\<in>set new. fst (snd x)
                 \<in> fst ` set (platforms_to_check sm_adult_platforms include_adult
                                (platforms h) []))"
proof -
  from ensure_session_total [OF assms] obtain s w1 where
    "ensure_session e h w = Inr (h\<lparr>session := Some s\<rparr>, w1)"
    and "requests w1 = requests w"
    by blast
  then show ?thesis by (rule hunt_username_run)
qed

text \<open>When no session can be created the hunt raises before anything is sent.\<close>

lemma ensure_session_outcome:
  "(\<exists>x. ensure_session e h w = Inl x)
   \<or> (\<exists>s w1. ensure_session e h w = Inr (h\<lparr>session := Some s\<rparr>, w1)
          \<and> requests w1 = requests w)"
proof (cases "user_agents (config h) = []")
  case False
  from ensure_session_total [OF this] show ?thesis by blast
next
  case True
  show ?thesis
  proof (cases "session h")
    case None
    with True show ?thesis by (simp add: ensure_session_cases)
  next
    case (Some s)
    then have "h\<lparr>session := Some s\<rparr> = h" by (cases h) simp
    with Some have "ensure_session e h w = Inr (h\<lparr>session := Some s\<rparr>, w)"
      by (simp add: ensure_session_cases)
    then show ?thesis by blast
  qed
qed

lemma hunt_platforms_requests:
  "\<exists>out sess' w' new.
      hunt_platforms e h w u todo = (out, h\<lparr>session := sess'\<rparr>, w')
      \<and> requests w' = requests w @ new
      \<and> (\<forall>x\<in>set new. fst (snd x) \<in> fst ` set todo)
      \<and> (\<forall>found. out = Inr found \<longrightarrow> (\<forall>r\<in>set found. platform r \<in> fst ` set todo))"
  using ensure_session_outcome [of e h w]
proof
  assume "\<exists>x. ensure_session e h w = Inl x"
  then obtain x where "ensure_session e h w = Inl x" by blast
  then have "hunt_platforms e h w u todo = (Inl x, h\<lparr>session := session h\<rparr>, w)"
    by (simp add: hunt_platforms_def)
  moreover have "requests w = requests w @ []" by simp
  ultimately show ?thesis by fastforce
next
  assume "\<exists>s w1. ensure_session e h w = Inr (h\<lparr>session := Some s\<rparr>, w1)
            \<and> requests w1 = requests w"
  then obtain s w1 where "ensure_session e h w = Inr (h\<lparr>session := Some s\<rparr>, w1)"
    and "requests w1 = requests w"
    by blast
  from hunt_platforms_run [OF this, of u todo] obtain rs sess' w' new where
    run: "hunt_platforms e h w u todo = (Inr (valid_results rs), h\<lparr>session := sess'\<rparr>, w')"
    and res: "list_all2 (\<lambda>item out. \<forall>r. out = Inr r \<longrightarrow>
                 platform r = fst item
                 \<and> (exists r \<longrightarrow> error r = None \<and> status_code r = Some 200)) todo rs"
    and rq: "requests w' = requests w @ new"
    and names: "\<forall>x\<in>set new. fst (snd x) \<in> fst ` set todo"
    by blast
  have "\<forall>r\<in>set (valid_results rs). platform r \<in> fst ` set todo"
  proof
    fix r
    assume "r \<in> set (valid_results rs)"
    then have "Inr r \<in> set rs" by (simp add: set_valid_results)
    with list_all2_right [OF res] obtain item where "item \<in> set todo"
      and "platform r = fst item"
      by blast
    then show "platform r \<in> fst ` set todo" by simp
  qed
  with run rq names show ?thesis by auto
qed

lemma hunt_username_requests:
  "\<exists>out h' w' new.
      hunt_username e h w u include_adult = (out, h', w')
      \<and> requests w' = requests w @ new
      \<and> (\<forall>x\<in>set new. fst (snd x)
            \<in> fst ` set (platforms_to_check sm_adult_platforms include_adult (platforms h) []))
      \<and> (\<forall>found. out = Inr found \<longrightarrow>
            (\<forall>r\<in>set found. platform r
               \<in> fst ` set (platforms_to_check sm_adult_platforms include_adult
                              (platforms h) [])))"
  using ensure_session_outcome [of e h w]
proof
  assume "\<exists>x. ensure_session e h w = Inl x"
  then obtain x where "ensure_session e h w = Inl x" by blast
  then have "hunt_username e h w u include_adult = (Inl x, h, w)"
    by (simp add: hunt_username_def)
  moreover have "requests w = requests w @ []" by simp
  ultimately show ?thesis by fastforce
next
  let ?todo = "platforms_to_check sm_adult_platforms include_adult (platforms h) []"
  assume "\<exists>s w1. ensure_session e h w = Inr (h\<lparr>session := Some s\<rparr>, w1)
            \<and> requests w1 = requests w"
  then obtain s w1 where "ensure_session e h w = Inr (h\<lparr>session := Some s\<rparr>, w1)"
    and "requests w1 = requests w"
    by blast
  from hunt_username_run [OF this, of u include_adult] obtain rs sess' w' new where
    run: "hunt_username e h w u include_adult
            = (Inr (valid_results rs), h\<lparr>session := sess'\<rparr>, w')"
    and res: "list_all2 (\<lambda>item out. \<forall>r. out = Inr r \<longrightarrow>
                 platform r = fst item
                 \<and> (exists r \<longrightarrow> error r = None \<and> status_code r = Some 200)) ?todo rs"
    and rq: "requests w' = requests w @ new"
    and names: "\<forall>x\<in>set new. fst (snd x) \<in> fst ` set ?todo"
    by blast
  have "\<forall>r\<in>set (valid_results rs). platform r \<in> fst ` set ?todo"
  proof
    fix r
    assume "r \<in> set (valid_results rs)"
    then have "Inr r \<in> set rs" by (simp add: set_valid_results)
    with list_all2_right [OF res] obtain item where "item \<in> set ?todo"
      and "platform r = fst item"
      by blast
    then show "platform r \<in> fst ` set ?todo" by simp
  qed
  with run rq names show ?thesis by auto
qed

section \<open>Partial failure\<close>

lemma hunt_platforms_gathered:
  assumes es: "ensure_session e h w = Inr (h\<lparr>session := Some s\<rparr>, w1)"
  shows "\<exists>h' w'.
           hunt_platforms e h w u todo
             = (Inr (valid_results
                       (map (\<lambda>item. fst (uh_check_username_on_platform e (config h) (Some s)
                                            w1 u (fst item) (snd item))) todo)),
                h', w')"
proof -
  define probe where
    "probe = (\<lambda>w p pd. uh_check_username_on_platform e (config h) (Some s) w u p pd)"
  obtain rs w2 where g: "gather probe todo w1 = (rs, w2)"
    by (cases "gather probe todo w1")
  have "fst (gather probe todo w1) = map (\<lambda>item. fst (probe w1 (fst item) (snd item))) todo"
    by (rule gather_map) (simp add: probe_def uh_probe_outcome [of _ _ _ _ _ _ _])
  with g have rs: "rs = map (\<lambda>item. fst (probe w1 (fst item) (snd item))) todo" by simp
  obtain h3 w3 where fc: "finally_close e (h\<lparr>session := Some s\<rparr>) w2 = (h3, w3)"
    by (cases "finally_close e (h\<lparr>session := Some s\<rparr>) w2")
  have "hunt_platforms e h w u todo = (Inr (valid_results rs), h3, w3)"
    using es g fc by (simp add: hunt_platforms_def probe_def)
  then show ?thesis unfolding rs probe_def by blast
qed

lemma hunt_username_gathered:
  assumes es: "ensure_session e h w = Inr (h\<lparr>session := Some s\<rparr>, w1)"
  shows "\<exists>h' w'.
           hunt_username e h w u include_adult
             = (Inr (valid_results
                       (map (\<lambda>item. fst (sm_check_username_on_platform e (config h) (Some s)
                                            w1 u (fst item) (snd item)))
                          (platforms_to_check sm_adult_platforms include_adult
                             (platforms h) []))),
                h', w')"
proof -
  define todo where
    "todo = platforms_to_check sm_adult_platforms include_adult (platforms h) []"
  define probe where
    "probe = (\<lambda>w p pd. sm_check_username_on_platform e (config h) (Some s) w u p pd)"
  obtain rs w2 where g: "gather probe todo w1 = (rs, w2)"
    by (cases "gather probe todo w1")
  have "fst (gather probe todo w1) = map (\<lambda>item. fst (probe w1 (fst item) (snd item))) todo"
    by (rule gather_map) (simp add: probe_def sm_probe_outcome [of _ _ _ _ _ _ _])
  with g have rs: "rs = map (\<lambda>item. fst (probe w1 (fst item) (snd item))) todo" by simp
  obtain h3 w3 where fc: "finally_close e (h\<lparr>session := Some s\<rparr>) w2 = (h3, w3)"
    by (cases "finally_close e (h\<lparr>session := Some s\<rparr>) w2")
  have "hunt_username e h w u include_adult = (Inr (valid_results rs), h3, w3)"
    using es g fc by (simp add: hunt_username_def probe_def todo_def)
  then show ?thesis unfolding rs probe_def todo_def by blast
qed

text \<open>What holds of the outcomes of the probes of a batch, and of those that are kept.\<close>

lemma uh_outcomes:
  fixes e cfg sess w1 u todo
  defines "rs \<equiv> map (\<lambda>item. fst (uh_check_username_on_platform e cfg sess w1 u
                                    (fst item) (snd item))) todo"
  shows "list_all2 (\<lambda>item out. \<forall>r. out = Inr r \<longrightarrow> platform r = fst item) todo rs"
    and "\<forall>r\<in>set (valid_results rs). error r = None \<and> status_code r = Some 200"
proof -
  have each: "\<And>item r. fst (uh_check_username_on_platform e cfg sess w1 u
                                 (fst item) (snd item)) = Inr r
                \<Longrightarrow> platform r = fst item
                    \<and> (exists r \<longrightarrow> error r = None \<and> status_code r = Some 200)"
  proof -
    fix item r
    assume "fst (uh_check_username_on_platform e cfg sess w1 u (fst item) (snd item)) = Inr r"
    then obtain w2 where
      "uh_check_username_on_platform e cfg sess w1 u (fst item) (snd item) = (Inr r, w2)"
      by (cases "uh_check_username_on_platform e cfg sess w1 u (fst item) (snd item)") simp
    then show "platform r = fst item
                 \<and> (exists r \<longrightarrow> error r = None \<and> status_code r = Some 200)"
      by (rule uh_probe_result)
  qed
  show "list_all2 (\<lambda>item out. \<forall>r. out = Inr r \<longrightarrow> platform r = fst item) todo rs"
    unfolding rs_def list_all2_map2 by (rule list_all2_refl) (simp add: each)
  show "\<forall>r\<in>set (valid_results rs). error r = None \<and> status_code r = Some 200"
  proof
    fix r
    assume "r \<in> set (valid_results rs)"
    then have "Inr r \<in> set rs" and "exists r" by (simp_all add: set_valid_results)
    then obtain item where
      "fst (uh_check_username_on_platform e cfg sess w1 u (fst item) (snd item)) = Inr r"
      unfolding rs_def by auto
    from each [OF this] \<open>exists r\<close> show "error r = None \<and> status_code r = Some 200"
      by simp
  qed
qed

lemma sm_outcomes:
  fixes e cfg sess w1 u todo
  defines "rs \<equiv> map (\<lambda>item. fst (sm_check_username_on_platform e cfg sess w1 u
                                    (fst item) (snd item))) todo"
  shows "list_all2 (\<lambda>item out. \<forall>r. out = Inr r \<longrightarrow> platform r = fst item) todo rs"
    and "\<forall>r\<in>set (valid_results rs). error r = None \<and> status_code r = Some 200"
proof -
  have each: "\<And>item r. fst (sm_check_username_on_platform e cfg sess w1 u
                                 (fst item) (snd item)) = Inr r
                \<Longrightarrow> platform r = fst item
                    \<and> (exists r \<longrightarrow> error r = None \<and> status_code r = Some 200)"
  proof -
    fix item r
    assume "fst (sm_check_username_on_platform e cfg sess w1 u (fst item) (snd item)) = Inr r"
    then obtain w2 where
      "sm_check_username_on_platform e cfg sess w1 u (fst item) (snd item) = (Inr r, w2)"
      by (cases "sm_check_username_on_platform e cfg sess w1 u (fst item) (snd item)") simp
    then show "platform r = fst item
                 \<and> (exists r \<longrightarrow> error r = None \<and> status_code r = Some 200)"
      by (rule sm_probe_result)
  qed
  show "list_all2 (\<lambda>item out. \<forall>r. out = Inr r \<longrightarrow> platform r = fst item) todo rs"
    unfolding rs_def list_all2_map2 by (rule list_all2_refl) (simp add: each)
  show "\<forall>r\<in>set (valid_results rs). error r = None \<and> status_code r = Some 200"
  proof
    fix r
    assume "r \<in> set (valid_results rs)"
    then have "Inr r \<in> set rs" and "exists r" by (simp_all add: set_valid_results)
    then obtain item where
      "fst (sm_check_username_on_platform e cfg sess w1 u (fst item) (snd item)) = Inr r"
      unfolding rs_def by auto
    from each [OF this] \<open>exists r\<close> show "error r = None \<and> status_code r = Some 200"
      by simp
  qed
qed

text \<open>
  C1, as amended. When a session can be had (the pool of user agents is not empty), a
  category hunt of either hunter raises nothing, whatever the probes do, and the list it
  gathers is the list of the outcomes of the probes of the platforms of its scope, one per
  platform and in order, each dict under its platform's name. What the hunt returns is
  not that list: it is the gathered dicts with \<open>exists\<close> set, each with status code 200 and
  no error. A probe that failed is not in the returned sequence, which has at most as many
  entries as the batch.
\<close>

theorem batch_survives_failures:
  assumes "user_agents (config h) \<noteq> []" and "user_agents (config g) \<noteq> []"
  shows "(\<exists>s w1 rs h' w'.
            ensure_session e h w = Inr (h\<lparr>session := Some s\<rparr>, w1)
            \<and> rs = map (\<lambda>item. fst (uh_check_username_on_platform e (config h) (Some s)
                                       w1 u (fst item) (snd item))) todo
            \<and> hunt_platforms e h w u todo = (Inr (valid_results rs), h', w')
            \<and> length rs = length todo
            \<and> list_all2 (\<lambda>item out. \<forall>r. out = Inr r \<longrightarrow> platform r = fst item) todo rs
            \<and> set (valid_results rs) = {r. Inr r \<in> set rs \<and> exists r}
            \<and> length (valid_results rs) \<le> length todo
            \<and> (\<forall>r\<in>set (valid_results rs). error r = None \<and> status_code r = Some 200))
       \<and> (\<exists>s w1 rs g' w'.
            ensure_session e g w = Inr (g\<lparr>session := Some s\<rparr>, w1)
            \<and> rs = map (\<lambda>item. fst (sm_check_username_on_platform e (config g) (Some s)
                                       w1 u (fst item) (snd item)))
                      (platforms_to_check sm_adult_platforms include_adult (platforms g) [])
            \<and> hunt_username e g w u include_adult = (Inr (valid_results rs), g', w')
            \<and> length rs
                = length (platforms_to_check sm_adult_platforms include_adult (platforms g) [])
            \<and> list_all2 (\<lambda>item out. \<forall>r. out = Inr r \<longrightarrow> platform r = fst item)
                (platforms_to_check sm_adult_platforms include_adult (platforms g) []) rs
            \<and> set (valid_results rs) = {r. Inr r \<in> set rs \<and> exists r}
            \<and> length (valid_results rs)
                \<le> length (platforms_to_check sm_adult_platforms include_adult (platforms g) [])
            \<and> (\<forall>r\<in>set (valid_results rs). error r = None \<and> status_code r = Some 200))"
proof
  from ensure_session_total [OF assms(1), of e w] obtain s w1 where
    es: "ensure_session e h w = Inr (h\<lparr>session := Some s\<rparr>, w1)"
    by blast
  define rs where
    "rs = map (\<lambda>item. fst (uh_check_username_on_platform e (config h) (Some s)
                              w1 u (fst item) (snd item))) todo"
  from hunt_platforms_gathered [OF es, of u todo] obtain h' w' where
    run: "hunt_platforms e h w u todo = (Inr (valid_results rs), h', w')"
    unfolding rs_def by blast
  have len: "length rs = length todo" by (simp add: rs_def)
  with length_valid_results [of rs] have le: "length (valid_results rs) \<le> length todo"
    by simp
  note named = uh_outcomes(1) [of todo e "config h" "Some s" w1 u, folded rs_def]
  note clean = uh_outcomes(2) [of e "config h" "Some s" w1 u todo, folded rs_def]
  from es rs_def run len named set_valid_results [of rs] le clean
  show "\<exists>s w1 rs h' w'.
            ensure_session e h w = Inr (h\<lparr>session := Some s\<rparr>, w1)
            \<and> rs = map (\<lambda>item. fst (uh_check_username_on_platform e (config h) (Some s)
                                       w1 u (fst item) (snd item))) todo
            \<and> hunt_platforms e h w u todo = (Inr (valid_results rs), h', w')
            \<and> length rs = length todo
            \<and> list_all2 (\<lambda>item out. \<forall>r. out = Inr r \<longrightarrow> platform r = fst item) todo rs
            \<and> set (valid_results rs) = {r. Inr r \<in> set rs \<and> exists r}
            \<and> length (valid_results rs) \<le> length todo
            \<and> (\<forall>r\<in>set (valid_results rs). error r = None \<and> status_code r = Some 200)"
    by blast
next
  let ?todo = "platforms_to_check sm_adult_platforms include_adult (platforms g) []"
  from ensure_session_total [OF assms(2), of e w] obtain s w1 where
    es: "ensure_session e g w = Inr (g\<lparr>session := Some s\<rparr>, w1)"
    by blast
  define rs where
    "rs = map (\<lambda>item. fst (sm_check_username_on_platform e (config g) (Some s)
                              w1 u (fst item) (snd item))) ?todo"
  from hunt_username_gathered [OF es, of u include_adult] obtain g' w' where
    run: "hunt_username e g w u include_adult = (Inr (valid_results rs), g', w')"
    unfolding rs_def by blast
  have len: "length rs = length ?todo" by (simp add: rs_def)
  with length_valid_results [of rs] have le: "length (valid_results rs) \<le> length ?todo"
    by simp
  note named = sm_outcomes(1) [of ?todo e "config g" "Some s" w1 u, folded rs_def]
  note clean = sm_outcomes(2) [of e "config g" "Some s" w1 u ?todo, folded rs_def]
  from es rs_def run len named set_valid_results [of rs] le clean
  show "\<exists>s w1 rs g' w'.
            ensure_session e g w = Inr (g\<lparr>session := Some s\<rparr>, w1)
            \<and> rs = map (\<lambda>item. fst (sm_check_username_on_platform e (config g) (Some s)
                                       w1 u (fst item) (snd item))) ?todo
            \<and> hunt_username e g w u include_adult = (Inr (valid_results rs), g', w')
            \<and> length rs = length ?todo
            \<and> list_all2 (\<lambda>item out. \<forall>r. out = Inr r \<longrightarrow> platform r = fst item) ?todo rs
            \<and> set (valid_results rs) = {r. Inr r \<in> set rs \<and> exists r}
            \<and> length (valid_results rs) \<le> length ?todo
            \<and> (\<forall>r\<in>set (valid_results rs). error r = None \<and> status_code r = Some 200)"
    by blast
qed

text \<open>
  Two platforms, the first answering and the second refusing the connection: the gathered
  list holds the found dict and the error dict, and the theorem applies.
\<close>

theorem batch_survives_failures_witness:
  "map (\<lambda>item. fst (uh_check_username_on_platform (example_env example_transport)
                      example_config (Some example_session)
                      (new_world\<lparr>created := [example_session]\<rparr>) ''testuser123''
                      (fst item) (snd item))) example_catalog
     = [Inr \<lparr> platform = ''x'', username = ''testuser123'',
              profile_url = ''https://x.test/testuser123'', exists = True,
              status_code = Some 200, response_time = None,
              additional_info = Some [], error = None \<rparr>,
        Inr \<lparr> platform = ''y'', username = ''testuser123'',
              profile_url = ''https://y.test/testuser123'', exists = False,
              status_code = None, response_time = None,
              additional_info = None, error = Some ''Cannot connect to host'' \<rparr>]
   \<and> (\<exists>s w1 rs h' w'.
      ensure_session (example_env example_transport) (UsernameHunter example_config) new_world
        = Inr ((UsernameHunter example_config)\<lparr>session := Some s\<rparr>, w1)
      \<and> rs = map (\<lambda>item. fst (uh_check_username_on_platform (example_env example_transport)
                                 (config (UsernameHunter example_config)) (Some s)
                                 w1 ''testuser123'' (fst item) (snd item))) example_catalog
      \<and> hunt_platforms (example_env example_transport) (UsernameHunter example_config)
          new_world ''testuser123'' example_catalog
        = (Inr (valid_results rs), h', w')
      \<and> length rs = length example_catalog
      \<and> list_all2 (\<lambda>item out. \<forall>r. out = Inr r \<longrightarrow> platform r = fst item)
            example_catalog rs
      \<and> set (valid_results rs) = {r. Inr r \<in> set rs \<and> exists r}
      \<and> length (valid_results rs) \<le> length example_catalog
      \<and> (\<forall>r\<in>set (valid_results rs). error r = None \<and> status_code r = Some 200))
   \<and> (\<exists>s w1 rs g' w'.
      ensure_session (example_env example_transport) (SocialMediaHunter example_config)
          new_world
        = Inr ((SocialMediaHunter example_config)\<lparr>session := Some s\<rparr>, w1)
      \<and> rs = map (\<lambda>item. fst (sm_check_username_on_platform (example_env example_transport)
                                 (config (SocialMediaHunter example_config)) (Some s)
                                 w1 ''testuser123'' (fst item) (snd item)))
                (platforms_to_check sm_adult_platforms False
                   (platforms (SocialMediaHunter example_config)) [])
      \<and> hunt_username (example_env example_transport) (SocialMediaHunter example_config)
          new_world ''testuser123'' False
        = (Inr (valid_results rs), g', w')
      \<and> length rs
          = length (platforms_to_check sm_adult_platforms False
                      (platforms (SocialMediaHunter example_config)) [])
      \<and> list_all2 (\<lambda>item out. \<forall>r. out = Inr r \<longrightarrow> platform r = fst item)
            (platforms_to_check sm_adult_platforms False
               (platforms (SocialMediaHunter example_config)) []) rs
      \<and> set (valid_results rs) = {r. Inr r \<in> set rs \<and> exists r}
      \<and> length (valid_results rs)
          \<le> length (platforms_to_check sm_adult_platforms False
                       (platforms (SocialMediaHunter example_config)) [])
      \<and> (\<forall>r\<in>set (valid_results rs). error r = None \<and> status_code r = Some 200))"
proof
  show "map (\<lambda>item. fst (uh_check_username_on_platform (example_env example_transport)
                      example_config (Some example_session)
                      (new_world\<lparr>created := [example_session]\<rparr>) ''testuser123''
                      (fst item) (snd item))) example_catalog
     = [Inr \<lparr> platform = ''x'', username = ''testuser123'',
              profile_url = ''https://x.test/testuser123'', exists = True,
              status_code = Some 200, response_time = None,
              additional_info = Some [], error = None \<rparr>,
        Inr \<lparr> platform = ''y'', username = ''testuser123'',
              profile_url = ''https://y.test/testuser123'', exists = False,
              status_code = None, response_time = None,
              additional_info = None, error = Some ''Cannot connect to host'' \<rparr>]"
    by code_simp
next
  show "(\<exists>s w1 rs h' w'.
      ensure_session (example_env example_transport) (UsernameHunter example_config) new_world
        = Inr ((UsernameHunter example_config)\<lparr>session := Some s\<rparr>, w1)
      \<and> rs = map (\<lambda>item. fst (uh_check_username_on_platform (example_env example_transport)
                                 (config (UsernameHunter example_config)) (Some s)
                                 w1 ''testuser123'' (fst item) (snd item))) example_catalog
      \<and> hunt_platforms (example_env example_transport) (UsernameHunter example_config)
          new_world ''testuser123'' example_catalog
        = (Inr (valid_results rs), h', w')
      \<and> length rs = length example_catalog
      \<and> list_all2 (\<lambda>item out. \<forall>r. out = Inr r \<longrightarrow> platform r = fst item)
            example_catalog rs
      \<and> set (valid_results rs) = {r. Inr r \<in> set rs \<and> exists r}
      \<and> length (valid_results rs) \<le> length example_catalog
      \<and> (\<forall>r\<in>set (valid_results rs). error r = None \<and> status_code r = Some 200))
   \<and> (\<exists>s w1 rs g' w'.
      ensure_session (example_env example_transport) (SocialMediaHunter example_config)
          new_world
        = Inr ((SocialMediaHunter example_config)\<lparr>session := Some s\<rparr>, w1)
      \<and> rs = map (\<lambda>item. fst (sm_check_username_on_platform (example_env example_transport)
                                 (config (SocialMediaHunter example_config)) (Some s)
                                 w1 ''testuser123'' (fst item) (snd item)))
                (platforms_to_check sm_adult_platforms False
                   (platforms (SocialMediaHunter example_config)) [])
      \<and> hunt_username (example_env example_transport) (SocialMediaHunter example_config)
          new_world ''testuser123'' False
        = (Inr (valid_results rs), g', w')
      \<and> length rs
          = length (platforms_to_check sm_adult_platforms False
                      (platforms (SocialMediaHunter example_config)) [])
      \<and> list_all2 (\<lambda>item out. \<forall>r. out = Inr r \<longrightarrow> platform r = fst item)
            (platforms_to_check sm_adult_platforms False
               (platforms (SocialMediaHunter example_config)) []) rs
      \<and> set (valid_results rs) = {r. Inr r \<in> set rs \<and> exists r}
      \<and> length (valid_results rs)
          \<le> length (platforms_to_check sm_adult_platforms False
                       (platforms (SocialMediaHunter example_config)) [])
      \<and> (\<forall>r\<in>set (valid_results rs). error r = None \<and> status_code r = Some 200))"
    by (rule batch_survives_failures)
       (simp_all add: UsernameHunter_def SocialMediaHunter_def example_config_def)
qed

text \<open>
  The claim as stated fails: of two platforms, one answering and one refusing the
  connection, the hunt returns one dict, the found one; the failed probe is not in the
  returned sequence.
\<close>

theorem failed_probe_not_returned:
  "length example_catalog = 2
   \<and> fst (hunt_platforms (example_env example_transport) (UsernameHunter example_config)
            new_world ''testuser123'' example_catalog)
     = Inr [\<lparr> platform = ''x'', username = ''testuser123'',
               profile_url = ''https://x.test/testuser123'', exists = True,
               status_code = Some 200, response_time = None,
               additional_info = Some [], error = None \<rparr>]"
  by code_simp

section \<open>The adult filter\<close>

text \<open>What the filtering loop leaves: with the flag unset, the entries not in the list.\<close>

lemma platforms_to_check_keys:
  "fst ` set (platforms_to_check adult include_adult items acc)
     = fst ` set acc \<union> (if include_adult then fst ` set items else fst ` set items - set adult)"
proof (induction items arbitrary: acc)
  case Nil
  then show ?case by simp
next
  case (Cons item items)
  obtain p pd where item: "item = (p, pd)" by (cases item)
  let ?rest = "if include_adult then fst ` set items else fst ` set items - set adult"
  let ?all = "if include_adult then fst ` set (item # items)
              else fst ` set (item # items) - set adult"
  show ?case
  proof (cases "p \<in> set adult \<and> \<not> include_adult")
    case True
    then have "platforms_to_check adult include_adult (item # items) acc
                 = platforms_to_check adult include_adult items acc"
      by (simp add: item)
    then have "fst ` set (platforms_to_check adult include_adult (item # items) acc)
                 = fst ` set acc \<union> ?rest"
      by (simp only: Cons.IH)
    also from True have "fst ` set acc \<union> ?rest = fst ` set acc \<union> ?all"
      by (auto simp: item)
    finally show ?thesis .
  next
    case False
    then have "platforms_to_check adult include_adult (item # items) acc
                 = platforms_to_check adult include_adult items (AList.update p pd acc)"
      by (auto simp: item)
    then have "fst ` set (platforms_to_check adult include_adult (item # items) acc)
                 = fst ` set (AList.update p pd acc) \<union> ?rest"
      by (simp only: Cons.IH)
    also have "fst ` set (AList.update p pd acc) = {p} \<union> fst ` set acc"
      by (rule dom_update)
    also from False have "({p} \<union> fst ` set acc) \<union> ?rest = fst ` set acc \<union> ?all"
      by (auto simp: item)
    finally show ?thesis .
  qed
qed

lemma not_adult_scope:
  "x \<in> fst ` set (platforms_to_check adult False items []) \<Longrightarrow> x \<notin> set adult"
  by (simp add: platforms_to_check_keys)

text \<open>
  The four hunts of \<open>hunt_all_platforms\<close> without the flag send requests for, and return
  dicts of, the platforms of their four scopes only.
\<close>

lemma hunt_all_platforms_requests:
  "\<exists>out sess' w' new.
      hunt_all_platforms e h w u False = (out, h\<lparr>session := sess'\<rparr>, w')
      \<and> requests w' = requests w @ new
      \<and> (\<forall>x\<in>set new. fst (snd x)
            \<in> fst ` set (platforms_to_check uh_adult_platforms False (general_sites h) [])
              \<union> fst ` set (developer_platforms h) \<union> fst ` set (forums h)
              \<union> fst ` set (gaming_platforms h))
      \<and> (\<forall>m. out = Inr m \<longrightarrow>
            (\<forall>c\<in>set m. \<forall>r\<in>set (snd c). platform r
               \<in> fst ` set (platforms_to_check uh_adult_platforms False (general_sites h) [])
                 \<union> fst ` set (developer_platforms h) \<union> fst ` set (forums h)
                 \<union> fst ` set (gaming_platforms h)))"
proof -
  let ?general = "platforms_to_check uh_adult_platforms False (general_sites h) []"
  from hunt_platforms_requests [of e h w u ?general]
  obtain o1 s1 w1 n1 where
    r1: "hunt_platforms e h w u ?general = (o1, h\<lparr>session := s1\<rparr>, w1)"
    and q1: "requests w1 = requests w @ n1"
    and a1: "\<forall>x\<in>set n1. fst (snd x) \<in> fst ` set ?general"
    and b1: "\<forall>found. o1 = Inr found \<longrightarrow> (\<forall>r\<in>set found. platform r \<in> fst ` set ?general)"
    by blast
  from hunt_platforms_requests [of e "h\<lparr>session := s1\<rparr>" w1 u "developer_platforms h"]
  obtain o2 s2 w2 n2 where
    r2: "hunt_platforms e (h\<lparr>session := s1\<rparr>) w1 u (developer_platforms h)
           = (o2, h\<lparr>session := s2\<rparr>, w2)"
    and q2: "requests w2 = requests w1 @ n2"
    and a2: "\<forall>x\<in>set n2. fst (snd x) \<in> fst ` set (developer_platforms h)"
    and b2: "\<forall>found. o2 = Inr found \<longrightarrow>
               (\<forall>r\<in>set found. platform r \<in> fst ` set (developer_platforms h))"
    by auto
  from hunt_platforms_requests [of e "h\<lparr>session := s2\<rparr>" w2 u "forums h"]
  obtain o3 s3 w3 n3 where
    r3: "hunt_platforms e (h\<lparr>session := s2\<rparr>) w2 u (forums h)
           = (o3, h\<lparr>session := s3\<rparr>, w3)"
    and q3: "requests w3 = requests w2 @ n3"
    and a3: "\<forall>x\<in>set n3. fst (snd x) \<in> fst ` set (forums h)"
    and b3: "\<forall>found. o3 = Inr found \<longrightarrow> (\<forall>r\<in>set found. platform r \<in> fst ` set (forums h))"
    by auto
  from hunt_platforms_requests [of e "h\<lparr>session := s3\<rparr>" w3 u "gaming_platforms h"]
  obtain o4 s4 w4 n4 where
    r4: "hunt_platforms e (h\<lparr>session := s3\<rparr>) w3 u (gaming_platforms h)
           = (o4, h\<lparr>session := s4\<rparr>, w4)"
    and q4: "requests w4 = requests w3 @ n4"
    and a4: "\<forall>x\<in>set n4. fst (snd x) \<in> fst ` set (gaming_platforms h)"
    and b4: "\<forall>found. o4 = Inr found \<longrightarrow>
               (\<forall>r\<in>set found. platform r \<in> fst ` set (gaming_platforms h))"
    by auto
  show ?thesis
  proof (cases o1)
    case (Inl x)
    with r1 have "hunt_all_platforms e h w u False = (Inl x, h\<lparr>session := s1\<rparr>, w1)"
      by (simp add: hunt_all_platforms_def hunt_general_sites_def)
    with q1 a1 show ?thesis by fastforce
  next
    case g: (Inr general)
    show ?thesis
    proof (cases o2)
      case (Inl x)
      with r1 r2 g have "hunt_all_platforms e h w u False = (Inl x, h\<lparr>session := s2\<rparr>, w2)"
        by (simp add: hunt_all_platforms_def hunt_general_sites_def
            hunt_developer_platforms_def)
      moreover from q1 q2 have "requests w2 = requests w @ (n1 @ n2)" by simp
      moreover from a1 a2 have "\<forall>x\<in>set (n1 @ n2). fst (snd x)
            \<in> fst ` set ?general
              \<union> fst ` set (developer_platforms h) \<union> fst ` set (forums h)
              \<union> fst ` set (gaming_platforms h)"
        by auto
      ultimately show ?thesis by blast
    next
      case d: (Inr developer)
      show ?thesis
      proof (cases o3)
        case (Inl x)
        with r1 r2 r3 g d
        have "hunt_all_platforms e h w u False = (Inl x, h\<lparr>session := s3\<rparr>, w3)"
          by (simp add: hunt_all_platforms_def hunt_general_sites_def
              hunt_developer_platforms_def hunt_forums_def)
        moreover from q1 q2 q3 have "requests w3 = requests w @ (n1 @ n2 @ n3)" by simp
        moreover from a1 a2 a3 have "\<forall>x\<in>set (n1 @ n2 @ n3). fst (snd x)
            \<in> fst ` set ?general
              \<union> fst ` set (developer_platforms h) \<union> fst ` set (forums h)
              \<union> fst ` set (gaming_platforms h)"
          by auto
        ultimately show ?thesis by blast
      next
        case f: (Inr forum)
        from q1 q2 q3 q4 have q: "requests w4 = requests w @ (n1 @ n2 @ n3 @ n4)" by simp
        from a1 a2 a3 a4 have a: "\<forall>x\<in>set (n1 @ n2 @ n3 @ n4). fst (snd x)
            \<in> fst ` set ?general
              \<union> fst ` set (developer_platforms h) \<union> fst ` set (forums h)
              \<union> fst ` set (gaming_platforms h)"
          by auto
        show ?thesis
        proof (cases o4)
          case (Inl x)
          with r1 r2 r3 r4 g d f
          have "hunt_all_platforms e h w u False = (Inl x, h\<lparr>session := s4\<rparr>, w4)"
            by (simp add: hunt_all_platforms_def hunt_general_sites_def
                hunt_developer_platforms_def hunt_forums_def hunt_gaming_platforms_def)
          with q a show ?thesis by blast
        next
          case (Inr gaming)
          with r1 r2 r3 r4 g d f
          have "hunt_all_platforms e h w u False
                  = (Inr [(''general_sites'', general), (''developer_platforms'', developer),
                          (''forums'', forum), (''gaming_platforms'', gaming)],
                     h\<lparr>session := s4\<rparr>, w4)"
            by (simp add: hunt_all_platforms_def hunt_general_sites_def
                hunt_developer_platforms_def hunt_forums_def hunt_gaming_platforms_def)
          moreover from b1 b2 b3 b4 g d f Inr
          have "\<forall>c\<in>set [(''general_sites'', general), (''developer_platforms'', developer),
                          (''forums'', forum), (''gaming_platforms'', gaming)].
                  \<forall>r\<in>set (snd c). platform r
                    \<in> fst ` set ?general
                      \<union> fst ` set (developer_platforms h) \<union> fst ` set (forums h)
                      \<union> fst ` set (gaming_platforms h)"
            by simp
          ultimately show ?thesis using q a by blast
        qed
      qed
    qed
  qed
qed

text \<open>
  None of the developer, forum and gaming platforms that the constructor registers bears a
  name of the adult list.
\<close>

lemma other_catalogs_not_adult:
  "list_all (\<lambda>k. k \<notin> set uh_adult_platforms)
     (map fst (uh_developer_platforms_init @ uh_forums_init @ uh_gaming_platforms_init))"
  by code_simp

lemma UsernameHunter_scope_not_adult:
  assumes "k \<in> fst ` set (platforms_to_check uh_adult_platforms False
                            (general_sites (UsernameHunter cfg)) [])
             \<union> fst ` set (developer_platforms (UsernameHunter cfg))
             \<union> fst ` set (forums (UsernameHunter cfg))
             \<union> fst ` set (gaming_platforms (UsernameHunter cfg))"
  shows "k \<notin> set uh_adult_platforms"
proof (cases "k \<in> fst ` set (platforms_to_check uh_adult_platforms False
                            (general_sites (UsernameHunter cfg)) [])")
  case True
  then show ?thesis by (rule not_adult_scope)
next
  case False
  with assms have "k \<in> set (map fst (uh_developer_platforms_init @ uh_forums_init
                                     @ uh_gaming_platforms_init))"
    by (auto simp: UsernameHunter_def)
  with other_catalogs_not_adult show ?thesis
    unfolding list_all_iff by blast
qed

lemma names_outside:
  assumes "\<exists>out h' w' new.
      run = (out, h', w')
      \<and> requests w' = requests w @ new
      \<and> (\<forall>x\<in>set new. fst (snd x) \<in> scope)
      \<and> (\<forall>found. out = Inr found \<longrightarrow> (\<forall>r\<in>set found. platform r \<in> scope))"
    and outside: "\<And>k. k \<in> scope \<Longrightarrow> k \<notin> set adult"
  shows "\<exists>out h' w' new.
      run = (out, h', w')
      \<and> requests w' = requests w @ new
      \<and> (\<forall>x\<in>set new. fst (snd x) \<notin> set adult)
      \<and> (\<forall>found. out = Inr found \<longrightarrow> (\<forall>r\<in>set found. platform r \<notin> set adult))"
proof -
  from assms(1) obtain out h' w' new where
    r: "run = (out, h', w')"
    and q: "requests w' = requests w @ new"
    and a: "\<forall>x\<in>set new. fst (snd x) \<in> scope"
    and b: "\<forall>found. out = Inr found \<longrightarrow> (\<forall>r\<in>set found. platform r \<in> scope)"
    by blast
  from a outside have a': "\<forall>x\<in>set new. fst (snd x) \<notin> set adult" by blast
  from b outside
  have b': "\<forall>found. out = Inr found \<longrightarrow> (\<forall>r\<in>set found. platform r \<notin> set adult)"
    by blast
  from r q a' b' show ?thesis by blast
qed

lemma names_outside_all:
  assumes "\<exists>out h' w' new.
      run = (out, h', w')
      \<and> requests w' = requests w @ new
      \<and> (\<forall>x\<in>set new. fst (snd x) \<in> scope)
      \<and> (\<forall>m. out = Inr m \<longrightarrow>
            (\<forall>c\<in>set m. \<forall>r\<in>set (snd c). platform r \<in> scope))"
    and outside: "\<And>k. k \<in> scope \<Longrightarrow> k \<notin> set adult"
  shows "\<exists>out h' w' new.
      run = (out, h', w')
      \<and> requests w' = requests w @ new
      \<and> (\<forall>x\<in>set new. fst (snd x) \<notin> set adult)
      \<and> (\<forall>m. out = Inr m \<longrightarrow>
            (\<forall>c\<in>set m. \<forall>r\<in>set (snd c). platform r \<notin> set adult))"
proof -
  from assms(1) obtain out h' w' new where
    r: "run = (out, h', w')"
    and q: "requests w' = requests w @ new"
    and a: "\<forall>x\<in>set new. fst (snd x) \<in> scope"
    and b: "\<forall>m. out = Inr m \<longrightarrow>
              (\<forall>c\<in>set m. \<forall>r\<in>set (snd c). platform r \<in> scope)"
    by blast
  from a outside have a': "\<forall>x\<in>set new. fst (snd x) \<notin> set adult" by blast
  from b outside
  have b': "\<forall>m. out = Inr m \<longrightarrow>
              (\<forall>c\<in>set m. \<forall>r\<in>set (snd c). platform r \<notin> set adult)"
    by blast
  from r q a' b' show ?thesis by blast
qed

lemma hunt_platforms_requests':
  "\<exists>out h' w' new.
      hunt_platforms e h w u todo = (out, h', w')
      \<and> requests w' = requests w @ new
      \<and> (\<forall>x\<in>set new. fst (snd x) \<in> fst ` set todo)
      \<and> (\<forall>found. out = Inr found \<longrightarrow> (\<forall>r\<in>set found. platform r \<in> fst ` set todo))"
proof -
  from hunt_platforms_requests [of e h w u todo] obtain out sess' w' new where
    "hunt_platforms e h w u todo = (out, h\<lparr>session := sess'\<rparr>, w')"
    "requests w' = requests w @ new"
    "\<forall>x\<in>set new. fst (snd x) \<in> fst ` set todo"
    "\<forall>found. out = Inr found \<longrightarrow> (\<forall>r\<in>set found. platform r \<in> fst ` set todo)"
    by blast
  then show ?thesis by blast
qed

lemma hunt_all_platforms_requests':
  "\<exists>out h' w' new.
      hunt_all_platforms e h w u False = (out, h', w')
      \<and> requests w' = requests w @ new
      \<and> (\<forall>x\<in>set new. fst (snd x)
            \<in> fst ` set (platforms_to_check uh_adult_platforms False (general_sites h) [])
              \<union> fst ` set (developer_platforms h) \<union> fst ` set (forums h)
              \<union> fst ` set (gaming_platforms h))
      \<and> (\<forall>m. out = Inr m \<longrightarrow>
            (\<forall>c\<in>set m. \<forall>r\<in>set (snd c). platform r
               \<in> fst ` set (platforms_to_check uh_adult_platforms False (general_sites h) [])
                 \<union> fst ` set (developer_platforms h) \<union> fst ` set (forums h)
                 \<union> fst ` set (gaming_platforms h)))"
proof -
  from hunt_all_platforms_requests [of e h w u] obtain out sess' w' new where
    "hunt_all_platforms e h w u False = (out, h\<lparr>session := sess'\<rparr>, w')"
    "requests w' = requests w @ new"
    "\<forall>x\<in>set new. fst (snd x)
            \<in> fst ` set (platforms_to_check uh_adult_platforms False (general_sites h) [])
              \<union> fst ` set (developer_platforms h) \<union> fst ` set (forums h)
              \<union> fst ` set (gaming_platforms h)"
    "\<forall>m. out = Inr m \<longrightarrow>
            (\<forall>c\<in>set m. \<forall>r\<in>set (snd c). platform r
               \<in> fst ` set (platforms_to_check uh_adult_platforms False (general_sites h) [])
                 \<union> fst ` set (developer_platforms h) \<union> fst ` set (forums h)
                 \<union> fst ` set (gaming_platforms h))"
    by blast
  then show ?thesis by blast
qed

text \<open>
  C4. With \<open>include_adult\<close> unset, in any world and for any identifier, \<open>hunt_general_sites\<close>
  and \<open>hunt_username\<close> send no request for a platform of their adult list and return no
  dict of one: the platforms are left out of the dict the probes are created from. The same
  holds of \<open>hunt_all_platforms\<close> on the catalogs that the constructor registers.
\<close>

theorem adult_platforms_excluded:
  "(\<exists>out h' w' new.
      hunt_general_sites e h w u False = (out, h', w')
      \<and> requests w' = requests w @ new
      \<and> (\<forall>x\<in>set new. fst (snd x) \<notin> set uh_adult_platforms)
      \<and> (\<forall>found. out = Inr found \<longrightarrow>
            (\<forall>r\<in>set found. platform r \<notin> set uh_adult_platforms)))
   \<and> (\<exists>out g' w' new.
      hunt_username e g w u False = (out, g', w')
      \<and> requests w' = requests w @ new
      \<and> (\<forall>x\<in>set new. fst (snd x) \<notin> set sm_adult_platforms)
      \<and> (\<forall>found. out = Inr found \<longrightarrow>
            (\<forall>r\<in>set found. platform r \<notin> set sm_adult_platforms)))
   \<and> (\<exists>out h' w' new.
      hunt_all_platforms e (UsernameHunter cfg) w u False = (out, h', w')
      \<and> requests w' = requests w @ new
      \<and> (\<forall>x\<in>set new. fst (snd x) \<notin> set uh_adult_platforms)
      \<and> (\<forall>m. out = Inr m \<longrightarrow>
            (\<forall>c\<in>set m. \<forall>r\<in>set (snd c). platform r \<notin> set uh_adult_platforms)))"
proof (intro conjI)
  show "\<exists>out h' w' new.
      hunt_general_sites e h w u False = (out, h', w')
      \<and> requests w' = requests w @ new
      \<and> (\<forall>x\<in>set new. fst (snd x) \<notin> set uh_adult_platforms)
      \<and> (\<forall>found. out = Inr found \<longrightarrow>
            (\<forall>r\<in>set found. platform r \<notin> set uh_adult_platforms))"
    unfolding hunt_general_sites_def
    by (rule names_outside [OF hunt_platforms_requests']) (rule not_adult_scope)
next
  show "\<exists>out g' w' new.
      hunt_username e g w u False = (out, g', w')
      \<and> requests w' = requests w @ new
      \<and> (\<forall>x\<in>set new. fst (snd x) \<notin> set sm_adult_platforms)
      \<and> (\<forall>found. out = Inr found \<longrightarrow>
            (\<forall>r\<in>set found. platform r \<notin> set sm_adult_platforms))"
    by (rule names_outside [OF hunt_username_requests]) (rule not_adult_scope)
next
  show "\<exists>out h' w' new.
      hunt_all_platforms e (UsernameHunter cfg) w u False = (out, h', w')
      \<and> requests w' = requests w @ new
      \<and> (\<forall>x\<in>set new. fst (snd x) \<notin> set uh_adult_platforms)
      \<and> (\<forall>m. out = Inr m \<longrightarrow>
            (\<forall>c\<in>set m. \<forall>r\<in>set (snd c). platform r \<notin> set uh_adult_platforms))"
    by (rule names_outside_all [OF hunt_all_platforms_requests'])
       (rule UsernameHunter_scope_not_adult)
qed

text \<open>
  On the catalogs of the source, with every platform answering: the general hunt is left
  with the ten platforms that are not in the list.
\<close>

theorem adult_platforms_excluded_witness:
  "map fst (platforms_to_check uh_adult_platforms False uh_general_sites_init [])
     = [''pastebin'', ''about_me'', ''gravatar'', ''keybase'', ''hackernews'',
        ''product_hunt'', ''angel_list'', ''foursquare'', ''last_fm'', ''mix_cloud'']
   \<and> (\<exists>out h' w' new.
      hunt_general_sites (example_env (answers 200 ''profile'')) (UsernameHunter default_config)
          new_world ''testuser123'' False = (out, h', w')
      \<and> requests w' = requests new_world @ new
      \<and> (\<forall>x\<in>set new. fst (snd x) \<notin> set uh_adult_platforms)
      \<and> (\<forall>found. out = Inr found \<longrightarrow>
            (\<forall>r\<in>set found. platform r \<notin> set uh_adult_platforms)))
   \<and> (\<exists>out g' w' new.
      hunt_username (example_env (answers 200 ''profile'')) (SocialMediaHunter default_config)
          new_world ''testuser123'' False = (out, g', w')
      \<and> requests w' = requests new_world @ new
      \<and> (\<forall>x\<in>set new. fst (snd x) \<notin> set sm_adult_platforms)
      \<and> (\<forall>found. out = Inr found \<longrightarrow>
            (\<forall>r\<in>set found. platform r \<notin> set sm_adult_platforms)))
   \<and> (\<exists>out h' w' new.
      hunt_all_platforms (example_env (answers 200 ''profile'')) (UsernameHunter default_config)
          new_world ''testuser123'' False = (out, h', w')
      \<and> requests w' = requests new_world @ new
      \<and> (\<forall>x\<in>set new. fst (snd x) \<notin> set uh_adult_platforms)
      \<and> (\<forall>m. out = Inr m \<longrightarrow>
            (\<forall>c\<in>set m. \<forall>r\<in>set (snd c). platform r \<notin> set uh_adult_platforms)))"
proof -
  have "map fst (platforms_to_check uh_adult_platforms False uh_general_sites_init [])
     = [''pastebin'', ''about_me'', ''gravatar'', ''keybase'', ''hackernews'',
        ''product_hunt'', ''angel_list'', ''foursquare'', ''last_fm'', ''mix_cloud'']"
    by code_simp
  then show ?thesis
    using adult_platforms_excluded
         [of "example_env (answers 200 ''profile'')" "UsernameHunter default_config"
             new_world "''testuser123''" "SocialMediaHunter default_config" default_config]
    by (rule conjI)
qed

section \<open>Sessions of \<open>hunt_all_platforms\<close>\<close>

text \<open>
  A hunt that starts without a session creates one, sends every request of its batch
  through it, closes it and leaves the hunter without a session again.
\<close>

lemma hunt_platforms_sessions:
  assumes none: "session h = None"
    and ua: "user_agents (config h) \<noteq> []"
    and cl: "\<And>s. close e s = None"
  shows "\<exists>found s new.
           hunt_platforms e h w u todo
             = (Inr found, h,
                w\<lparr>created := created w @ [s], closed := closed w @ [sid s],
                  requests := requests w @ new\<rparr>)
           \<and> sid s = length (created w)
           \<and> limit s = max_workers (config h)
           \<and> (\<forall>x\<in>set new. fst x = sid s)"
proof -
  define s where
    "s = \<lparr> sid = length (created w), total_timeout = timeout (config h),
           limit = max_workers (config h), verify = verify_ssl (config h),
           default_agent = pick e (user_agents (config h)) \<rparr>"
  define w1 where "w1 = w\<lparr>created := created w @ [s]\<rparr>"
  from none ua have es: "ensure_session e h w = Inr (h\<lparr>session := Some s\<rparr>, w1)"
    by (simp add: ensure_session_cases s_def w1_def)
  define probe where
    "probe = (\<lambda>w p pd. uh_check_username_on_platform e (config h) (Some s) w u p pd)"
  obtain rs w2 where g: "gather probe todo w1 = (rs, w2)"
    by (cases "gather probe todo w1")
  have "\<exists>new. w2 = w1\<lparr>requests := requests w1 @ new\<rparr>
           \<and> (\<forall>x\<in>set new. fst x = sid s \<and> fst (snd x) \<in> fst ` set todo)"
  proof (rule gather_frame [OF _ g])
    fix w p pd out w'
    assume "probe w p pd = (out, w')"
    then have "uh_check_username_on_platform e (config h) (Some s) w u p pd = (out, w')"
      by (simp add: probe_def)
    from uh_probe_frame [OF this]
    show "\<exists>new. w' = w\<lparr>requests := requests w @ new\<rparr>
            \<and> (\<forall>x\<in>set new. fst x = sid s \<and> fst (snd x) = p)"
      by auto
  qed
  then obtain new where w2: "w2 = w1\<lparr>requests := requests w1 @ new\<rparr>"
    and through: "\<forall>x\<in>set new. fst x = sid s"
    by blast
  from none have restored: "h\<lparr>session := None\<rparr> = h" by (cases h) simp
  have fc: "finally_close e (h\<lparr>session := Some s\<rparr>) w2
              = (h, w2\<lparr>closed := closed w2 @ [sid s]\<rparr>)"
    by (simp add: finally_close_cases cl restored)
  have run: "hunt_platforms e h w u todo
          = (Inr (valid_results rs), h,
             w\<lparr>created := created w @ [s], closed := closed w @ [sid s],
               requests := requests w @ new\<rparr>)"
    using es g fc by (simp add: hunt_platforms_def probe_def w2 w1_def)
  have "sid s = length (created w)" and "limit s = max_workers (config h)"
    by (simp_all add: s_def)
  with run through show ?thesis by blast
qed

lemma hunt_all_platforms_sessions:
  assumes none: "session h = None"
    and ua: "user_agents (config h) \<noteq> []"
    and cl: "\<And>s. close e s = None"
    and adult: "include_adult \<longrightarrow>
                  (\<exists>adult. subscript_all (general_sites h) uh_adult_platforms [] = Inr adult)"
  shows "\<exists>m w' ss new.
           hunt_all_platforms e h w u include_adult = (Inr m, h, w')
           \<and> created w' = created w @ ss
           \<and> map sid ss
               = (if include_adult
                  then [length (created w), length (created w) + 1, length (created w) + 2,
                        length (created w) + 3, length (created w) + 4]
                  else [length (created w), length (created w) + 1, length (created w) + 2,
                        length (created w) + 3])
           \<and> closed w' = closed w @ map sid ss
           \<and> requests w' = requests w @ new
           \<and> (\<forall>x\<in>set new. fst x \<in> set (map sid ss))"
proof -
  let ?general = "platforms_to_check uh_adult_platforms include_adult (general_sites h) []"
  from hunt_platforms_sessions [OF none ua cl, of w u ?general]
  obtain f1 s1 n1 where
    r1: "hunt_platforms e h w u ?general
           = (Inr f1, h, w\<lparr>created := created w @ [s1], closed := closed w @ [sid s1],
                            requests := requests w @ n1\<rparr>)"
    and i1: "sid s1 = length (created w)"
    and t1: "\<forall>x\<in>set n1. fst x = sid s1"
    by blast
  define w1 where
    "w1 = w\<lparr>created := created w @ [s1], closed := closed w @ [sid s1],
            requests := requests w @ n1\<rparr>"
  from hunt_platforms_sessions [OF none ua cl, of w1 u "developer_platforms h"]
  obtain f2 s2 n2 where
    r2: "hunt_platforms e h w1 u (developer_platforms h)
           = (Inr f2, h, w1\<lparr>created := created w1 @ [s2], closed := closed w1 @ [sid s2],
                             requests := requests w1 @ n2\<rparr>)"
    and i2: "sid s2 = length (created w1)"
    and t2: "\<forall>x\<in>set n2. fst x = sid s2"
    by blast
  define w2 where
    "w2 = w1\<lparr>created := created w1 @ [s2], closed := closed w1 @ [sid s2],
             requests := requests w1 @ n2\<rparr>"
  from hunt_platforms_sessions [OF none ua cl, of w2 u "forums h"]
  obtain f3 s3 n3 where
    r3: "hunt_platforms e h w2 u (forums h)
           = (Inr f3, h, w2\<lparr>created := created w2 @ [s3], closed := closed w2 @ [sid s3],
                             requests := requests w2 @ n3\<rparr>)"
    and i3: "sid s3 = length (created w2)"
    and t3: "\<forall>x\<in>set n3. fst x = sid s3"
    by blast
  define w3 where
    "w3 = w2\<lparr>created := created w2 @ [s3], closed := closed w2 @ [sid s3],
             requests := requests w2 @ n3\<rparr>"
  from hunt_platforms_sessions [OF none ua cl, of w3 u "gaming_platforms h"]
  obtain f4 s4 n4 where
    r4: "hunt_platforms e h w3 u (gaming_platforms h)
           = (Inr f4, h, w3\<lparr>created := created w3 @ [s4], closed := closed w3 @ [sid s4],
                             requests := requests w3 @ n4\<rparr>)"
    and i4: "sid s4 = length (created w3)"
    and t4: "\<forall>x\<in>set n4. fst x = sid s4"
    by blast
  define w4 where
    "w4 = w3\<lparr>created := created w3 @ [s4], closed := closed w3 @ [sid s4],
             requests := requests w3 @ n4\<rparr>"
  have c4: "created w4 = created w @ [s1, s2, s3, s4]"
    and d4: "closed w4 = closed w @ map sid [s1, s2, s3, s4]"
    and q4: "requests w4 = requests w @ (n1 @ n2 @ n3 @ n4)"
    by (simp_all add: w4_def w3_def w2_def w1_def)
  have ids: "map sid [s1, s2, s3, s4]
               = [length (created w), length (created w) + 1, length (created w) + 2,
                  length (created w) + 3]"
    by (simp add: i1 i2 i3 i4 w3_def w2_def w1_def)
  have t: "\<forall>x\<in>set (n1 @ n2 @ n3 @ n4). fst x \<in> set (map sid [s1, s2, s3, s4])"
    using t1 t2 t3 t4 by auto
  show ?thesis
  proof (cases include_adult)
    case False
    have "hunt_all_platforms e h w u include_adult
            = (Inr [(''general_sites'', f1), (''developer_platforms'', f2),
                    (''forums'', f3), (''gaming_platforms'', f4)], h, w4)"
      using False r1 r2 r3 r4
      by (simp add: hunt_all_platforms_def hunt_general_sites_def
          hunt_developer_platforms_def hunt_forums_def hunt_gaming_platforms_def
          w1_def [symmetric] w2_def [symmetric] w3_def [symmetric] w4_def [symmetric])
    with False c4 d4 q4 ids t show ?thesis by (metis (no_types, lifting))
  next
    case True
    with adult obtain scope where
      sub: "subscript_all (general_sites h) uh_adult_platforms [] = Inr scope"
      by blast
    from hunt_platforms_sessions [OF none ua cl, of w4 u scope]
    obtain f5 s5 n5 where
      r5: "hunt_platforms e h w4 u scope
             = (Inr f5, h, w4\<lparr>created := created w4 @ [s5], closed := closed w4 @ [sid s5],
                               requests := requests w4 @ n5\<rparr>)"
      and i5: "sid s5 = length (created w4)"
      and t5: "\<forall>x\<in>set n5. fst x = sid s5"
      by blast
    define w5 where
      "w5 = w4\<lparr>created := created w4 @ [s5], closed := closed w4 @ [sid s5],
               requests := requests w4 @ n5\<rparr>"
    have c5: "created w5 = created w @ [s1, s2, s3, s4, s5]"
      and d5: "closed w5 = closed w @ map sid [s1, s2, s3, s4, s5]"
      and q5: "requests w5 = requests w @ (n1 @ n2 @ n3 @ n4 @ n5)"
      by (simp_all add: w5_def c4 d4 q4)
    have ids5: "map sid [s1, s2, s3, s4, s5]
               = [length (created w), length (created w) + 1, length (created w) + 2,
                  length (created w) + 3, length (created w) + 4]"
      using ids by (simp add: i5 c4)
    have t': "\<forall>x\<in>set (n1 @ n2 @ n3 @ n4 @ n5).
                fst x \<in> set (map sid [s1, s2, s3, s4, s5])"
      using t1 t2 t3 t4 t5 by auto
    have "hunt_all_platforms e h w u include_adult
            = (Inr (AList.update ''adult_platforms'' f5
                      [(''general_sites'', f1), (''developer_platforms'', f2),
                       (''forums'', f3), (''gaming_platforms'', f4)]), h, w5)"
      using True r1 r2 r3 r4 r5 sub
      by (simp add: hunt_all_platforms_def hunt_general_sites_def
          hunt_developer_platforms_def hunt_forums_def hunt_gaming_platforms_def
          hunt_adult_platforms_def
          w1_def [symmetric] w2_def [symmetric] w3_def [symmetric] w4_def [symmetric]
          w5_def [symmetric])
    with True c5 d5 q5 ids5 t' show ?thesis by (metis (no_types, lifting))
  qed
qed

lemma adult_entries_registered:
  "subscript_all uh_general_sites_init uh_adult_platforms [] = Inr (drop 10 uh_general_sites_init)"
  by code_simp

text \<open>
  C7, as amended. \<open>hunt_all_platforms\<close>, called on a hunter without a session, with a user
  agent to draw and sessions that close without raising (and, with \<open>include_adult\<close>, the ten
  adult entries in \<open>general_sites\<close>), opens one session per category hunt: four, or five with
  \<open>include_adult\<close>, numbered in the order of the hunts. Every request of the call goes
  through one of them, each is closed, and the hunter is left as it was, without a session,
  so that the next hunt opens a new one.
\<close>

theorem one_session_per_category:
  assumes "session h = None"
    and "user_agents (config h) \<noteq> []"
    and "\<And>s. close e s = None"
    and "include_adult \<longrightarrow>
           (\<exists>adult. subscript_all (general_sites h) uh_adult_platforms [] = Inr adult)"
  shows "\<exists>m w' ss new.
           hunt_all_platforms e h w u include_adult = (Inr m, h, w')
           \<and> created w' = created w @ ss
           \<and> map sid ss
               = (if include_adult
                  then [length (created w), length (created w) + 1, length (created w) + 2,
                        length (created w) + 3, length (created w) + 4]
                  else [length (created w), length (created w) + 1, length (created w) + 2,
                        length (created w) + 3])
           \<and> closed w' = closed w @ map sid ss
           \<and> requests w' = requests w @ new
           \<and> (\<forall>x\<in>set new. fst x \<in> set (map sid ss))"
  using assms by (rule hunt_all_platforms_sessions)

theorem one_session_per_category_witness:
  "\<exists>m w' ss new.
     hunt_all_platforms (example_env (answers 404 '''')) (UsernameHunter example_config)
         new_world ''testuser123'' True
       = (Inr m, UsernameHunter example_config, w')
     \<and> created w' = created new_world @ ss
     \<and> map sid ss
         = (if True
            then [length (created new_world), length (created new_world) + 1,
                  length (created new_world) + 2, length (created new_world) + 3,
                  length (created new_world) + 4]
            else [length (created new_world), length (created new_world) + 1,
                  length (created new_world) + 2, length (created new_world) + 3])
     \<and> closed w' = closed new_world @ map sid ss
     \<and> requests w' = requests new_world @ new
     \<and> (\<forall>x\<in>set new. fst x \<in> set (map sid ss))"
  by (rule one_session_per_category)
     (simp_all add: UsernameHunter_def example_config_def example_env_def
        adult_entries_registered)

text \<open>
  The claim as stated fails: one call of \<open>hunt_all_platforms\<close> without \<open>include_adult\<close>, on
  the hunter as constructed, creates four sessions, numbered 0 to 3.
\<close>

theorem four_sessions_in_one_call:
  "map sid (created (snd (snd
      (hunt_all_platforms (example_env (answers 404 '''')) (UsernameHunter example_config)
         new_world ''testuser123'' False))))
     = [0, 1, 2, 3]"
proof -
  have "\<exists>m w' ss new.
     hunt_all_platforms (example_env (answers 404 '''')) (UsernameHunter example_config)
         new_world ''testuser123'' False
       = (Inr m, UsernameHunter example_config, w')
     \<and> created w' = created new_world @ ss
     \<and> map sid ss
         = (if False
            then [length (created new_world), length (created new_world) + 1,
                  length (created new_world) + 2, length (created new_world) + 3,
                  length (created new_world) + 4]
            else [length (created new_world), length (created new_world) + 1,
                  length (created new_world) + 2, length (created new_world) + 3])
     \<and> closed w' = closed new_world @ map sid ss
     \<and> requests w' = requests new_world @ new
     \<and> (\<forall>x\<in>set new. fst x \<in> set (map sid ss))"
    by (rule hunt_all_platforms_sessions)
       (simp_all add: UsernameHunter_def example_config_def example_env_def)
  then obtain m w' ss where
    "hunt_all_platforms (example_env (answers 404 '''')) (UsernameHunter example_config)
         new_world ''testuser123'' False
       = (Inr m, UsernameHunter example_config, w')"
    and "created w' = created new_world @ ss"
    and "map sid ss = [0, 1, 2, 3]"
    by (auto simp: new_world_def)
  then show ?thesis by (simp add: new_world_def)
qed

section \<open>The mapping \<open>hunt_all_platforms\<close> returns\<close>

lemma hunt_platforms_returns:
  assumes "user_agents (config h) \<noteq> []"
  shows "\<exists>found sess' w'.
           hunt_platforms e h w u todo = (Inr found, h\<lparr>session := sess'\<rparr>, w')
           \<and> (todo = [] \<longrightarrow> found = [])"
proof -
  from hunt_platforms_total [OF assms, of e w u todo] obtain rs sess' w' where
    run: "hunt_platforms e h w u todo = (Inr (valid_results rs), h\<lparr>session := sess'\<rparr>, w')"
    and len: "length rs = length todo"
    by blast
  from len have "todo = [] \<longrightarrow> valid_results rs = []" by auto
  with run show ?thesis by blast
qed

lemma hunt_all_platforms_total:
  assumes ua: "user_agents (config h) \<noteq> []"
    and adult: "include_adult \<longrightarrow>
                  (\<exists>adult. subscript_all (general_sites h) uh_adult_platforms [] = Inr adult)"
  shows "\<exists>a b c d x sess' w'.
           hunt_all_platforms e h w u include_adult
             = (Inr ([(''general_sites'', a), (''developer_platforms'', b),
                      (''forums'', c), (''gaming_platforms'', d)]
                     @ (if include_adult then [(''adult_platforms'', x)] else [])),
                h\<lparr>session := sess'\<rparr>, w')
           \<and> (platforms_to_check uh_adult_platforms include_adult (general_sites h) [] = []
                \<longrightarrow> a = [])
           \<and> (developer_platforms h = [] \<longrightarrow> b = [])
           \<and> (forums h = [] \<longrightarrow> c = [])
           \<and> (gaming_platforms h = [] \<longrightarrow> d = [])"
proof -
  let ?general = "platforms_to_check uh_adult_platforms include_adult (general_sites h) []"
  have ua': "\<And>s. user_agents (config (h\<lparr>session := s\<rparr>)) \<noteq> []"
    using ua by simp
  from hunt_platforms_returns [OF ua, of e w u ?general]
  obtain a s1 w1 where
    r1: "hunt_platforms e h w u ?general = (Inr a, h\<lparr>session := s1\<rparr>, w1)"
    and e1: "?general = [] \<longrightarrow> a = []"
    by blast
  from hunt_platforms_returns [OF ua', of e s1 w1 u "developer_platforms h"]
  obtain b s2 w2 where
    r2: "hunt_platforms e (h\<lparr>session := s1\<rparr>) w1 u (developer_platforms h)
           = (Inr b, h\<lparr>session := s2\<rparr>, w2)"
    and e2: "developer_platforms h = [] \<longrightarrow> b = []"
    by auto
  from hunt_platforms_returns [OF ua', of e s2 w2 u "forums h"]
  obtain c s3 w3 where
    r3: "hunt_platforms e (h\<lparr>session := s2\<rparr>) w2 u (forums h)
           = (Inr c, h\<lparr>session := s3\<rparr>, w3)"
    and e3: "forums h = [] \<longrightarrow> c = []"
    by auto
  from hunt_platforms_returns [OF ua', of e s3 w3 u "gaming_platforms h"]
  obtain d s4 w4 where
    r4: "hunt_platforms e (h\<lparr>session := s3\<rparr>) w3 u (gaming_platforms h)
           = (Inr d, h\<lparr>session := s4\<rparr>, w4)"
    and e4: "gaming_platforms h = [] \<longrightarrow> d = []"
    by auto
  show ?thesis
  proof (cases include_adult)
    case False
    have "hunt_all_platforms e h w u include_adult
            = (Inr ([(''general_sites'', a), (''developer_platforms'', b),
                     (''forums'', c), (''gaming_platforms'', d)]
                    @ (if include_adult then [(''adult_platforms'', [])] else [])),
               h\<lparr>session := s4\<rparr>, w4)"
      using False r1 r2 r3 r4
      by (simp add: hunt_all_platforms_def hunt_general_sites_def
          hunt_developer_platforms_def hunt_forums_def hunt_gaming_platforms_def)
    with e1 e2 e3 e4 show ?thesis by blast
  next
    case True
    with adult obtain scope where
      sub: "subscript_all (general_sites h) uh_adult_platforms [] = Inr scope"
      by blast
    from hunt_platforms_returns [OF ua', of e s4 w4 u scope]
    obtain x s5 w5 where
      r5: "hunt_platforms e (h\<lparr>session := s4\<rparr>) w4 u scope
             = (Inr x, h\<lparr>session := s5\<rparr>, w5)"
      by auto
    have "hunt_all_platforms e h w u include_adult
            = (Inr ([(''general_sites'', a), (''developer_platforms'', b),
                     (''forums'', c), (''gaming_platforms'', d)]
                    @ (if include_adult then [(''adult_platforms'', x)] else [])),
               h\<lparr>session := s5\<rparr>, w5)"
      using True r1 r2 r3 r4 r5 sub
      by (simp add: hunt_all_platforms_def hunt_general_sites_def
          hunt_developer_platforms_def hunt_forums_def hunt_gaming_platforms_def
          hunt_adult_platforms_def)
    with e1 e2 e3 e4 show ?thesis by blast
  qed
qed

text \<open>
  C9, as amended. For every identifier, when a session can be had (the pool of user agents
  is not empty) and, with \<open>include_adult\<close>, the ten adult entries are in \<open>general_sites\<close>,
  \<open>hunt_all_platforms\<close> returns a mapping whose keys are the four categories, and
  \<open>adult_platforms\<close> with \<open>include_adult\<close>; a category whose platform dict is empty is
  mapped to the empty list.
\<close>

theorem every_category_present:
  assumes "user_agents (config h) \<noteq> []"
    and "include_adult \<longrightarrow>
           (\<exists>adult. subscript_all (general_sites h) uh_adult_platforms [] = Inr adult)"
  shows "\<exists>m h' w'.
           hunt_all_platforms e h w u include_adult = (Inr m, h', w')
           \<and> map fst m
               = [''general_sites'', ''developer_platforms'', ''forums'', ''gaming_platforms'']
                 @ (if include_adult then [''adult_platforms''] else [])
           \<and> (platforms_to_check uh_adult_platforms include_adult (general_sites h) [] = []
                \<longrightarrow> map_of m ''general_sites'' = Some [])
           \<and> (developer_platforms h = [] \<longrightarrow> map_of m ''developer_platforms'' = Some [])
           \<and> (forums h = [] \<longrightarrow> map_of m ''forums'' = Some [])
           \<and> (gaming_platforms h = [] \<longrightarrow> map_of m ''gaming_platforms'' = Some [])"
proof -
  from hunt_all_platforms_total [OF assms, of e w u] obtain a b c d x sess' w' where
    run: "hunt_all_platforms e h w u include_adult
             = (Inr ([(''general_sites'', a), (''developer_platforms'', b),
                      (''forums'', c), (''gaming_platforms'', d)]
                     @ (if include_adult then [(''adult_platforms'', x)] else [])),
                h\<lparr>session := sess'\<rparr>, w')"
    and e1: "platforms_to_check uh_adult_platforms include_adult (general_sites h) [] = []
                \<longrightarrow> a = []"
    and e2: "developer_platforms h = [] \<longrightarrow> b = []"
    and e3: "forums h = [] \<longrightarrow> c = []"
    and e4: "gaming_platforms h = [] \<longrightarrow> d = []"
    by blast
  define m where
    "m = [(''general_sites'', a), (''developer_platforms'', b),
          (''forums'', c), (''gaming_platforms'', d)]
         @ (if include_adult then [(''adult_platforms'', x)] else [])"
  have keys: "map fst m
               = [''general_sites'', ''developer_platforms'', ''forums'', ''gaming_platforms'']
                 @ (if include_adult then [''adult_platforms''] else [])"
    by (simp add: m_def)
  have "map_of m ''general_sites'' = Some a"
    and "map_of m ''developer_platforms'' = Some b"
    and "map_of m ''forums'' = Some c"
    and "map_of m ''gaming_platforms'' = Some d"
    by (simp_all add: m_def)
  with e1 e2 e3 e4 have
    "platforms_to_check uh_adult_platforms include_adult (general_sites h) [] = []
                \<longrightarrow> map_of m ''general_sites'' = Some []"
    "developer_platforms h = [] \<longrightarrow> map_of m ''developer_platforms'' = Some []"
    "forums h = [] \<longrightarrow> map_of m ''forums'' = Some []"
    "gaming_platforms h = [] \<longrightarrow> map_of m ''gaming_platforms'' = Some []"
    by simp_all
  moreover from run have "hunt_all_platforms e h w u include_adult
                            = (Inr m, h\<lparr>session := sess'\<rparr>, w')"
    by (simp only: m_def)
  ultimately show ?thesis using keys by blast
qed

theorem every_category_present_witness:
  "fst (hunt_all_platforms (example_env example_transport) small_hunter
          new_world ''testuser123'' False)
     = Inr [(''general_sites'',
             [\<lparr> platform = ''x'', username = ''testuser123'',
                 profile_url = ''https://x.test/testuser123'', exists = True,
                 status_code = Some 200, response_time = None,
                 additional_info = Some [], error = None \<rparr>]),
            (''developer_platforms'', []), (''forums'', []), (''gaming_platforms'', [])]
   \<and> (\<exists>m h' w'.
         hunt_all_platforms (example_env example_transport) small_hunter
             new_world ''testuser123'' False = (Inr m, h', w')
         \<and> map fst m
             = [''general_sites'', ''developer_platforms'', ''forums'', ''gaming_platforms'']
               @ (if False then [''adult_platforms''] else [])
         \<and> (platforms_to_check uh_adult_platforms False (general_sites small_hunter) [] = []
              \<longrightarrow> map_of m ''general_sites'' = Some [])
         \<and> (developer_platforms small_hunter = []
              \<longrightarrow> map_of m ''developer_platforms'' = Some [])
         \<and> (forums small_hunter = [] \<longrightarrow> map_of m ''forums'' = Some [])
         \<and> (gaming_platforms small_hunter = []
              \<longrightarrow> map_of m ''gaming_platforms'' = Some []))
   \<and> (\<exists>m h' w'.
         hunt_all_platforms (example_env example_transport) hunter_without_forums
             new_world ''testuser123'' True = (Inr m, h', w')
         \<and> map fst m
             = [''general_sites'', ''developer_platforms'', ''forums'', ''gaming_platforms'']
               @ (if True then [''adult_platforms''] else [])
         \<and> (platforms_to_check uh_adult_platforms True
                (general_sites hunter_without_forums) [] = []
              \<longrightarrow> map_of m ''general_sites'' = Some [])
         \<and> (developer_platforms hunter_without_forums = []
              \<longrightarrow> map_of m ''developer_platforms'' = Some [])
         \<and> (forums hunter_without_forums = [] \<longrightarrow> map_of m ''forums'' = Some [])
         \<and> (gaming_platforms hunter_without_forums = []
              \<longrightarrow> map_of m ''gaming_platforms'' = Some []))"
proof (intro conjI)
  show "fst (hunt_all_platforms (example_env example_transport) small_hunter
          new_world ''testuser123'' False)
     = Inr [(''general_sites'',
             [\<lparr> platform = ''x'', username = ''testuser123'',
                 profile_url = ''https://x.test/testuser123'', exists = True,
                 status_code = Some 200, response_time = None,
                 additional_info = Some [], error = None \<rparr>]),
            (''developer_platforms'', []), (''forums'', []), (''gaming_platforms'', [])]"
    by code_simp
next
  show "\<exists>m h' w'.
         hunt_all_platforms (example_env example_transport) small_hunter
             new_world ''testuser123'' False = (Inr m, h', w')
         \<and> map fst m
             = [''general_sites'', ''developer_platforms'', ''forums'', ''gaming_platforms'']
               @ (if False then [''adult_platforms''] else [])
         \<and> (platforms_to_check uh_adult_platforms False (general_sites small_hunter) [] = []
              \<longrightarrow> map_of m ''general_sites'' = Some [])
         \<and> (developer_platforms small_hunter = []
              \<longrightarrow> map_of m ''developer_platforms'' = Some [])
         \<and> (forums small_hunter = [] \<longrightarrow> map_of m ''forums'' = Some [])
         \<and> (gaming_platforms small_hunter = []
              \<longrightarrow> map_of m ''gaming_platforms'' = Some [])"
    by (rule every_category_present)
       (simp_all add: small_hunter_def example_config_def)
next
  show "\<exists>m h' w'.
         hunt_all_platforms (example_env example_transport) hunter_without_forums
             new_world ''testuser123'' True = (Inr m, h', w')
         \<and> map fst m
             = [''general_sites'', ''developer_platforms'', ''forums'', ''gaming_platforms'']
               @ (if True then [''adult_platforms''] else [])
         \<and> (platforms_to_check uh_adult_platforms True
                (general_sites hunter_without_forums) [] = []
              \<longrightarrow> map_of m ''general_sites'' = Some [])
         \<and> (developer_platforms hunter_without_forums = []
              \<longrightarrow> map_of m ''developer_platforms'' = Some [])
         \<and> (forums hunter_without_forums = [] \<longrightarrow> map_of m ''forums'' = Some [])
         \<and> (gaming_platforms hunter_without_forums = []
              \<longrightarrow> map_of m ''gaming_platforms'' = Some [])"
    by (rule every_category_present)
       (simp_all add: hunter_without_forums_def UsernameHunter_def example_config_def
          adult_entries_registered)
qed

text \<open>
  The claim as stated fails where no mapping is returned. With \<open>include_adult\<close> and a
  \<open>general_sites\<close> dict that is empty, \<open>hunt_adult_platforms\<close> raises \<open>KeyError\<close> on the
  first name it subscripts; with an empty pool of user agents, \<open>create_session\<close> raises
  \<open>IndexError\<close> in the first hunt.
\<close>

theorem no_mapping_returned:
  "fst (hunt_all_platforms (example_env example_transport)
          (small_hunter\<lparr>general_sites := []\<rparr>) new_world ''testuser123'' True)
     = Inl (Exception ([CHR 0x27] @ ''adultfriendfinder'' @ [CHR 0x27]))
   \<and> fst (hunt_all_platforms (example_env example_transport)
            (small_hunter\<lparr>config := example_config\<lparr>user_agents := []\<rparr>\<rparr>)
            new_world ''testuser123'' False)
     = Inl (Exception ''Cannot choose from an empty sequence'')"
  by code_simp

section \<open>The breach report\<close>

lemma check_breachdirectory_Some:
  assumes "check_breachdirectory e cfg addr = Some p"
  shows "user_agents cfg \<noteq> []"
    and "p = \<lparr> source = ''Breach Directory'', email = addr, found = False,
               breaches = None, web_url = None,
               note_text = ''Manual check required at https://breachdirectory.org/'' \<rparr>"
  using assms
  by (auto simp: check_breachdirectory_def random_choice_def split: if_splits)

lemma report_of_one_or_two:
  assumes "length results = 1 \<or> length results = 2"
  shows "total_breaches_found (generate_breach_report addr results) = length results"
    and "risk_level (generate_breach_report addr results)
           = (if length results = 1 then ''Low'' else ''Medium'')"
    and "breach_sources (generate_breach_report addr results) = map source results"
  using assms by (auto simp: generate_breach_report_def Let_def)

text \<open>
  C10. Whenever the Breach Directory check returns its placeholder, whose \<open>found\<close> is
  \<open>False\<close>, \<open>check_breaches\<close> returns a report that counts it: at least one breach, the
  source listed, and a risk level of \<open>Low\<close> or \<open>Medium\<close>, never \<open>Clean\<close>.
\<close>

theorem placeholder_counted_as_breach:
  assumes "check_breachdirectory e (config h) addr = Some p"
  shows "\<not> found p
       \<and> (\<exists>rep h' w'.
             check_breaches e h w addr = (Inr rep, h', w')
             \<and> total_breaches_found rep \<ge> 1
             \<and> risk_level rep \<noteq> ''Clean''
             \<and> (risk_level rep = ''Low'' \<or> risk_level rep = ''Medium'')
             \<and> source p \<in> set (breach_sources rep))"
proof -
  note ua = check_breachdirectory_Some(1) [OF assms]
  note p = check_breachdirectory_Some(2) [OF assms]
  from ensure_session_total [OF ua, of e w] obtain s w1 where
    es: "ensure_session e h w = Inr (h\<lparr>session := Some s\<rparr>, w1)"
    by blast
  obtain pwned w2 where
    hibp: "check_haveibeenpwned e (config h) (Some s) w1 addr = (pwned, w2)"
    by (cases "check_haveibeenpwned e (config h) (Some s) w1 addr")
  obtain h3 w3 where fc: "finally_close e (h\<lparr>session := Some s\<rparr>) w2 = (h3, w3)"
    by (cases "finally_close e (h\<lparr>session := Some s\<rparr>) w2")
  define results where "results = append_if (Some p) (append_if pwned [])"
  have run: "check_breaches e h w addr = (Inr (generate_breach_report addr results), h3, w3)"
    using es hibp fc assms
    by (simp add: check_breaches_def results_def check_local_breach_files_def
        check_pastebins_def check_social_media_breaches_def)
  have len: "length results = 1 \<or> length results = 2"
    by (cases pwned) (simp_all add: results_def append_if_def)
  have "p \<in> set results"
    by (cases pwned) (simp_all add: results_def append_if_def)
  then have src: "source p \<in> set (breach_sources (generate_breach_report addr results))"
    by (simp add: report_of_one_or_two(3) [OF len])
  from len have "total_breaches_found (generate_breach_report addr results) \<ge> 1"
    by (auto simp: report_of_one_or_two(1))
  moreover from len have
    "risk_level (generate_breach_report addr results) = ''Low''
     \<or> risk_level (generate_breach_report addr results) = ''Medium''"
    by (auto simp: report_of_one_or_two(2))
  moreover from this have "risk_level (generate_breach_report addr results) \<noteq> ''Clean''"
    by auto
  moreover from p have "\<not> found p" by simp
  ultimately show ?thesis using run src by blast
qed

theorem placeholder_counted_as_breach_witness:
  "fst (check_breaches (example_env (answers 404 '''')) (BreachChecker example_config)
          new_world ''someone@example.test'')
     = Inr \<lparr> checked_email = ''someone@example.test'', total_breaches_found = 1,
             breach_sources = [''Breach Directory''], risk_level = ''Low'',
             recommendations =
               [''Change passwords for all accounts associated with this email'',
                ''Enable two-factor authentication where possible'',
                ''Monitor accounts for suspicious activity'',
                ''Consider using a password manager'',
                ''Check credit reports for unauthorized accounts''],
             last_checked = None \<rparr>
   \<and> \<not> found \<lparr> source = ''Breach Directory'', email = ''someone@example.test'',
                found = False, breaches = None, web_url = None,
                note_text = ''Manual check required at https://breachdirectory.org/'' \<rparr>
   \<and> (\<exists>rep h' w'.
         check_breaches (example_env (answers 404 '''')) (BreachChecker example_config)
             new_world ''someone@example.test'' = (Inr rep, h', w')
         \<and> total_breaches_found rep \<ge> 1
         \<and> risk_level rep \<noteq> ''Clean''
         \<and> (risk_level rep = ''Low'' \<or> risk_level rep = ''Medium'')
         \<and> source \<lparr> source = ''Breach Directory'', email = ''someone@example.test'',
                     found = False, breaches = None, web_url = None,
                     note_text = ''Manual check required at https://breachdirectory.org/'' \<rparr>
             \<in> set (breach_sources rep))"
proof
  show "fst (check_breaches (example_env (answers 404 '''')) (BreachChecker example_config)
          new_world ''someone@example.test'')
     = Inr \<lparr> checked_email = ''someone@example.test'', total_breaches_found = 1,
             breach_sources = [''Breach Directory''], risk_level = ''Low'',
             recommendations =
               [''Change passwords for all accounts associated with this email'',
                ''Enable two-factor authentication where possible'',
                ''Monitor accounts for suspicious activity'',
                ''Consider using a password manager'',
                ''Check credit reports for unauthorized accounts''],
             last_checked = None \<rparr>"
    by code_simp
next
  show "\<not> found \<lparr> source = ''Breach Directory'', email = ''someone@example.test'',
                found = False, breaches = None, web_url = None,
                note_text = ''Manual check required at https://breachdirectory.org/'' \<rparr>
   \<and> (\<exists>rep h' w'.
         check_breaches (example_env (answers 404 '''')) (BreachChecker example_config)
             new_world ''someone@example.test'' = (Inr rep, h', w')
         \<and> total_breaches_found rep \<ge> 1
         \<and> risk_level rep \<noteq> ''Clean''
         \<and> (risk_level rep = ''Low'' \<or> risk_level rep = ''Medium'')
         \<and> source \<lparr> source = ''Breach Directory'', email = ''someone@example.test'',
                     found = False, breaches = None, web_url = None,
                     note_text = ''Manual check required at https://breachdirectory.org/'' \<rparr>
             \<in> set (breach_sources rep))"
    by (rule placeholder_counted_as_breach)
       (simp add: check_breachdirectory_def random_choice_def BreachChecker_def
          example_config_def example_env_def)
qed

end
